theory Spec2Isabelle
  imports Main
begin

section \<open>JavaScript values\<close>

text \<open>
  The tools are Node scripts. Their values are modelled by one datatype. Strings are
  lists of characters (bytes; a token of the command line is its UTF-8 text). No tool
  does arithmetic on a number: a number is kept as the text that \<^verbatim>\<open>String(n)\<close>
  gives for it, so \<^verbatim>\<open>0\<close> is \<open>JNum ''0''\<close> and not-a-number is \<open>JNum ''NaN''\<close>.
  An object is the list of its own properties in the order \<^verbatim>\<open>JSON.stringify\<close>
  writes them.
\<close>

datatype jsval =
    JUndef
  | JNull
  | JBool bool
  | JNum string
  | JStr string
  | JArr "jsval list"
  | JObj "(string \<times> jsval) list"

datatype exn = TypeError string | SyntaxError string | Error string

fun message :: "exn \<Rightarrow> string" where
  "message (TypeError m) = m"
| "message (SyntaxError m) = m"
| "message (Error m) = m"

text \<open>Truthiness, as \<^verbatim>\<open>if (v)\<close>, \<^verbatim>\<open>!v\<close>, \<^verbatim>\<open>a || b\<close> and \<^verbatim>\<open>a && b\<close> test it.\<close>

fun truthy :: "jsval \<Rightarrow> bool" where
  "truthy JUndef = False"
| "truthy JNull = False"
| "truthy (JBool b) = b"
| "truthy (JNum s) = (s \<noteq> ''0'' \<and> s \<noteq> ''NaN'')"
| "truthy (JStr s) = (s \<noteq> [])"
| "truthy (JArr xs) = True"
| "truthy (JObj ps) = True"

definition js_or :: "jsval \<Rightarrow> jsval \<Rightarrow> jsval" where
  "js_or a b = (if truthy a then a else b)"

text \<open>\<^verbatim>\<open>String(v)\<close>, which template literals and \<^verbatim>\<open>new Error(v)\<close> apply.\<close>

fun js_to_string :: "jsval \<Rightarrow> string" and js_join :: "jsval list \<Rightarrow> string" where
  "js_to_string JUndef = ''undefined''"
| "js_to_string JNull = ''null''"
| "js_to_string (JBool b) = (if b then ''true'' else ''false'')"
| "js_to_string (JNum s) = s"
| "js_to_string (JStr s) = s"
| "js_to_string (JArr xs) = js_join xs"
| "js_to_string (JObj ps) = ''[object Object]''"
| "js_join [] = []"
| "js_join (v # vs) =
     (if v = JUndef \<or> v = JNull then [] else js_to_string v)
     @ (if vs = [] then [] else '','' @ js_join vs)"

definition startsWith :: "string \<Rightarrow> string \<Rightarrow> bool" where
  "startsWith s p = (take (length p) s = p)"

subsection \<open>The argument object\<close>

text \<open>
  \<^verbatim>\<open>parseArgs\<close> builds one object that holds the positional array under the key
  \<^verbatim>\<open>_\<close> and every flag under its own name. Its key order is never observed, so it
  is a map. The object has the ordinary prototype: an assignment to \<^verbatim>\<open>__proto__\<close>
  goes to the inherited setter, which ignores a string and \<^verbatim>\<open>true\<close> and adds no
  own property. No tool reads a key that \<^verbatim>\<open>Object.prototype\<close> defines, so a read
  is a lookup of the own properties.
\<close>

type_synonym jsobj = "string \<rightharpoonup> jsval"

definition set_prop :: "jsobj \<Rightarrow> string \<Rightarrow> jsval \<Rightarrow> jsobj" where
  "set_prop obj key v = (if key = ''__proto__'' then obj else obj(key \<mapsto> v))"

definition get_prop :: "jsobj \<Rightarrow> string \<Rightarrow> jsval" where
  "get_prop obj key = (case obj key of None \<Rightarrow> JUndef | Some v \<Rightarrow> v)"

section \<open>The argument parser\<close>

text \<open>
  The same function in every tool:
  \<^verbatim>\<open>
  function parseArgs(args) {
    const result = { _: [] }
    for (let i = 0; i < args.length; i++) {
      const arg = args[i]
      if (arg.startsWith('--')) {
        const key = arg.slice(2)
        const next = args[i + 1]
        if (next && !next.startsWith('--')) { result[key] = next; i++ }
        else { result[key] = true }
      } else {
        result._.push(arg)
      }
    }
    return result
  }
  \<close>
  The loop is a recursion on the tokens that remain. \<^verbatim>\<open>next\<close> is falsy when there
  is no further token and when the further token is the empty string.
  \<^verbatim>\<open>result._.push\<close> is a call of the \<^verbatim>\<open>push\<close> member of whatever
  \<^verbatim>\<open>result._\<close> holds at that moment: a string or \<^verbatim>\<open>true\<close> has none, and the
  call raises a \<^verbatim>\<open>TypeError\<close>.
\<close>

fun parseArgs_loop :: "string list \<Rightarrow> jsobj \<Rightarrow> exn + jsobj" where
  "parseArgs_loop [] result = Inr result"
| "parseArgs_loop (arg # rest) result =
     (if startsWith arg ''--'' then
        (case rest of
           [] \<Rightarrow> parseArgs_loop rest (set_prop result (drop 2 arg) (JBool True))
         | nxt # rest' \<Rightarrow>
             if nxt \<noteq> [] \<and> \<not> startsWith nxt ''--''
             then parseArgs_loop rest' (set_prop result (drop 2 arg) (JStr nxt))
             else parseArgs_loop rest (set_prop result (drop 2 arg) (JBool True)))
      else
        (case result ''_'' of
           Some (JArr xs) \<Rightarrow> parseArgs_loop rest (result(''_'' \<mapsto> JArr (xs @ [JStr arg])))
         | _ \<Rightarrow> Inl (TypeError ''result._.push is not a function'')))"

definition parseArgs :: "string list \<Rightarrow> exn + jsobj" where
  "parseArgs args = parseArgs_loop args [''_'' \<mapsto> JArr []]"

text \<open>Reading the result of a parse: a flag, and the positional array.\<close>

definition flag_of :: "exn + jsobj \<Rightarrow> string \<Rightarrow> jsval option" where
  "flag_of res key = (case res of Inl e \<Rightarrow> None | Inr obj \<Rightarrow> obj key)"

subsection \<open>The pairing rule of the specification\<close>

text \<open>
  Section 4.1 of the specification reads the tokens from left to right: a token that
  begins with \<^verbatim>\<open>--\<close> is a flag and takes the following token as its value when
  that token can be a value, otherwise it is \<^verbatim>\<open>true\<close>; any other token is a
  positional. \<open>pair_tokens\<close> follows these words; \<open>is_value\<close> says which following
  token can be a value. The specification's test is \<open>spec_value\<close> (the token does not
  begin with \<^verbatim>\<open>--\<close>); the test the code makes is \<open>code_value\<close> (the token is,
  besides, not empty).
\<close>

datatype token = Flag string jsval | Positional string

fun pair_tokens :: "(string \<Rightarrow> bool) \<Rightarrow> string list \<Rightarrow> token list" where
  "pair_tokens is_value [] = []"
| "pair_tokens is_value (t # ts) =
     (if startsWith t ''--'' then
        (case ts of
           [] \<Rightarrow> [Flag (drop 2 t) (JBool True)]
         | n # ts' \<Rightarrow>
             if is_value n then Flag (drop 2 t) (JStr n) # pair_tokens is_value ts'
             else Flag (drop 2 t) (JBool True) # pair_tokens is_value ts)
      else Positional t # pair_tokens is_value ts)"

definition spec_value :: "string \<Rightarrow> bool" where
  "spec_value n = (\<not> startsWith n ''--'')"

definition code_value :: "string \<Rightarrow> bool" where
  "code_value n = (n \<noteq> [] \<and> \<not> startsWith n ''--'')"

text \<open>The value that the last flag of a given name carries, and the positionals in order.\<close>

fun last_flag :: "token list \<Rightarrow> string \<Rightarrow> jsval option" where
  "last_flag [] k = None"
| "last_flag (Flag k' v # ts) k =
     (case last_flag ts k of Some v' \<Rightarrow> Some v' | None \<Rightarrow> if k' = k then Some v else None)"
| "last_flag (Positional p # ts) k = last_flag ts k"

fun positionals :: "token list \<Rightarrow> string list" where
  "positionals [] = []"
| "positionals (Flag k v # ts) = positionals ts"
| "positionals (Positional p # ts) = p # positionals ts"

fun flag_names :: "token list \<Rightarrow> string list" where
  "flag_names [] = []"
| "flag_names (Flag k v # ts) = k # flag_names ts"
| "flag_names (Positional p # ts) = flag_names ts"

section \<open>The runtime the tools run on\<close>

subsection \<open>Objects that are printed\<close>

text \<open>
  An object that reaches \<^verbatim>\<open>JSON.stringify\<close> is the list of its own properties in
  the order of \<^verbatim>\<open>OrdinaryOwnPropertyKeys\<close>: the keys that are array indices first,
  in ascending order, then the other keys in the order of their creation. An
  assignment to an existing key keeps its place; an assignment to \<^verbatim>\<open>__proto__\<close>
  adds no own property.
\<close>

type_synonym props = "(string \<times> jsval) list"

definition is_digit :: "char \<Rightarrow> bool" where
  "is_digit c = (48 \<le> (of_char c :: nat) \<and> (of_char c :: nat) \<le> 57)"

definition digits_value :: "string \<Rightarrow> nat" where
  "digits_value s = foldl (\<lambda>a c. 10 * a + ((of_char c :: nat) - 48)) 0 s"

definition array_index :: "string \<Rightarrow> nat option" where
  "array_index k =
     (if k = ''0'' then Some 0
      else if k \<noteq> [] \<and> list_all is_digit k \<and> hd k \<noteq> CHR ''0'' \<and> digits_value k < 4294967295
      then Some (digits_value k) else None)"

fun insert_index :: "nat \<Rightarrow> string \<Rightarrow> jsval \<Rightarrow> props \<Rightarrow> props" where
  "insert_index n k v [] = [(k, v)]"
| "insert_index n k v ((k', v') # ps) =
     (case array_index k' of
        Some m \<Rightarrow> if m < n then (k', v') # insert_index n k v ps else (k, v) # (k', v') # ps
      | None \<Rightarrow> (k, v) # (k', v') # ps)"

definition obj_set :: "props \<Rightarrow> string \<Rightarrow> jsval \<Rightarrow> props" where
  "obj_set ps k v =
     (if k = ''__proto__'' then ps
      else if k \<in> fst ` set ps then map (\<lambda>(k', v'). if k' = k then (k', v) else (k', v')) ps
      else (case array_index k of Some n \<Rightarrow> insert_index n k v ps | None \<Rightarrow> ps @ [(k, v)]))"

text \<open>
  Reading a member of a value: \<^verbatim>\<open>v.name\<close>. It raises on \<^verbatim>\<open>null\<close> and
  \<^verbatim>\<open>undefined\<close>; a primitive and an array have none of the members read here.
\<close>

definition get_member :: "jsval \<Rightarrow> string \<Rightarrow> exn + jsval" where
  "get_member v name =
     (case v of
        JObj ps \<Rightarrow> (case map_of ps name of Some x \<Rightarrow> Inr x | None \<Rightarrow> Inr JUndef)
      | JNull \<Rightarrow> Inl (TypeError (''Cannot read properties of null (reading '' @ [CHR 0x27] @ name @ [CHR 0x27] @ '')''))
      | JUndef \<Rightarrow> Inl (TypeError (''Cannot read properties of undefined (reading '' @ [CHR 0x27] @ name @ [CHR 0x27] @ '')''))
      | _ \<Rightarrow> Inr JUndef)"

text \<open>
  Writing a member in sloppy mode (the scripts are CommonJS files without a strict
  directive): on an object it is \<open>obj_set\<close>; on an array it adds a property that
  \<^verbatim>\<open>JSON.stringify\<close> does not print; on a boolean, a number or a string it is
  ignored; on \<^verbatim>\<open>null\<close> it raises.
\<close>

definition set_member :: "jsval \<Rightarrow> string \<Rightarrow> jsval \<Rightarrow> exn + jsval" where
  "set_member v name x =
     (case v of
        JObj ps \<Rightarrow> Inr (JObj (obj_set ps name x))
      | JNull \<Rightarrow> Inl (TypeError (''Cannot set properties of null (setting '' @ [CHR 0x27] @ name @ [CHR 0x27] @ '')''))
      | JUndef \<Rightarrow> Inl (TypeError (''Cannot set properties of undefined (setting '' @ [CHR 0x27] @ name @ [CHR 0x27] @ '')''))
      | _ \<Rightarrow> Inr v)"

subsection \<open>Strings\<close>

text \<open>\<^verbatim>\<open>s.split(c)\<close> for a one-character separator.\<close>

fun split_on :: "char \<Rightarrow> string \<Rightarrow> string list" where
  "split_on c [] = [[]]"
| "split_on c (x # xs) =
     (if x = c then [] # split_on c xs
      else (case split_on c xs of y # ys \<Rightarrow> (x # y) # ys | [] \<Rightarrow> [[x]]))"

text \<open>
  \<^verbatim>\<open>v.split(c)\<close> where \<open>v\<close> is the value of a flag: a flag given without a value is
  \<^verbatim>\<open>true\<close>, which has no \<^verbatim>\<open>split\<close>, and the call raises. \<open>what\<close> is the source text
  of the callee, which the message quotes.
\<close>

definition js_split :: "string \<Rightarrow> jsval \<Rightarrow> char \<Rightarrow> exn + string list" where
  "js_split what v c =
     (case v of
        JStr s \<Rightarrow> Inr (split_on c s)
      | JUndef \<Rightarrow> Inl (TypeError (''Cannot read properties of undefined (reading '' @ [CHR 0x27] @ ''split'' @ [CHR 0x27] @ '')''))
      | JNull \<Rightarrow> Inl (TypeError (''Cannot read properties of null (reading '' @ [CHR 0x27] @ ''split'' @ [CHR 0x27] @ '')''))
      | _ \<Rightarrow> Inl (TypeError (what @ '' is not a function'')))"

subsection \<open>Query strings\<close>

text \<open>
  \<^verbatim>\<open>URLSearchParams\<close>: a list of name and value pairs. \<^verbatim>\<open>set\<close> replaces the first
  pair of that name and removes the others, or appends. \<^verbatim>\<open>toString\<close> is the
  \<^verbatim>\<open>application/x-www-form-urlencoded\<close> serialiser: letters, digits and
  \<^verbatim>\<open>* - . _\<close> stay, a space becomes \<^verbatim>\<open>+\<close>, every other byte is written
  \<^verbatim>\<open>%XX\<close>.
\<close>

type_synonym params = "(string \<times> string) list"

fun params_set :: "params \<Rightarrow> string \<Rightarrow> string \<Rightarrow> params" where
  "params_set [] k v = [(k, v)]"
| "params_set ((k', v') # ps) k v =
     (if k' = k then (k, v) # filter (\<lambda>p. fst p \<noteq> k) ps else (k', v') # params_set ps k v)"

definition hex_digit :: "nat \<Rightarrow> char" where
  "hex_digit n = ''0123456789ABCDEF'' ! n"

definition percent :: "char \<Rightarrow> string" where
  "percent c = [CHR ''%'', hex_digit ((of_char c :: nat) div 16), hex_digit ((of_char c :: nat) mod 16)]"

definition is_alnum :: "char \<Rightarrow> bool" where
  "is_alnum c = (let n = (of_char c :: nat) in
     (48 \<le> n \<and> n \<le> 57) \<or> (65 \<le> n \<and> n \<le> 90) \<or> (97 \<le> n \<and> n \<le> 122))"

definition form_byte :: "char \<Rightarrow> string" where
  "form_byte c =
     (if c = CHR '' '' then ''+''
      else if is_alnum c \<or> c \<in> set ''*-._'' then [c]
      else percent c)"

definition form_encode :: "string \<Rightarrow> string" where
  "form_encode s = concat (map form_byte s)"

fun join_with :: "string \<Rightarrow> string list \<Rightarrow> string" where
  "join_with sep [] = []"
| "join_with sep [x] = x"
| "join_with sep (x # y # ys) = x @ sep @ join_with sep (y # ys)"

definition params_toString :: "params \<Rightarrow> string" where
  "params_toString ps = join_with ''&'' (map (\<lambda>(k, v). form_encode k @ ''='' @ form_encode v) ps)"

text \<open>\<^verbatim>\<open>encodeURIComponent\<close>: letters, digits and \<^verbatim>\<open>- _ . ! ~ * ' ( )\<close> stay.\<close>

definition uri_component_byte :: "char \<Rightarrow> string" where
  "uri_component_byte c =
     (if is_alnum c \<or> c \<in> set ''-_.!~*()'' \<or> c = CHR 0x27 then [c] else percent c)"

definition encodeURIComponent :: "string \<Rightarrow> string" where
  "encodeURIComponent s = concat (map uri_component_byte s)"

text \<open>\<^verbatim>\<open>if (args[flag]) params.set(name, args[flag])\<close>\<close>

definition set_if :: "jsobj \<Rightarrow> string \<Rightarrow> string \<Rightarrow> params \<Rightarrow> params" where
  "set_if args flag name ps =
     (if truthy (get_prop args flag) then params_set ps name (js_to_string (get_prop args flag))
      else ps)"

text \<open>
  \<^verbatim>\<open>new URLSearchParams({ name: value, ... })\<close> turns every value into a string, a
  missing flag into the text \<^verbatim>\<open>undefined\<close>.
\<close>

definition params_of :: "(string \<times> jsval) list \<Rightarrow> params" where
  "params_of ps = map (\<lambda>(k, v). (k, js_to_string v)) ps"

text \<open>\<^verbatim>\<open>${qs ? '?' + qs : ''}\<close>\<close>

definition query_suffix :: "string \<Rightarrow> string" where
  "query_suffix qs = (if qs = [] then [] else ''?'' @ qs)"

subsection \<open>The network, the host functions and the process\<close>

text \<open>
  A request as \<^verbatim>\<open>fetch\<close> receives it. A body is either absent, the
  \<^verbatim>\<open>JSON.stringify\<close> of a value, or a text.
\<close>

datatype body = No_body | Json_body jsval | Text_body string

record request =
  req_method :: string
  req_url :: string
  req_headers :: "(string \<times> string) list"
  req_body :: body

text \<open>
  A response: the status code as the digits of the status line, \<^verbatim>\<open>res.ok\<close> and
  the text of the body.
\<close>

record response =
  res_status :: string
  res_ok :: bool
  res_text :: string

text \<open>
  What a process is started in. The environment and the argument tokens
  (\<^verbatim>\<open>process.argv.slice(2)\<close>) are data. The functions of the host are parameters:
  \<open>fetch\<close> answers a request or fails with a message; \<open>json_parse\<close> is
  \<^verbatim>\<open>JSON.parse\<close>, which returns a value or the message of its SyntaxError;
  \<open>to_number\<close>, \<open>parse_float\<close> and \<open>parse_int\<close> are \<^verbatim>\<open>Number\<close>,
  \<^verbatim>\<open>parseFloat\<close> and \<^verbatim>\<open>parseInt\<close>; \<open>base64\<close> is
  \<^verbatim>\<open>Buffer.from(s).toString('base64')\<close>; \<open>toISOString\<close> is the clock:
  \<open>toISOString w d\<close> is the ISO text of the instant \<open>d\<close> milliseconds after now.
\<close>

record world =
  env :: "string \<rightharpoonup> string"
  argv :: "string list"
  fetch :: "request \<Rightarrow> string + response"
  json_parse :: "string \<Rightarrow> string + jsval"
  to_number :: "jsval \<Rightarrow> jsval"
  parse_float :: "jsval \<Rightarrow> jsval"
  parse_int :: "jsval \<Rightarrow> jsval"
  base64 :: "string \<Rightarrow> string"
  toISOString :: "int \<Rightarrow> string"

text \<open>
  What a process leaves behind. A line of output is the compact
  \<^verbatim>\<open>JSON.stringify(v)\<close> of a value, the indented \<^verbatim>\<open>JSON.stringify(v, null, 2)\<close>
  of a value, or the stack trace that Node prints for an exception nobody caught (after
  which it exits with code 1).
\<close>

datatype line = Json_compact jsval | Json_pretty jsval | Stack_trace exn

record outcome =
  stdout :: "line list"
  stderr :: "line list"
  exit_code :: nat
  requests :: "request list"

text \<open>
  A computation inside \<^verbatim>\<open>main\<close>: the value it returns or the exception it
  raises, and the requests it sent.
\<close>

type_synonym result = "(exn + jsval) \<times> request list"

definition ret :: "jsval \<Rightarrow> result" where
  "ret v = (Inr v, [])"

definition throw :: "exn \<Rightarrow> result" where
  "throw e = (Inl e, [])"

definition error_obj :: "string \<Rightarrow> jsval" where
  "error_obj m = JObj [(''error'', JStr m)]"

definition env_value :: "world \<Rightarrow> string \<Rightarrow> jsval" where
  \<comment> \<open>\<^verbatim>\<open>process.env.NAME\<close>: a string, or \<^verbatim>\<open>undefined\<close> when the variable is unset\<close>
  "env_value w name = (case env w name of None \<Rightarrow> JUndef | Some v \<Rightarrow> JStr v)"

text \<open>
  \<^verbatim>\<open>console.error(JSON.stringify({ error: '...' })); process.exit(1)\<close>, the
  credential gate of every tool.
\<close>

definition gate_failure :: "string \<Rightarrow> outcome" where
  "gate_failure m =
     \<lparr>stdout = [], stderr = [Json_compact (error_obj m)], exit_code = 1, requests = []\<rparr>"

text \<open>An exception at module scope, outside \<^verbatim>\<open>main().catch\<close>.\<close>

definition uncaught :: "exn \<Rightarrow> outcome" where
  "uncaught e = \<lparr>stdout = [], stderr = [Stack_trace e], exit_code = 1, requests = []\<rparr>"

text \<open>
  The characters of a string, as a string iterator yields them: one code point at a
  time. A string is held as its UTF-8 bytes, so a character is a byte that is not a
  continuation byte (\<^verbatim>\<open>10xxxxxx\<close>) together with the continuation bytes that
  follow it.
\<close>

definition is_continuation :: "char \<Rightarrow> bool" where
  "is_continuation c = (128 \<le> (of_char c :: nat) \<and> (of_char c :: nat) < 192)"

fun code_points :: "string \<Rightarrow> string list" where
  "code_points [] = []"
| "code_points (c # s) =
     (case code_points s of
        [] \<Rightarrow> [[c]]
      | g # gs \<Rightarrow> if is_continuation (hd g) then (c # g) # gs else [c] # g # gs)"

text \<open>
  \<^verbatim>\<open>const [cmd, sub, ...rest] = args._\<close> iterates what \<^verbatim>\<open>args._\<close> holds: the
  positional array, or, after a flag \<^verbatim>\<open>--_\<close>, a string (its characters, one by one)
  or \<^verbatim>\<open>true\<close>, which is not iterable. \<open>not_iterable\<close> is the message of the
  TypeError that V8 raises for a value without an iterator, which names the type of the
  value and, for a primitive, the value.
\<close>

definition nth_or_undef :: "jsval list \<Rightarrow> nat \<Rightarrow> jsval" where
  "nth_or_undef xs i = (if i < length xs then xs ! i else JUndef)"

definition not_iterable :: "jsval \<Rightarrow> string" where
  "not_iterable v =
     (case v of
        JUndef \<Rightarrow> ''undefined''
      | JNull \<Rightarrow> ''object null''
      | JBool b \<Rightarrow> ''boolean '' @ js_to_string v
      | JNum n \<Rightarrow> ''number '' @ n
      | _ \<Rightarrow> ''object'')
     @ '' is not iterable (cannot read property Symbol(Symbol.iterator))''"

definition destructure :: "jsval \<Rightarrow> exn + (jsval \<times> jsval)" where
  "destructure v =
     (case v of
        JArr xs \<Rightarrow> Inr (nth_or_undef xs 0, nth_or_undef xs 1)
      | JStr s \<Rightarrow> Inr (nth_or_undef (map JStr (code_points s)) 0, nth_or_undef (map JStr (code_points s)) 1)
      | _ \<Rightarrow> Inl (TypeError (not_iterable v)))"

text \<open>
  The end of every script:
  \<^verbatim>\<open>
  async function main() { ...; console.log(JSON.stringify(result, null, 2)) }
  main().catch(err => {
    console.error(JSON.stringify({ error: err.message }))
    process.exit(1)
  })
  \<close>
\<close>

definition boundary :: "result \<Rightarrow> outcome" where
  "boundary r =
     (case r of
        (Inr v, reqs) \<Rightarrow> \<lparr>stdout = [Json_pretty v], stderr = [], exit_code = 0, requests = reqs\<rparr>
      | (Inl e, reqs) \<Rightarrow>
          \<lparr>stdout = [], stderr = [Json_compact (error_obj (message e))], exit_code = 1,
           requests = reqs\<rparr>)"

text \<open>
  The common tail of the request functions:
  \<^verbatim>\<open>
  const text = await res.text()
  try { return JSON.parse(text) } catch { return { status: res.status, body: text } }
  \<close>
\<close>

definition read_response :: "world \<Rightarrow> response \<Rightarrow> jsval" where
  "read_response w res =
     (case json_parse w (res_text res) of
        Inr v \<Rightarrow> v
      | Inl m \<Rightarrow> JObj [(''status'', JNum (res_status res)), (''body'', JStr (res_text res))])"

text \<open>One request, answered or failed. A failed \<^verbatim>\<open>fetch\<close> rejects with a TypeError.\<close>

definition send :: "world \<Rightarrow> request \<Rightarrow> (exn + response) \<times> request list" where
  "send w req = (case fetch w req of Inl m \<Rightarrow> (Inl (TypeError m), [req]) | Inr res \<Rightarrow> (Inr res, [req]))"

text \<open>\<^verbatim>\<open>{ _dry_run: true, method, url, headers, body: body || undefined }\<close>\<close>

definition dry_run_descriptor :: "string \<Rightarrow> string \<Rightarrow> props \<Rightarrow> jsval \<Rightarrow> jsval" where
  "dry_run_descriptor method url headers body =
     JObj [(''_dry_run'', JBool True), (''method'', JStr method), (''url'', JStr url),
           (''headers'', JObj headers), (''body'', js_or body JUndef)]"

definition header_props :: "(string \<times> string) list \<Rightarrow> props" where
  "header_props hs = map (\<lambda>(k, v). (k, JStr v)) hs"

subsection \<open>The compact JSON text of a value\<close>

text \<open>
  \<^verbatim>\<open>JSON.stringify(v)\<close> without indentation, for a value inside an array or an
  object: a string is quoted, with the quote, the backslash and the control characters
  escaped; \<^verbatim>\<open>undefined\<close> and the numbers that are not finite are \<^verbatim>\<open>null\<close> in
  an array; a property whose value is \<^verbatim>\<open>undefined\<close> is left out.
\<close>

definition lower_hex_digit :: "nat \<Rightarrow> char" where
  "lower_hex_digit n = ''0123456789abcdef'' ! n"

definition json_escape :: "char \<Rightarrow> string" where
  "json_escape c =
     (let n = (of_char c :: nat) in
      if n = 34 then [CHR 0x5C, CHR 0x22]
      else if n = 92 then [CHR 0x5C, CHR 0x5C]
      else if n = 8 then [CHR 0x5C, CHR ''b'']
      else if n = 12 then [CHR 0x5C, CHR ''f'']
      else if n = 10 then [CHR 0x5C, CHR ''n'']
      else if n = 13 then [CHR 0x5C, CHR ''r'']
      else if n = 9 then [CHR 0x5C, CHR ''t'']
      else if n < 32 then [CHR 0x5C, CHR ''u'', CHR ''0'', CHR ''0'',
                           lower_hex_digit (n div 16), lower_hex_digit (n mod 16)]
      else [c])"

definition json_quote :: "string \<Rightarrow> string" where
  "json_quote s = [CHR 0x22] @ concat (map json_escape s) @ [CHR 0x22]"

fun stringify :: "jsval \<Rightarrow> string"
  and stringify_items :: "jsval list \<Rightarrow> string list"
  and stringify_props :: "(string \<times> jsval) list \<Rightarrow> string list" where
  "stringify JUndef = ''null''"
| "stringify JNull = ''null''"
| "stringify (JBool b) = (if b then ''true'' else ''false'')"
| "stringify (JNum s) = (if s = ''NaN'' \<or> s = ''Infinity'' \<or> s = ''-Infinity'' then ''null'' else s)"
| "stringify (JStr s) = json_quote s"
| "stringify (JArr xs) = ''['' @ join_with '','' (stringify_items xs) @ '']''"
| "stringify (JObj ps) = ''{'' @ join_with '','' (stringify_props ps) @ ''}''"
| "stringify_items [] = []"
| "stringify_items (x # xs) = stringify x # stringify_items xs"
| "stringify_props [] = []"
| "stringify_props ((k, v) # ps) =
     (if v = JUndef then stringify_props ps
      else (json_quote k @ '':'' @ stringify v) # stringify_props ps)"

section \<open>The Klaviyo tool (klaviyo.js)\<close>

definition klaviyo_BASE_URL :: string where
  "klaviyo_BASE_URL = ''https://a.klaviyo.com/api''"

definition klaviyo_REVISION :: string where
  "klaviyo_REVISION = ''2024-10-15''"

text \<open>
  \<^verbatim>\<open>
  async function api(method, path, body) {
    const headers = { 'Authorization': `Klaviyo-API-Key ${API_KEY}`,
      'Content-Type': 'application/json', 'Accept': 'application/json', 'revision': REVISION }
    if (args['dry-run']) {
      return { _dry_run: true, method, url: `${BASE_URL}${path}`,
               headers: { ...headers, Authorization: '***' }, body: body || undefined }
    }
    const res = await fetch(`${BASE_URL}${path}`,
      { method, headers, body: body ? JSON.stringify(body) : undefined })
    ...
  }
  \<close>
\<close>

definition klaviyo_headers :: "string \<Rightarrow> (string \<times> string) list" where
  "klaviyo_headers API_KEY =
     [(''Authorization'', ''Klaviyo-API-Key '' @ API_KEY),
      (''Content-Type'', ''application/json''),
      (''Accept'', ''application/json''),
      (''revision'', klaviyo_REVISION)]"

definition klaviyo_api :: "world \<Rightarrow> string \<Rightarrow> jsobj \<Rightarrow> string \<Rightarrow> string \<Rightarrow> jsval \<Rightarrow> result" where
  "klaviyo_api w API_KEY args method path body =
     (if truthy (get_prop args ''dry-run'') then
        ret (dry_run_descriptor method (klaviyo_BASE_URL @ path)
               (obj_set (header_props (klaviyo_headers API_KEY)) ''Authorization'' (JStr ''***''))
               body)
      else
        (case send w \<lparr>req_method = method, req_url = klaviyo_BASE_URL @ path,
                       req_headers = klaviyo_headers API_KEY,
                       req_body = (if truthy body then Json_body body else No_body)\<rparr> of
           (Inl e, reqs) \<Rightarrow> (Inl e, reqs)
         | (Inr res, reqs) \<Rightarrow> (Inr (read_response w res), reqs)))"

text \<open>
  The handlers of \<^verbatim>\<open>main\<close>, one definition for each primary command; each is the
  inner \<^verbatim>\<open>switch (sub)\<close> of the source, case by case and in its order.
\<close>

definition klaviyo_get_by_id :: "world \<Rightarrow> string \<Rightarrow> jsobj \<Rightarrow> string \<Rightarrow> result" where
  \<comment> \<open>\<^verbatim>\<open>const id = args.id; if (!id) { result = { error: '--id required' }; break };
      result = await api('GET', `/<resource>/${id}/`)\<close>\<close>
  "klaviyo_get_by_id w API_KEY args resource =
     (let id = get_prop args ''id'' in
      if \<not> truthy id then ret (error_obj ''--id required'')
      else klaviyo_api w API_KEY args ''GET'' (''/'' @ resource @ ''/'' @ js_to_string id @ ''/'') JUndef)"

definition klaviyo_profile_attributes :: "jsobj \<Rightarrow> props \<Rightarrow> props" where
  \<comment> \<open>the three optional attributes that \<^verbatim>\<open>create\<close> and \<^verbatim>\<open>update\<close> copy\<close>
  "klaviyo_profile_attributes args attributes =
     (let a1 = (if truthy (get_prop args ''first-name'')
                then obj_set attributes ''first_name'' (get_prop args ''first-name'') else attributes);
          a2 = (if truthy (get_prop args ''last-name'')
                then obj_set a1 ''last_name'' (get_prop args ''last-name'') else a1)
      in if truthy (get_prop args ''phone'')
         then obj_set a2 ''phone_number'' (get_prop args ''phone'') else a2)"

definition klaviyo_profiles :: "world \<Rightarrow> string \<Rightarrow> jsobj \<Rightarrow> jsval \<Rightarrow> result" where
  "klaviyo_profiles w API_KEY args sub =
     (if sub = JStr ''list'' then
        (let qs = params_toString
                    (set_if args ''page-cursor'' ''page[cursor]''
                      (set_if args ''page-size'' ''page[size]''
                        (set_if args ''sort'' ''sort''
                          (set_if args ''filter'' ''filter'' []))))
         in klaviyo_api w API_KEY args ''GET'' (''/profiles/'' @ query_suffix qs) JUndef)
      else if sub = JStr ''get'' then klaviyo_get_by_id w API_KEY args ''profiles''
      else if sub = JStr ''create'' then
        (let email = get_prop args ''email'' in
         if \<not> truthy email then ret (error_obj ''--email required'')
         else klaviyo_api w API_KEY args ''POST'' ''/profiles/''
                (JObj [(''data'', JObj [(''type'', JStr ''profile''),
                   (''attributes'', JObj (klaviyo_profile_attributes args [(''email'', email)]))])]))
      else if sub = JStr ''update'' then
        (let id = get_prop args ''id'' in
         if \<not> truthy id then ret (error_obj ''--id required'')
         else klaviyo_api w API_KEY args ''PATCH'' (''/profiles/'' @ js_to_string id @ ''/'')
                (JObj [(''data'', JObj [(''type'', JStr ''profile''), (''id'', id),
                   (''attributes'', JObj (klaviyo_profile_attributes args
                      (if truthy (get_prop args ''email'')
                       then [(''email'', get_prop args ''email'')] else [])))])]))
      else ret (error_obj ''Unknown profiles subcommand. Use: list, get, create, update''))"

definition klaviyo_list_profiles :: "world \<Rightarrow> string \<Rightarrow> jsobj \<Rightarrow> string \<Rightarrow> result" where
  \<comment> \<open>\<^verbatim>\<open>add-profiles\<close> (POST) and \<^verbatim>\<open>remove-profiles\<close> (DELETE), the same but for
      the method\<close>
  "klaviyo_list_profiles w API_KEY args method =
     (let id = get_prop args ''id'' in
      if \<not> truthy id then ret (error_obj ''--id required (list ID)'')
      else if get_prop args ''profiles'' = JUndef then
        ret (error_obj ''--profiles required (comma-separated profile IDs)'')
      else
        (case js_split ''args.profiles?.split'' (get_prop args ''profiles'') (CHR '','') of
           Inl e \<Rightarrow> throw e
         | Inr profileIds \<Rightarrow>
             klaviyo_api w API_KEY args method
               (''/lists/'' @ js_to_string id @ ''/relationships/profiles/'')
               (JObj [(''data'',
                  JArr (map (\<lambda>pid. JObj [(''type'', JStr ''profile''), (''id'', JStr pid)])
                          profileIds))])))"

definition klaviyo_lists :: "world \<Rightarrow> string \<Rightarrow> jsobj \<Rightarrow> jsval \<Rightarrow> result" where
  "klaviyo_lists w API_KEY args sub =
     (if sub = JStr ''list'' then
        (let qs = params_toString (set_if args ''page-size'' ''page[size]'' [])
         in klaviyo_api w API_KEY args ''GET'' (''/lists/'' @ query_suffix qs) JUndef)
      else if sub = JStr ''get'' then klaviyo_get_by_id w API_KEY args ''lists''
      else if sub = JStr ''create'' then
        (let name = get_prop args ''name'' in
         if \<not> truthy name then ret (error_obj ''--name required'')
         else klaviyo_api w API_KEY args ''POST'' ''/lists/''
                (JObj [(''data'', JObj [(''type'', JStr ''list''),
                   (''attributes'', JObj [(''name'', name)])])]))
      else if sub = JStr ''delete'' then
        (let id = get_prop args ''id'' in
         if \<not> truthy id then ret (error_obj ''--id required'')
         else klaviyo_api w API_KEY args ''DELETE'' (''/lists/'' @ js_to_string id @ ''/'') JUndef)
      else if sub = JStr ''add-profiles'' then klaviyo_list_profiles w API_KEY args ''POST''
      else if sub = JStr ''remove-profiles'' then klaviyo_list_profiles w API_KEY args ''DELETE''
      else ret (error_obj
        ''Unknown lists subcommand. Use: list, get, create, delete, add-profiles, remove-profiles''))"

text \<open>
  \<^verbatim>\<open>
  for (const pair of pairs) {
    const [k, v] = pair.split(':')
    if (k && v) properties[k] = v
  }
  \<close>
\<close>

fun klaviyo_add_pairs :: "props \<Rightarrow> string list \<Rightarrow> props" where
  "klaviyo_add_pairs properties [] = properties"
| "klaviyo_add_pairs properties (pair # pairs) =
     klaviyo_add_pairs
       (case split_on (CHR '':'') pair of
          k # v # others \<Rightarrow> if k \<noteq> [] \<and> v \<noteq> [] then obj_set properties k (JStr v) else properties
        | _ \<Rightarrow> properties)
       pairs"

definition klaviyo_filter_page :: "jsobj \<Rightarrow> string" where
  \<comment> \<open>the query of the \<^verbatim>\<open>list\<close> handlers that take \<^verbatim>\<open>--filter\<close> and
      \<^verbatim>\<open>--page-size\<close>\<close>
  "klaviyo_filter_page args =
     params_toString (set_if args ''page-size'' ''page[size]'' (set_if args ''filter'' ''filter'' []))"

definition klaviyo_events :: "world \<Rightarrow> string \<Rightarrow> jsobj \<Rightarrow> jsval \<Rightarrow> result" where
  "klaviyo_events w API_KEY args sub =
     (if sub = JStr ''list'' then
        klaviyo_api w API_KEY args ''GET'' (''/events/'' @ query_suffix (klaviyo_filter_page args)) JUndef
      else if sub = JStr ''get'' then klaviyo_get_by_id w API_KEY args ''events''
      else if sub = JStr ''create'' then
        (let metric = get_prop args ''metric''; email = get_prop args ''email'' in
         if \<not> truthy metric then ret (error_obj ''--metric required (metric name)'')
         else if \<not> truthy email then ret (error_obj ''--email required'')
         else
           (let p1 = (if truthy (get_prop args ''value'')
                      then [(''value'', to_number w (get_prop args ''value''))] else [])
            in case (if truthy (get_prop args ''property'')
                     then map_sum id (klaviyo_add_pairs p1)
                            (js_split ''args.property.split'' (get_prop args ''property'') (CHR '',''))
                     else Inr p1) of
                 Inl e \<Rightarrow> throw e
               | Inr properties \<Rightarrow>
                   klaviyo_api w API_KEY args ''POST'' ''/events/''
                     (JObj [(''data'', JObj [(''type'', JStr ''event''),
                        (''attributes'', JObj [
                           (''metric'', JObj [(''data'', JObj [(''type'', JStr ''metric''),
                              (''attributes'', JObj [(''name'', metric)])])]),
                           (''profile'', JObj [(''data'', JObj [(''type'', JStr ''profile''),
                              (''attributes'', JObj [(''email'', email)])])]),
                           (''properties'', JObj properties),
                           (''time'', JStr (toISOString w 0))])])])))
      else ret (error_obj ''Unknown events subcommand. Use: list, get, create''))"

definition klaviyo_campaigns :: "world \<Rightarrow> string \<Rightarrow> jsobj \<Rightarrow> jsval \<Rightarrow> result" where
  "klaviyo_campaigns w API_KEY args sub =
     (if sub = JStr ''list'' then
        klaviyo_api w API_KEY args ''GET'' (''/campaigns/'' @ query_suffix (klaviyo_filter_page args)) JUndef
      else if sub = JStr ''get'' then klaviyo_get_by_id w API_KEY args ''campaigns''
      else ret (error_obj ''Unknown campaigns subcommand. Use: list, get''))"

definition klaviyo_flows :: "world \<Rightarrow> string \<Rightarrow> jsobj \<Rightarrow> jsval \<Rightarrow> result" where
  "klaviyo_flows w API_KEY args sub =
     (if sub = JStr ''list'' then
        klaviyo_api w API_KEY args ''GET'' (''/flows/'' @ query_suffix (klaviyo_filter_page args)) JUndef
      else if sub = JStr ''get'' then klaviyo_get_by_id w API_KEY args ''flows''
      else if sub = JStr ''update'' then
        (let id = get_prop args ''id'' in
         if \<not> truthy id then ret (error_obj ''--id required'')
         else klaviyo_api w API_KEY args ''PATCH'' (''/flows/'' @ js_to_string id @ ''/'')
                (JObj [(''data'', JObj [(''type'', JStr ''flow''), (''id'', id),
                   (''attributes'', JObj (if truthy (get_prop args ''status'')
                      then [(''status'', get_prop args ''status'')] else []))])]))
      else ret (error_obj ''Unknown flows subcommand. Use: list, get, update''))"

definition klaviyo_metrics :: "world \<Rightarrow> string \<Rightarrow> jsobj \<Rightarrow> jsval \<Rightarrow> result" where
  "klaviyo_metrics w API_KEY args sub =
     (if sub = JStr ''list'' then
        klaviyo_api w API_KEY args ''GET''
          (''/metrics/'' @ query_suffix (params_toString (set_if args ''page-size'' ''page[size]'' []))) JUndef
      else if sub = JStr ''get'' then klaviyo_get_by_id w API_KEY args ''metrics''
      else ret (error_obj ''Unknown metrics subcommand. Use: list, get''))"

definition klaviyo_segments :: "world \<Rightarrow> string \<Rightarrow> jsobj \<Rightarrow> jsval \<Rightarrow> result" where
  "klaviyo_segments w API_KEY args sub =
     (if sub = JStr ''list'' then
        klaviyo_api w API_KEY args ''GET''
          (''/segments/'' @ query_suffix (params_toString (set_if args ''page-size'' ''page[size]'' []))) JUndef
      else if sub = JStr ''get'' then klaviyo_get_by_id w API_KEY args ''segments''
      else ret (error_obj ''Unknown segments subcommand. Use: list, get''))"

definition klaviyo_templates :: "world \<Rightarrow> string \<Rightarrow> jsobj \<Rightarrow> jsval \<Rightarrow> result" where
  "klaviyo_templates w API_KEY args sub =
     (if sub = JStr ''list'' then
        klaviyo_api w API_KEY args ''GET'' (''/templates/'' @ query_suffix (klaviyo_filter_page args)) JUndef
      else if sub = JStr ''get'' then klaviyo_get_by_id w API_KEY args ''templates''
      else ret (error_obj ''Unknown templates subcommand. Use: list, get''))"

definition klaviyo_usage :: jsval where
  "klaviyo_usage = JObj [
     (''error'', JStr ''Unknown command''),
     (''usage'', JObj [
        (''profiles'', JStr ''profiles [list | get --id <id> | create --email <email> | update --id <id>]''),
        (''lists'', JStr ''lists [list | get --id <id> | create --name <name> | delete --id <id> | add-profiles --id <list-id> --profiles <id1,id2> | remove-profiles --id <list-id> --profiles <id1,id2>]''),
        (''events'', JStr ''events [list | get --id <id> | create --metric <name> --email <email>]''),
        (''campaigns'', JStr ''campaigns [list | get --id <id>]''),
        (''flows'', JStr ''flows [list | get --id <id> | update --id <id> --status <status>]''),
        (''metrics'', JStr ''metrics [list | get --id <id>]''),
        (''segments'', JStr ''segments [list | get --id <id>]''),
        (''templates'', JStr ''templates [list | get --id <id>]''),
        (''options'', JStr ''--filter <filter> --page-size <n> --page-cursor <cursor>'')])]"

definition klaviyo_main :: "world \<Rightarrow> string \<Rightarrow> jsobj \<Rightarrow> jsval \<Rightarrow> jsval \<Rightarrow> result" where
  "klaviyo_main w API_KEY args cmd sub =
     (if cmd = JStr ''profiles'' then klaviyo_profiles w API_KEY args sub
      else if cmd = JStr ''lists'' then klaviyo_lists w API_KEY args sub
      else if cmd = JStr ''events'' then klaviyo_events w API_KEY args sub
      else if cmd = JStr ''campaigns'' then klaviyo_campaigns w API_KEY args sub
      else if cmd = JStr ''flows'' then klaviyo_flows w API_KEY args sub
      else if cmd = JStr ''metrics'' then klaviyo_metrics w API_KEY args sub
      else if cmd = JStr ''segments'' then klaviyo_segments w API_KEY args sub
      else if cmd = JStr ''templates'' then klaviyo_templates w API_KEY args sub
      else ret klaviyo_usage)"

text \<open>
  The script from top to bottom: the credential gate, the parse and the destructuring
  at module scope, then \<^verbatim>\<open>main\<close> under its \<^verbatim>\<open>catch\<close>.
\<close>

definition klaviyo_script :: "world \<Rightarrow> string \<Rightarrow> outcome" where
  \<comment> \<open>the script below the gate, with the key that passed it\<close>
  "klaviyo_script w API_KEY =
     (case parseArgs (argv w) of
        Inl e \<Rightarrow> uncaught e
      | Inr args \<Rightarrow>
          (case destructure (get_prop args ''_'') of
             Inl e \<Rightarrow> uncaught e
           | Inr (cmd, sub) \<Rightarrow> boundary (klaviyo_main w API_KEY args cmd sub)))"

definition klaviyo :: "world \<Rightarrow> outcome" where
  "klaviyo w =
     (case env w ''KLAVIYO_API_KEY'' of
        None \<Rightarrow> gate_failure ''KLAVIYO_API_KEY environment variable required''
      | Some API_KEY \<Rightarrow>
          if API_KEY = [] then gate_failure ''KLAVIYO_API_KEY environment variable required''
          else klaviyo_script w API_KEY)"

section \<open>The Semrush tool (semrush.js)\<close>

definition semrush_BASE_URL :: string where
  "semrush_BASE_URL = ''https://api.semrush.com/''"

text \<open>
  \<^verbatim>\<open>s.trim()\<close> removes the white space and the line terminators of ECMAScript
  from both ends: tab, line feed, vertical tab, form feed, carriage return, space,
  U+00A0, U+1680, U+2000 to U+200A, U+2028, U+2029, U+202F, U+205F, U+3000 and U+FEFF,
  each written here as its UTF-8 bytes.
\<close>

definition white_space :: "string list" where
  "white_space =
     [[CHR 0x09], [CHR 0x0A], [CHR 0x0B], [CHR 0x0C], [CHR 0x0D], [CHR 0x20],
      [CHR 0xC2, CHR 0xA0],
      [CHR 0xE1, CHR 0x9A, CHR 0x80],
      [CHR 0xE2, CHR 0x80, CHR 0x80], [CHR 0xE2, CHR 0x80, CHR 0x81], [CHR 0xE2, CHR 0x80, CHR 0x82],
      [CHR 0xE2, CHR 0x80, CHR 0x83], [CHR 0xE2, CHR 0x80, CHR 0x84], [CHR 0xE2, CHR 0x80, CHR 0x85],
      [CHR 0xE2, CHR 0x80, CHR 0x86], [CHR 0xE2, CHR 0x80, CHR 0x87], [CHR 0xE2, CHR 0x80, CHR 0x88],
      [CHR 0xE2, CHR 0x80, CHR 0x89], [CHR 0xE2, CHR 0x80, CHR 0x8A],
      [CHR 0xE2, CHR 0x80, CHR 0xA8], [CHR 0xE2, CHR 0x80, CHR 0xA9], [CHR 0xE2, CHR 0x80, CHR 0xAF],
      [CHR 0xE2, CHR 0x81, CHR 0x9F],
      [CHR 0xE3, CHR 0x80, CHR 0x80],
      [CHR 0xEF, CHR 0xBB, CHR 0xBF]]"

definition is_space :: "string \<Rightarrow> bool" where
  "is_space c = (c \<in> set white_space)"

definition trim :: "string \<Rightarrow> string" where
  "trim s = concat (rev (dropWhile is_space (rev (dropWhile is_space (code_points s)))))"

text \<open>
  \<^verbatim>\<open>
  function parseCSV(text) {
    const lines = text.trim().split('\n')
    if (lines.length < 2) return []
    const headers = lines[0].split(';')
    const rows = []
    for (let i = 1; i < lines.length; i++) {
      if (!lines[i].trim()) continue
      const values = lines[i].split(';')
      const row = {}
      for (let j = 0; j < headers.length; j++) { row[headers[j]] = values[j] || '' }
      rows.push(row)
    }
    return rows
  }
  \<close>
\<close>

fun semrush_row :: "string list \<Rightarrow> string list \<Rightarrow> props \<Rightarrow> props" where
  "semrush_row [] vals row = row"
| "semrush_row (h # hs) vals row =
     semrush_row hs (tl vals) (obj_set row h (JStr (case vals of [] \<Rightarrow> [] | v # vs \<Rightarrow> v)))"

definition parseCSV :: "string \<Rightarrow> jsval" where
  "parseCSV txt =
     (case split_on (CHR 0x0A) (trim txt) of
        [] \<Rightarrow> JArr []
      | [l] \<Rightarrow> JArr []
      | l # ls \<Rightarrow>
          JArr (map (\<lambda>ln. JObj (semrush_row (split_on (CHR '';'') l) (split_on (CHR '';'') ln) []))
                  (filter (\<lambda>ln. trim ln \<noteq> []) ls)))"

text \<open>
  \<^verbatim>\<open>
  async function api(params) {
    params.set('key', API_KEY)
    params.set('export_escape', '1')
    if (args['dry-run']) {
      const maskedParams = new URLSearchParams(params)
      maskedParams.set('key', '***')
      return { _dry_run: true, method: 'GET', url: `${BASE_URL}?${maskedParams}`,
               headers: {}, body: undefined }
    }
    const res = await fetch(`${BASE_URL}?${params}`)
    const text = await res.text()
    if (!res.ok) { return { error: text.trim(), status: res.status } }
    if (text.startsWith('ERROR')) { return { error: text.trim() } }
    return parseCSV(text)
  }
  \<close>
\<close>

definition semrush_api :: "world \<Rightarrow> string \<Rightarrow> jsobj \<Rightarrow> params \<Rightarrow> result" where
  "semrush_api w API_KEY args params0 =
     (let params = params_set (params_set params0 ''key'' API_KEY) ''export_escape'' ''1'' in
      if truthy (get_prop args ''dry-run'') then
        ret (JObj [(''_dry_run'', JBool True), (''method'', JStr ''GET''),
                   (''url'', JStr (semrush_BASE_URL @ ''?'' @ params_toString (params_set params ''key'' ''***''))),
                   (''headers'', JObj []), (''body'', JUndef)])
      else
        (case send w \<lparr>req_method = ''GET'', req_url = semrush_BASE_URL @ ''?'' @ params_toString params,
                       req_headers = [], req_body = No_body\<rparr> of
           (Inl e, reqs) \<Rightarrow> (Inl e, reqs)
         | (Inr res, reqs) \<Rightarrow>
             (if \<not> res_ok res then
                (Inr (JObj [(''error'', JStr (trim (res_text res))), (''status'', JNum (res_status res))]), reqs)
              else if startsWith (res_text res) ''ERROR'' then
                (Inr (JObj [(''error'', JStr (trim (res_text res)))]), reqs)
              else (Inr (parseCSV (res_text res)), reqs))))"

definition semrush_usage :: jsval where
  "semrush_usage = JObj [
     (''error'', JStr ''Unknown command''),
     (''usage'', JObj [
        (''domain overview'', JStr ''domain overview --domain <domain>''),
        (''domain organic'', JStr ''domain organic --domain <domain> [--database <db>] [--limit <n>]''),
        (''domain competitors'', JStr ''domain competitors --domain <domain> [--database <db>] [--limit <n>]''),
        (''keywords overview'', JStr ''keywords overview --phrase <phrase> [--database <db>]''),
        (''keywords related'', JStr ''keywords related --phrase <phrase> [--database <db>] [--limit <n>]''),
        (''keywords difficulty'', JStr ''keywords difficulty --phrase <phrase> [--database <db>]''),
        (''backlinks overview'', JStr ''backlinks overview --target <domain>''),
        (''backlinks list'', JStr ''backlinks list --target <domain> [--limit <n>]''),
        (''databases'', JStr ''us (default), uk, de, fr, ca, au, etc.'')])]"

definition semrush_main :: "world \<Rightarrow> string \<Rightarrow> jsobj \<Rightarrow> jsval \<Rightarrow> jsval \<Rightarrow> result" where
  "semrush_main w API_KEY args cmd sub =
     (let database = js_or (get_prop args ''database'') (JStr ''us'') in
      if cmd = JStr ''domain'' then
        (if sub = JStr ''overview'' then
           semrush_api w API_KEY args
             (params_of [(''type'', JStr ''domain_ranks''),
                         (''export_columns'', JStr ''Db,Dn,Rk,Or,Ot,Oc,Ad,At,Ac''),
                         (''domain'', get_prop args ''domain'')])
         else if sub = JStr ''organic'' then
           semrush_api w API_KEY args
             (set_if args ''limit'' ''display_limit''
               (params_of [(''type'', JStr ''domain_organic''),
                           (''export_columns'', JStr ''Ph,Po,Pp,Pd,Nq,Cp,Ur,Tr,Tc,Co,Nr''),
                           (''domain'', get_prop args ''domain''),
                           (''database'', database)]))
         else if sub = JStr ''competitors'' then
           semrush_api w API_KEY args
             (set_if args ''limit'' ''display_limit''
               (params_of [(''type'', JStr ''domain_organic_organic''),
                           (''export_columns'', JStr ''Dn,Cr,Np,Or,Ot,Oc,Ad''),
                           (''domain'', get_prop args ''domain''),
                           (''database'', database)]))
         else ret (error_obj ''Unknown domain subcommand. Use: overview, organic, competitors''))
      else if cmd = JStr ''keywords'' then
        (if sub = JStr ''overview'' then
           semrush_api w API_KEY args
             (params_of [(''type'', JStr ''phrase_all''),
                         (''export_columns'', JStr ''Ph,Nq,Cp,Co,Nr''),
                         (''phrase'', get_prop args ''phrase''),
                         (''database'', database)])
         else if sub = JStr ''related'' then
           semrush_api w API_KEY args
             (set_if args ''limit'' ''display_limit''
               (params_of [(''type'', JStr ''phrase_related''),
                           (''export_columns'', JStr ''Ph,Nq,Cp,Co,Nr,Td''),
                           (''phrase'', get_prop args ''phrase''),
                           (''database'', database)]))
         else if sub = JStr ''difficulty'' then
           semrush_api w API_KEY args
             (params_of [(''type'', JStr ''phrase_kdi''),
                         (''export_columns'', JStr ''Ph,Kd''),
                         (''phrase'', get_prop args ''phrase''),
                         (''database'', database)])
         else ret (error_obj ''Unknown keywords subcommand. Use: overview, related, difficulty''))
      else if cmd = JStr ''backlinks'' then
        (if sub = JStr ''overview'' then
           semrush_api w API_KEY args
             (params_of [(''type'', JStr ''backlinks_overview''),
                         (''target'', get_prop args ''target''),
                         (''target_type'', JStr ''root_domain'')])
         else if sub = JStr ''list'' then
           semrush_api w API_KEY args
             (set_if args ''limit'' ''display_limit''
               (params_of [(''type'', JStr ''backlinks''),
                           (''target'', get_prop args ''target''),
                           (''target_type'', JStr ''root_domain''),
                           (''export_columns'', JStr ''source_url,source_title,target_url,anchor'')]))
         else ret (error_obj ''Unknown backlinks subcommand. Use: overview, list''))
      else
        ret semrush_usage)"

definition semrush_script :: "world \<Rightarrow> string \<Rightarrow> outcome" where
  "semrush_script w API_KEY =
     (case parseArgs (argv w) of
        Inl e \<Rightarrow> uncaught e
      | Inr args \<Rightarrow>
          (case destructure (get_prop args ''_'') of
             Inl e \<Rightarrow> uncaught e
           | Inr (cmd, sub) \<Rightarrow> boundary (semrush_main w API_KEY args cmd sub)))"

definition semrush :: "world \<Rightarrow> outcome" where
  "semrush w =
     (case env w ''SEMRUSH_API_KEY'' of
        None \<Rightarrow> gate_failure ''SEMRUSH_API_KEY environment variable required''
      | Some API_KEY \<Rightarrow>
          if API_KEY = [] then gate_failure ''SEMRUSH_API_KEY environment variable required''
          else semrush_script w API_KEY)"

section \<open>The Mixpanel tool\<close>

definition mixpanel_INGESTION_URL :: string where
  "mixpanel_INGESTION_URL = ''https://api.mixpanel.com''"

definition mixpanel_QUERY_URL :: string where
  "mixpanel_QUERY_URL = ''https://mixpanel.com/api/2.0''"

definition mixpanel_EXPORT_URL :: string where
  "mixpanel_EXPORT_URL = ''https://data.mixpanel.com/api/2.0''"

text \<open>
  The three credentials are read at the top of the script; each is a string or
  \<^verbatim>\<open>undefined\<close>.
\<close>

record mixpanel_credentials =
  mixpanel_TOKEN :: jsval
  mixpanel_API_KEY :: jsval
  mixpanel_SECRET :: jsval

text \<open>
  \<^verbatim>\<open>
  async function ingestApi(method, path, body) {
    const headers = { 'Content-Type': 'application/json' }
    if (args['dry-run']) {
      return { _dry_run: true, method, url: `${INGESTION_URL}${path}`, headers,
               body: body || undefined }
    }
    const res = await fetch(`${INGESTION_URL}${path}`,
      { method, headers, body: body ? JSON.stringify(body) : undefined })
    ...
  }
  \<close>
\<close>

definition ingestApi :: "world \<Rightarrow> jsobj \<Rightarrow> string \<Rightarrow> string \<Rightarrow> jsval \<Rightarrow> result" where
  "ingestApi w args method path body =
     (if truthy (get_prop args ''dry-run'') then
        ret (dry_run_descriptor method (mixpanel_INGESTION_URL @ path)
               (header_props [(''Content-Type'', ''application/json'')]) body)
      else
        (case send w \<lparr>req_method = method, req_url = mixpanel_INGESTION_URL @ path,
                       req_headers = [(''Content-Type'', ''application/json'')],
                       req_body = (if truthy body then Json_body body else No_body)\<rparr> of
           (Inl e, reqs) \<Rightarrow> (Inl e, reqs)
         | (Inr res, reqs) \<Rightarrow> (Inr (read_response w res), reqs)))"

text \<open>
  \<^verbatim>\<open>
  async function queryApi(method, baseUrl, path, params) {
    if (!API_KEY || !SECRET) {
      return { error: 'MIXPANEL_API_KEY and MIXPANEL_SECRET required for query/export operations' }
    }
    const auth = Buffer.from(`${API_KEY}:${SECRET}`).toString('base64')
    const url = params ? `${baseUrl}${path}?${params}` : `${baseUrl}${path}`
    const headers = { 'Authorization': `Basic ${auth}`, 'Content-Type': 'application/json' }
    if (args['dry-run']) {
      return { _dry_run: true, method, url, headers: { ...headers, Authorization: '***' } }
    }
    const res = await fetch(url, { method, headers })
    ...
  }
  \<close>
  Every caller passes a \<^verbatim>\<open>URLSearchParams\<close> object, which is truthy.
\<close>

definition mixpanel_query_headers :: "world \<Rightarrow> mixpanel_credentials \<Rightarrow> (string \<times> string) list" where
  "mixpanel_query_headers w c =
     [(''Authorization'',
       ''Basic '' @ base64 w (js_to_string (mixpanel_API_KEY c) @ '':'' @ js_to_string (mixpanel_SECRET c))),
      (''Content-Type'', ''application/json'')]"

definition queryApi ::
  "world \<Rightarrow> mixpanel_credentials \<Rightarrow> jsobj \<Rightarrow> string \<Rightarrow> string \<Rightarrow> string \<Rightarrow> params \<Rightarrow> result" where
  "queryApi w c args method baseUrl path params =
     (if \<not> truthy (mixpanel_API_KEY c) \<or> \<not> truthy (mixpanel_SECRET c) then
        ret (error_obj ''MIXPANEL_API_KEY and MIXPANEL_SECRET required for query/export operations'')
      else if truthy (get_prop args ''dry-run'') then
        ret (JObj [(''_dry_run'', JBool True), (''method'', JStr method),
                   (''url'', JStr (baseUrl @ path @ ''?'' @ params_toString params)),
                   (''headers'', JObj (obj_set (header_props (mixpanel_query_headers w c))
                                         ''Authorization'' (JStr ''***'')))])
      else
        (case send w \<lparr>req_method = method, req_url = baseUrl @ path @ ''?'' @ params_toString params,
                       req_headers = mixpanel_query_headers w c, req_body = No_body\<rparr> of
           (Inl e, reqs) \<Rightarrow> (Inl e, reqs)
         | (Inr res, reqs) \<Rightarrow> (Inr (read_response w res), reqs)))"

text \<open>
  \<^verbatim>\<open>queryApiPost(path, body)\<close>: the same credentials test and headers; the dry run
  prints \<^verbatim>\<open>body: body || undefined\<close>, the request sends \<^verbatim>\<open>JSON.stringify(body)\<close>.
\<close>

definition queryApiPost :: "world \<Rightarrow> mixpanel_credentials \<Rightarrow> jsobj \<Rightarrow> string \<Rightarrow> jsval \<Rightarrow> result" where
  "queryApiPost w c args path body =
     (if \<not> truthy (mixpanel_API_KEY c) \<or> \<not> truthy (mixpanel_SECRET c) then
        ret (error_obj ''MIXPANEL_API_KEY and MIXPANEL_SECRET required for query/export operations'')
      else if truthy (get_prop args ''dry-run'') then
        ret (dry_run_descriptor ''POST'' (mixpanel_QUERY_URL @ path)
               (obj_set (header_props (mixpanel_query_headers w c)) ''Authorization'' (JStr ''***''))
               body)
      else
        (case send w \<lparr>req_method = ''POST'', req_url = mixpanel_QUERY_URL @ path,
                       req_headers = mixpanel_query_headers w c, req_body = Json_body body\<rparr> of
           (Inl e, reqs) \<Rightarrow> (Inl e, reqs)
         | (Inr res, reqs) \<Rightarrow> (Inr (read_response w res), reqs)))"

text \<open>
  \<^verbatim>\<open>const properties = args.properties ? JSON.parse(args.properties) : {}\<close>.
  \<^verbatim>\<open>JSON.parse\<close> first turns its argument into a string, so a flag without a value
  (\<^verbatim>\<open>true\<close>) parses as the text \<^verbatim>\<open>true\<close>.
\<close>

definition mixpanel_properties :: "world \<Rightarrow> jsobj \<Rightarrow> exn + jsval" where
  "mixpanel_properties w args =
     (if truthy (get_prop args ''properties'') then
        (case json_parse w (js_to_string (get_prop args ''properties'')) of
           Inl m \<Rightarrow> Inl (SyntaxError m)
         | Inr v \<Rightarrow> Inr v)
      else Inr (JObj []))"

definition mixpanel_track :: "world \<Rightarrow> mixpanel_credentials \<Rightarrow> jsobj \<Rightarrow> jsval \<Rightarrow> result" where
  "mixpanel_track w c args sub =
     (if sub = JStr ''event'' then
        (if \<not> truthy (mixpanel_TOKEN c) then ret (error_obj ''MIXPANEL_TOKEN required for tracking'')
         else if \<not> truthy (get_prop args ''distinct-id'') then ret (error_obj ''--distinct-id required'')
         else if \<not> truthy (get_prop args ''event'') then ret (error_obj ''--event required'')
         else
           (case mixpanel_properties w args of
              Inl e \<Rightarrow> throw e
            | Inr p0 \<Rightarrow>
                (case set_member p0 ''token'' (mixpanel_TOKEN c) of
                   Inl e \<Rightarrow> throw e
                 | Inr p1 \<Rightarrow>
                     (case set_member p1 ''distinct_id'' (get_prop args ''distinct-id'') of
                        Inl e \<Rightarrow> throw e
                      | Inr properties \<Rightarrow>
                          ingestApi w args ''POST'' ''/track''
                            (JArr [JObj [(''event'', get_prop args ''event''),
                                         (''properties'', properties)]])))))
      else ret (error_obj ''Unknown track subcommand. Use: event''))"

definition mixpanel_profiles :: "world \<Rightarrow> mixpanel_credentials \<Rightarrow> jsobj \<Rightarrow> jsval \<Rightarrow> result" where
  "mixpanel_profiles w c args sub =
     (if sub = JStr ''set'' then
        (if \<not> truthy (mixpanel_TOKEN c) then ret (error_obj ''MIXPANEL_TOKEN required for profiles'')
         else if \<not> truthy (get_prop args ''distinct-id'') then ret (error_obj ''--distinct-id required'')
         else
           (case mixpanel_properties w args of
              Inl e \<Rightarrow> throw e
            | Inr properties \<Rightarrow>
                ingestApi w args ''POST'' ''/engage''
                  (JArr [JObj [(''$token'', mixpanel_TOKEN c),
                               (''$distinct_id'', get_prop args ''distinct-id''),
                               (''$set'', properties)]])))
      else ret (error_obj ''Unknown profiles subcommand. Use: set''))"

definition mixpanel_query :: "world \<Rightarrow> mixpanel_credentials \<Rightarrow> jsobj \<Rightarrow> jsval \<Rightarrow> result" where
  "mixpanel_query w c args sub =
     (if sub = JStr ''events'' then
        (if \<not> truthy (get_prop args ''project-id'') then ret (error_obj ''--project-id required'')
         else
           queryApiPost w c args ''/insights''
             (JObj [(''project_id'', parse_int w (get_prop args ''project-id'')),
                    (''bookmark_id'', JNull),
                    (''params'', JObj [
                       (''events'', JArr [JObj [(''event'', js_or (get_prop args ''event'') (JStr ''all''))]]),
                       (''time_range'', JObj [
                          (''from_date'', js_or (get_prop args ''from-date'')
                                            (JStr (take 10 (toISOString w (- 2592000000))))),
                          (''to_date'', js_or (get_prop args ''to-date'')
                                          (JStr (take 10 (toISOString w 0))))])])]))
      else ret (error_obj ''Unknown query subcommand. Use: events''))"

definition mixpanel_funnels :: "world \<Rightarrow> mixpanel_credentials \<Rightarrow> jsobj \<Rightarrow> jsval \<Rightarrow> result" where
  "mixpanel_funnels w c args sub =
     (if sub = JStr ''get'' then
        (if \<not> truthy (get_prop args ''funnel-id'') then ret (error_obj ''--funnel-id required'')
         else
           queryApi w c args ''GET'' mixpanel_QUERY_URL ''/funnels''
             (set_if args ''to-date'' ''to_date''
               (set_if args ''from-date'' ''from_date''
                 (params_set [] ''funnel_id'' (js_to_string (get_prop args ''funnel-id''))))))
      else ret (error_obj ''Unknown funnels subcommand. Use: get''))"

definition mixpanel_retention :: "world \<Rightarrow> mixpanel_credentials \<Rightarrow> jsobj \<Rightarrow> jsval \<Rightarrow> result" where
  "mixpanel_retention w c args sub =
     (if sub = JStr ''get'' then
        (if \<not> truthy (get_prop args ''from-date'') \<or> \<not> truthy (get_prop args ''to-date'') then
           ret (error_obj ''--from-date and --to-date required (YYYY-MM-DD)'')
         else
           queryApi w c args ''GET'' mixpanel_QUERY_URL ''/retention''
             (set_if args ''born-event'' ''born_event''
               (params_set
                 (params_set
                   (params_set [] ''from_date'' (js_to_string (get_prop args ''from-date'')))
                   ''to_date'' (js_to_string (get_prop args ''to-date'')))
                 ''retention_type'' ''birth'')))
      else ret (error_obj ''Unknown retention subcommand. Use: get''))"

definition mixpanel_export :: "world \<Rightarrow> mixpanel_credentials \<Rightarrow> jsobj \<Rightarrow> jsval \<Rightarrow> result" where
  "mixpanel_export w c args sub =
     (if sub = JStr ''events'' then
        (if \<not> truthy (get_prop args ''from-date'') then ret (error_obj ''--from-date required'')
         else if \<not> truthy (get_prop args ''to-date'') then ret (error_obj ''--to-date required'')
         else
           (let p = params_set
                      (params_set [] ''from_date'' (js_to_string (get_prop args ''from-date'')))
                      ''to_date'' (js_to_string (get_prop args ''to-date''))
            in queryApi w c args ''GET'' mixpanel_EXPORT_URL ''/export''
                 (if truthy (get_prop args ''event'')
                  then params_set p ''event'' (stringify (JArr [get_prop args ''event'']))
                  else p)))
      else ret (error_obj ''Unknown export subcommand. Use: events''))"

definition mixpanel_usage :: jsval where
  "mixpanel_usage = JObj [
     (''error'', JStr ''Unknown command''),
     (''usage'', JObj [
        (''track'', JStr ''track event --distinct-id <id> --event <name> [--properties <json>]''),
        (''profiles'', JStr ''profiles set --distinct-id <id> [--properties <json>]''),
        (''query'', JStr ''query events --project-id <id> [--event <name>] [--from-date <date>] [--to-date <date>]''),
        (''funnels'', JStr ''funnels get --funnel-id <id> [--from-date <date>] [--to-date <date>]''),
        (''retention'', JStr ''retention get [--from-date <date>] [--to-date <date>] [--born-event <event>]''),
        (''export'', JStr ''export events --from-date <date> --to-date <date>'')])]"

definition mixpanel_main :: "world \<Rightarrow> mixpanel_credentials \<Rightarrow> jsobj \<Rightarrow> jsval \<Rightarrow> jsval \<Rightarrow> result" where
  "mixpanel_main w c args cmd sub =
     (if cmd = JStr ''track'' then mixpanel_track w c args sub
      else if cmd = JStr ''profiles'' then mixpanel_profiles w c args sub
      else if cmd = JStr ''query'' then mixpanel_query w c args sub
      else if cmd = JStr ''funnels'' then mixpanel_funnels w c args sub
      else if cmd = JStr ''retention'' then mixpanel_retention w c args sub
      else if cmd = JStr ''export'' then mixpanel_export w c args sub
      else ret mixpanel_usage)"

definition mixpanel :: "world \<Rightarrow> outcome" where
  "mixpanel w =
     (let c = \<lparr>mixpanel_TOKEN = env_value w ''MIXPANEL_TOKEN'',
               mixpanel_API_KEY = env_value w ''MIXPANEL_API_KEY'',
               mixpanel_SECRET = env_value w ''MIXPANEL_SECRET''\<rparr> in
      if \<not> truthy (mixpanel_TOKEN c) \<and> \<not> truthy (mixpanel_API_KEY c) then
        gate_failure ''MIXPANEL_TOKEN (for ingestion) or MIXPANEL_API_KEY + MIXPANEL_SECRET (for query/export) environment variables required''
      else
        (case parseArgs (argv w) of
           Inl e \<Rightarrow> uncaught e
         | Inr args \<Rightarrow>
             (case destructure (get_prop args ''_'') of
                Inl e \<Rightarrow> uncaught e
              | Inr (cmd, sub) \<Rightarrow> boundary (mixpanel_main w c args cmd sub))))"

section \<open>The Hotjar tool (hotjar.js)\<close>

definition hotjar_BASE_URL :: string where
  "hotjar_BASE_URL = ''https://api.hotjar.io/v1''"

text \<open>
  The token cache is the module variable \<^verbatim>\<open>cachedToken\<close>, \<^verbatim>\<open>null\<close> at the
  start. A function that reads or writes it takes its value and returns the new one.
  \<^verbatim>\<open>
  async function getToken() {
    if (cachedToken) return cachedToken
    const res = await fetch(`${BASE_URL}/oauth/token`, {
      method: 'POST',
      headers: { 'Content-Type': 'application/x-www-form-urlencoded' },
      body: `grant_type=client_credentials&client_id=${encodeURIComponent(CLIENT_ID)}`
            + `&client_secret=${encodeURIComponent(CLIENT_SECRET)}`,
    })
    const data = await res.json()
    if (!data.access_token) {
      throw new Error(data.error_description || data.error || 'Failed to obtain access token')
    }
    cachedToken = data.access_token
    return cachedToken
  }
  \<close>
\<close>

definition hotjar_token_request :: "string \<Rightarrow> string \<Rightarrow> request" where
  "hotjar_token_request CLIENT_ID CLIENT_SECRET =
     \<lparr>req_method = ''POST'', req_url = hotjar_BASE_URL @ ''/oauth/token'',
      req_headers = [(''Content-Type'', ''application/x-www-form-urlencoded'')],
      req_body = Text_body (''grant_type=client_credentials&client_id='' @ encodeURIComponent CLIENT_ID
                            @ ''&client_secret='' @ encodeURIComponent CLIENT_SECRET)\<rparr>"

text \<open>\<^verbatim>\<open>await res.json()\<close>: the parse of the body, or its SyntaxError.\<close>

definition res_json :: "world \<Rightarrow> response \<Rightarrow> exn + jsval" where
  "res_json w res = (case json_parse w (res_text res) of Inl m \<Rightarrow> Inl (SyntaxError m) | Inr v \<Rightarrow> Inr v)"

text \<open>
  The message of the error that \<^verbatim>\<open>getToken\<close> throws, for a parsed body \<open>data\<close>
  that is an object or a primitive (its members can be read).
\<close>

definition hotjar_token_error :: "jsval \<Rightarrow> jsval \<Rightarrow> string" where
  "hotjar_token_error error_description err =
     js_to_string (js_or (js_or error_description err) (JStr ''Failed to obtain access token''))"

definition getToken :: "world \<Rightarrow> string \<Rightarrow> string \<Rightarrow> jsval \<Rightarrow> result \<times> jsval" where
  "getToken w CLIENT_ID CLIENT_SECRET cachedToken =
     (if truthy cachedToken then (ret cachedToken, cachedToken)
      else
        (case send w (hotjar_token_request CLIENT_ID CLIENT_SECRET) of
           (Inl e, reqs) \<Rightarrow> ((Inl e, reqs), cachedToken)
         | (Inr res, reqs) \<Rightarrow>
             (case res_json w res of
                Inl e \<Rightarrow> ((Inl e, reqs), cachedToken)
              | Inr data \<Rightarrow>
                  (case get_member data ''access_token'' of
                     Inl e \<Rightarrow> ((Inl e, reqs), cachedToken)
                   | Inr access_token \<Rightarrow>
                       if \<not> truthy access_token then
                         (case get_member data ''error_description'' of
                            Inl e \<Rightarrow> ((Inl e, reqs), cachedToken)
                          | Inr error_description \<Rightarrow>
                              (case get_member data ''error'' of
                                 Inl e \<Rightarrow> ((Inl e, reqs), cachedToken)
                               | Inr err \<Rightarrow>
                                   ((Inl (Error (hotjar_token_error error_description err)), reqs),
                                    cachedToken)))
                       else ((Inr access_token, reqs), access_token)))))"

text \<open>
  \<^verbatim>\<open>
  async function api(method, path) {
    if (args['dry-run']) {
      return { _dry_run: true, method, url: `${BASE_URL}${path}`,
        headers: { Authorization: '***', 'Content-Type': 'application/json',
                   Accept: 'application/json' } }
    }
    const token = await getToken()
    const res = await fetch(`${BASE_URL}${path}`, { method,
      headers: { 'Authorization': `Bearer ${token}`, 'Content-Type': 'application/json',
                 'Accept': 'application/json' } })
    ...
  }
  \<close>
\<close>

definition hotjar_api ::
  "world \<Rightarrow> string \<Rightarrow> string \<Rightarrow> jsobj \<Rightarrow> jsval \<Rightarrow> string \<Rightarrow> string \<Rightarrow> result \<times> jsval" where
  "hotjar_api w CLIENT_ID CLIENT_SECRET args cachedToken method path =
     (if truthy (get_prop args ''dry-run'') then
        (ret (JObj [(''_dry_run'', JBool True), (''method'', JStr method),
                    (''url'', JStr (hotjar_BASE_URL @ path)),
                    (''headers'', JObj [(''Authorization'', JStr ''***''),
                                        (''Content-Type'', JStr ''application/json''),
                                        (''Accept'', JStr ''application/json'')])]),
         cachedToken)
      else
        (case getToken w CLIENT_ID CLIENT_SECRET cachedToken of
           ((Inl e, reqs), cache) \<Rightarrow> ((Inl e, reqs), cache)
         | ((Inr token, reqs), cache) \<Rightarrow>
             (case send w \<lparr>req_method = method, req_url = hotjar_BASE_URL @ path,
                            req_headers = [(''Authorization'', ''Bearer '' @ js_to_string token),
                                           (''Content-Type'', ''application/json''),
                                           (''Accept'', ''application/json'')],
                            req_body = No_body\<rparr> of
                (Inl e, reqs') \<Rightarrow> ((Inl e, reqs @ reqs'), cache)
              | (Inr res, reqs') \<Rightarrow> ((Inr (read_response w res), reqs @ reqs'), cache))))"

definition hotjar_usage :: jsval where
  "hotjar_usage = JObj [
     (''error'', JStr ''Unknown command''),
     (''usage'', JObj [
        (''sites'', JStr ''sites list''),
        (''surveys'', JStr ''surveys list --site-id <id> | surveys responses --site-id <id> --survey-id <id> [--limit <n>] [--cursor <cursor>]''),
        (''heatmaps'', JStr ''heatmaps list --site-id <id>''),
        (''recordings'', JStr ''recordings list --site-id <id> [--limit <n>] [--cursor <cursor>] [--date-from <date>] [--date-to <date>]''),
        (''forms'', JStr ''forms list --site-id <id>'')])]"

text \<open>
  \<^verbatim>\<open>main\<close>; \<^verbatim>\<open>siteId\<close>, \<^verbatim>\<open>limit\<close> and \<^verbatim>\<open>cursor\<close> are read before the
  \<^verbatim>\<open>switch\<close>, and four of the five commands test \<^verbatim>\<open>siteId\<close> before they look at
  the subcommand.
\<close>

definition hotjar_main ::
  "world \<Rightarrow> string \<Rightarrow> string \<Rightarrow> jsobj \<Rightarrow> jsval \<Rightarrow> jsval \<Rightarrow> jsval \<Rightarrow> result \<times> jsval" where
  "hotjar_main w CLIENT_ID CLIENT_SECRET args cachedToken cmd sub =
     (let siteId = get_prop args ''site-id'';
          limit = js_or (get_prop args ''limit'') (JStr ''100'');
          cursor = get_prop args ''cursor'';
          api = hotjar_api w CLIENT_ID CLIENT_SECRET args cachedToken
      in
      if cmd = JStr ''sites'' then
        (if sub = JStr ''list'' then api ''GET'' ''/sites''
         else (ret (error_obj ''Unknown sites subcommand. Use: list''), cachedToken))
      else if cmd = JStr ''surveys'' then
        (if \<not> truthy siteId then (ret (error_obj ''--site-id required''), cachedToken)
         else if sub = JStr ''list'' then api ''GET'' (''/sites/'' @ js_to_string siteId @ ''/surveys'')
         else if sub = JStr ''responses'' then
           (let surveyId = get_prop args ''survey-id'' in
            if \<not> truthy surveyId then (ret (error_obj ''--survey-id required''), cachedToken)
            else api ''GET'' (''/sites/'' @ js_to_string siteId @ ''/surveys/'' @ js_to_string surveyId
                   @ ''/responses?'' @ params_toString
                       (set_if args ''cursor'' ''cursor'' (params_of [(''limit'', limit)]))))
         else (ret (error_obj ''Unknown surveys subcommand. Use: list, responses''), cachedToken))
      else if cmd = JStr ''heatmaps'' then
        (if \<not> truthy siteId then (ret (error_obj ''--site-id required''), cachedToken)
         else if sub = JStr ''list'' then api ''GET'' (''/sites/'' @ js_to_string siteId @ ''/heatmaps'')
         else (ret (error_obj ''Unknown heatmaps subcommand. Use: list''), cachedToken))
      else if cmd = JStr ''recordings'' then
        (if \<not> truthy siteId then (ret (error_obj ''--site-id required''), cachedToken)
         else if sub = JStr ''list'' then
           api ''GET'' (''/sites/'' @ js_to_string siteId @ ''/recordings?'' @ params_toString
             (set_if args ''date-to'' ''date_to''
               (set_if args ''date-from'' ''date_from''
                 (set_if args ''cursor'' ''cursor'' (params_of [(''limit'', limit)])))))
         else (ret (error_obj ''Unknown recordings subcommand. Use: list''), cachedToken))
      else if cmd = JStr ''forms'' then
        (if \<not> truthy siteId then (ret (error_obj ''--site-id required''), cachedToken)
         else if sub = JStr ''list'' then api ''GET'' (''/sites/'' @ js_to_string siteId @ ''/forms'')
         else (ret (error_obj ''Unknown forms subcommand. Use: list''), cachedToken))
      else (ret hotjar_usage, cachedToken))"

definition hotjar :: "world \<Rightarrow> outcome" where
  "hotjar w =
     (if \<not> truthy (env_value w ''HOTJAR_CLIENT_ID'') \<or> \<not> truthy (env_value w ''HOTJAR_CLIENT_SECRET'') then
        gate_failure ''HOTJAR_CLIENT_ID and HOTJAR_CLIENT_SECRET environment variables required''
      else
        (case parseArgs (argv w) of
           Inl e \<Rightarrow> uncaught e
         | Inr args \<Rightarrow>
             (case destructure (get_prop args ''_'') of
                Inl e \<Rightarrow> uncaught e
              | Inr (cmd, sub) \<Rightarrow>
                  boundary (fst (hotjar_main w (js_to_string (env_value w ''HOTJAR_CLIENT_ID''))
                                   (js_to_string (env_value w ''HOTJAR_CLIENT_SECRET''))
                                   args JNull cmd sub)))))"

section \<open>The Trustpilot tool (trustpilot.js)\<close>

definition trustpilot_BASE_URL :: string where
  "trustpilot_BASE_URL = ''https://api.trustpilot.com/v1''"

text \<open>
  \<^verbatim>\<open>
  let accessToken = null
  async function getAccessToken() {
    if (accessToken) return accessToken
    if (!API_SECRET) return null
    const res = await fetch(`${BASE_URL}/oauth/oauth-business-users-for-applications/accesstoken`, {
      method: 'POST',
      headers: {
        'Authorization': 'Basic ' + Buffer.from(`${API_KEY}:${API_SECRET}`).toString('base64'),
        'Content-Type': 'application/x-www-form-urlencoded' },
      body: 'grant_type=client_credentials' })
    const data = await res.json()
    if (data.access_token) { accessToken = data.access_token; return accessToken }
    return null
  }
  \<close>
  \<open>API_KEY\<close> passed the gate and is a string; \<open>API_SECRET\<close> is a string or
  \<^verbatim>\<open>undefined\<close>.
\<close>

definition trustpilot_token_request :: "world \<Rightarrow> string \<Rightarrow> jsval \<Rightarrow> request" where
  "trustpilot_token_request w API_KEY API_SECRET =
     \<lparr>req_method = ''POST'',
      req_url = trustpilot_BASE_URL @ ''/oauth/oauth-business-users-for-applications/accesstoken'',
      req_headers = [(''Authorization'', ''Basic '' @ base64 w (API_KEY @ '':'' @ js_to_string API_SECRET)),
                     (''Content-Type'', ''application/x-www-form-urlencoded'')],
      req_body = Text_body ''grant_type=client_credentials''\<rparr>"

definition getAccessToken :: "world \<Rightarrow> string \<Rightarrow> jsval \<Rightarrow> jsval \<Rightarrow> result \<times> jsval" where
  "getAccessToken w API_KEY API_SECRET accessToken =
     (if truthy accessToken then (ret accessToken, accessToken)
      else if \<not> truthy API_SECRET then (ret JNull, accessToken)
      else
        (case send w (trustpilot_token_request w API_KEY API_SECRET) of
           (Inl e, reqs) \<Rightarrow> ((Inl e, reqs), accessToken)
         | (Inr res, reqs) \<Rightarrow>
             (case res_json w res of
                Inl e \<Rightarrow> ((Inl e, reqs), accessToken)
              | Inr data \<Rightarrow>
                  (case get_member data ''access_token'' of
                     Inl e \<Rightarrow> ((Inl e, reqs), accessToken)
                   | Inr access_token \<Rightarrow>
                       if truthy access_token then ((Inr access_token, reqs), access_token)
                       else ((Inr JNull, reqs), accessToken)))))"

text \<open>
  \<^verbatim>\<open>
  async function api(method, path, body, auth = 'apikey') {
    if (args['dry-run']) {
      const maskedHeaders = { 'Content-Type': 'application/json', 'Accept': 'application/json' }
      if (auth === 'bearer') { maskedHeaders['Authorization'] = '***' }
      else { maskedHeaders['apikey'] = '***' }
      return { _dry_run: true, method, url: `${BASE_URL}${path}`, headers: maskedHeaders,
               body: body || undefined }
    }
    const headers = { 'Content-Type': 'application/json', 'Accept': 'application/json' }
    if (auth === 'bearer') {
      const token = await getAccessToken()
      if (!token) { return { error: 'TRUSTPILOT_API_SECRET required for private API endpoints' } }
      headers['Authorization'] = `Bearer ${token}`
    } else { headers['apikey'] = API_KEY }
    const res = await fetch(`${BASE_URL}${path}`,
      { method, headers, body: body ? JSON.stringify(body) : undefined })
    ...
  }
  \<close>
\<close>

definition trustpilot_fetch ::
  "world \<Rightarrow> string \<Rightarrow> string \<Rightarrow> (string \<times> string) list \<Rightarrow> jsval \<Rightarrow> result" where
  \<comment> \<open>the request and the reading of its response, the end of \<^verbatim>\<open>api\<close>\<close>
  "trustpilot_fetch w method path headers body =
     (case send w \<lparr>req_method = method, req_url = trustpilot_BASE_URL @ path, req_headers = headers,
                    req_body = (if truthy body then Json_body body else No_body)\<rparr> of
        (Inl e, reqs) \<Rightarrow> (Inl e, reqs)
      | (Inr res, reqs) \<Rightarrow> (Inr (read_response w res), reqs))"

definition trustpilot_api ::
  "world \<Rightarrow> string \<Rightarrow> jsval \<Rightarrow> jsobj \<Rightarrow> jsval \<Rightarrow> string \<Rightarrow> string \<Rightarrow> jsval \<Rightarrow> string
     \<Rightarrow> result \<times> jsval" where
  "trustpilot_api w API_KEY API_SECRET args accessToken method path body auth =
     (if truthy (get_prop args ''dry-run'') then
        (ret (dry_run_descriptor method (trustpilot_BASE_URL @ path)
                ([(''Content-Type'', JStr ''application/json''), (''Accept'', JStr ''application/json'')]
                 @ [(if auth = ''bearer'' then ''Authorization'' else ''apikey'', JStr ''***'')])
                body),
         accessToken)
      else if auth = ''bearer'' then
        (case getAccessToken w API_KEY API_SECRET accessToken of
           ((Inl e, reqs), cache) \<Rightarrow> ((Inl e, reqs), cache)
         | ((Inr token, reqs), cache) \<Rightarrow>
             if \<not> truthy token then
               ((Inr (error_obj ''TRUSTPILOT_API_SECRET required for private API endpoints''), reqs), cache)
             else
               (case trustpilot_fetch w method path
                       [(''Content-Type'', ''application/json''), (''Accept'', ''application/json''),
                        (''Authorization'', ''Bearer '' @ js_to_string token)] body of
                  (r, reqs') \<Rightarrow> ((r, reqs @ reqs'), cache)))
      else
        (trustpilot_fetch w method path
           [(''Content-Type'', ''application/json''), (''Accept'', ''application/json''),
            (''apikey'', API_KEY)] body,
         accessToken))"

definition trustpilot_usage :: jsval where
  "trustpilot_usage = JObj [
     (''error'', JStr ''Unknown command''),
     (''usage'', JObj [
        (''business'', JStr ''business [search --query <q> | get | profile | categories | web-links]''),
        (''reviews'', JStr ''reviews [list | get --id <id> | private | latest | reply --id <id> --message <msg> | delete-reply --id <id>]''),
        (''invitations'', JStr ''invitations [create --email <e> --name <n> | link --email <e> --name <n> | templates]''),
        (''tags'', JStr ''tags [get --id <id> | add --id <id> --group <g> --value <v> | remove --id <id> --group <g> --value <v>]''),
        (''options'', JStr ''--business-unit <id> --limit <n> --stars <1-5> --language <code>'')])]"

text \<open>
  \<^verbatim>\<open>main\<close>. \<^verbatim>\<open>businessUnitId\<close> is \<^verbatim>\<open>args['business-unit'] || BUSINESS_UNIT_ID\<close> and
  \<^verbatim>\<open>limit\<close> is \<^verbatim>\<open>args.limit ? Number(args.limit) : 20\<close>. A call \<^verbatim>\<open>api(method, path)\<close>
  has the body \<^verbatim>\<open>undefined\<close> and the authentication \<^verbatim>\<open>'apikey'\<close>.
\<close>

definition trustpilot_main ::
  "world \<Rightarrow> string \<Rightarrow> jsval \<Rightarrow> jsval \<Rightarrow> jsobj \<Rightarrow> jsval \<Rightarrow> jsval \<Rightarrow> jsval \<Rightarrow> result \<times> jsval" where
  "trustpilot_main w API_KEY API_SECRET BUSINESS_UNIT_ID args accessToken cmd sub =
     (let businessUnitId = js_or (get_prop args ''business-unit'') BUSINESS_UNIT_ID;
          limit = (if truthy (get_prop args ''limit'') then to_number w (get_prop args ''limit'')
                   else JNum ''20'');
          api = trustpilot_api w API_KEY API_SECRET args accessToken;
          unit = js_to_string businessUnitId;
          unit_required =
            (ret (error_obj ''--business-unit or TRUSTPILOT_BUSINESS_UNIT_ID required''), accessToken);
          id_required = (ret (error_obj ''--id required''), accessToken);
          reviewId = get_prop args ''id'';
          email = get_prop args ''email'';
          name = get_prop args ''name'';
          group = get_prop args ''group'';
          val = get_prop args ''value''
      in
      if cmd = JStr ''business'' then
        (if sub = JStr ''search'' then
           (let query = get_prop args ''query'' in
            if \<not> truthy query then (ret (error_obj ''--query required''), accessToken)
            else api ''GET'' (''/business-units/search?query='' @ encodeURIComponent (js_to_string query)
                   @ ''&limit='' @ js_to_string limit) JUndef ''apikey'')
         else if sub = JStr ''get'' then
           (if \<not> truthy businessUnitId then unit_required
            else api ''GET'' (''/business-units/'' @ unit) JUndef ''apikey'')
         else if sub = JStr ''profile'' then
           (if \<not> truthy businessUnitId then unit_required
            else api ''GET'' (''/business-units/'' @ unit @ ''/profileinfo'') JUndef ''apikey'')
         else if sub = JStr ''categories'' then
           (if \<not> truthy businessUnitId then unit_required
            else api ''GET'' (''/business-units/'' @ unit @ ''/categories'') JUndef ''apikey'')
         else if sub = JStr ''web-links'' then
           (if \<not> truthy businessUnitId then unit_required
            else
              (let locale = js_or (get_prop args ''locale'') (JStr ''en-US'') in
               api ''GET'' (''/business-units/'' @ unit @ ''/web-links?locale=''
                      @ encodeURIComponent (js_to_string locale)) JUndef ''apikey''))
         else (ret (error_obj ''Unknown business subcommand. Use: search, get, profile, categories, web-links''),
               accessToken))
      else if cmd = JStr ''reviews'' then
        (if sub = JStr ''list'' then
           (if \<not> truthy businessUnitId then unit_required
            else
              (let reviewParams =
                     set_if args ''language'' ''language''
                       (set_if args ''stars'' ''stars''
                          (params_of [(''perPage'', JStr (js_to_string limit)),
                                      (''orderBy'', js_or (get_prop args ''order-by'') (JStr ''createdat.desc''))]))
               in api ''GET'' (''/business-units/'' @ unit @ ''/reviews?'' @ params_toString reviewParams)
                    JUndef ''apikey''))
         else if sub = JStr ''get'' then
           (if \<not> truthy reviewId then id_required
            else api ''GET'' (''/reviews/'' @ js_to_string reviewId) JUndef ''apikey'')
         else if sub = JStr ''private'' then
           (if \<not> truthy businessUnitId then unit_required
            else
              (let privateParams =
                     set_if args ''stars'' ''stars'' (params_of [(''perPage'', JStr (js_to_string limit))])
               in api ''GET'' (''/private/business-units/'' @ unit @ ''/reviews?''
                                @ params_toString privateParams) JNull ''bearer''))
         else if sub = JStr ''latest'' then
           api ''GET'' (''/reviews/latest?count='' @ js_to_string limit) JUndef ''apikey''
         else if sub = JStr ''reply'' then
           (let message = get_prop args ''message'' in
            if \<not> truthy reviewId then id_required
            else if \<not> truthy message then (ret (error_obj ''--message required''), accessToken)
            else api ''POST'' (''/private/reviews/'' @ js_to_string reviewId @ ''/reply'')
                   (JObj [(''message'', message)]) ''bearer'')
         else if sub = JStr ''delete-reply'' then
           (if \<not> truthy reviewId then id_required
            else api ''DELETE'' (''/private/reviews/'' @ js_to_string reviewId @ ''/reply'') JNull ''bearer'')
         else (ret (error_obj ''Unknown reviews subcommand. Use: list, get, private, latest, reply, delete-reply''),
               accessToken))
      else if cmd = JStr ''invitations'' then
        (if sub = JStr ''create'' then
           (if \<not> truthy businessUnitId then unit_required
            else if \<not> truthy email then (ret (error_obj ''--email required''), accessToken)
            else if \<not> truthy name then (ret (error_obj ''--name required''), accessToken)
            else
              (let templateId = get_prop args ''template'';
                   redirectUri = js_or (get_prop args ''redirect-uri'') (JStr ''https://trustpilot.com'');
                   payload = JObj [
                     (''consumerEmail'', email),
                     (''consumerName'', name),
                     (''referenceNumber'', js_or (get_prop args ''reference'') (JStr [])),
                     (''senderEmail'', js_or (get_prop args ''sender-email'') JUndef),
                     (''replyTo'', js_or (get_prop args ''reply-to'') JUndef),
                     (''templateId'', js_or templateId JUndef),
                     (''redirectUri'', redirectUri)]
               in api ''POST'' (''/private/business-units/'' @ unit @ ''/email-invitations'')
                    payload ''bearer''))
         else if sub = JStr ''link'' then
           (if \<not> truthy businessUnitId then unit_required
            else if \<not> truthy email then (ret (error_obj ''--email required''), accessToken)
            else if \<not> truthy name then (ret (error_obj ''--name required''), accessToken)
            else api ''POST'' (''/private/business-units/'' @ unit @ ''/invitation-links'')
                   (JObj [(''email'', email),
                          (''name'', name),
                          (''referenceId'', js_or (get_prop args ''reference'') (JStr [])),
                          (''redirectUri'',
                             js_or (get_prop args ''redirect-uri'') (JStr ''https://trustpilot.com''))])
                   ''bearer'')
         else if sub = JStr ''templates'' then
           (if \<not> truthy businessUnitId then unit_required
            else api ''GET'' (''/private/business-units/'' @ unit @ ''/templates'') JNull ''bearer'')
         else (ret (error_obj ''Unknown invitations subcommand. Use: create, link, templates''), accessToken))
      else if cmd = JStr ''tags'' then
        (if sub = JStr ''get'' then
           (if \<not> truthy reviewId then id_required
            else api ''GET'' (''/private/reviews/'' @ js_to_string reviewId @ ''/tags'') JNull ''bearer'')
         else if sub = JStr ''add'' then
           (if \<not> truthy reviewId then id_required
            else if \<not> truthy group \<or> \<not> truthy val then
              (ret (error_obj ''--group and --value required''), accessToken)
            else api ''PUT'' (''/private/reviews/'' @ js_to_string reviewId @ ''/tags'')
                   (JObj [(''tags'', JArr [JObj [(''group'', group), (''value'', val)]])]) ''bearer'')
         else if sub = JStr ''remove'' then
           (if \<not> truthy reviewId then id_required
            else if \<not> truthy group \<or> \<not> truthy val then
              (ret (error_obj ''--group and --value required''), accessToken)
            else api ''DELETE'' (''/private/reviews/'' @ js_to_string reviewId @ ''/tags?group=''
                   @ encodeURIComponent (js_to_string group) @ ''&value=''
                   @ encodeURIComponent (js_to_string val)) JNull ''bearer'')
         else (ret (error_obj ''Unknown tags subcommand. Use: get, add, remove''), accessToken))
      else (ret trustpilot_usage, accessToken))"

text \<open>
  The process: the gate on \<^verbatim>\<open>TRUSTPILOT_API_KEY\<close>, the statements at module scope, and
  \<^verbatim>\<open>main().catch\<close>. The token variable starts at \<^verbatim>\<open>null\<close>.
\<close>

definition trustpilot :: "world \<Rightarrow> outcome" where
  "trustpilot w =
     (if \<not> truthy (env_value w ''TRUSTPILOT_API_KEY'') then
        gate_failure ''TRUSTPILOT_API_KEY environment variable required''
      else
        (case parseArgs (argv w) of
           Inl e \<Rightarrow> uncaught e
         | Inr args \<Rightarrow>
             (case destructure (get_prop args ''_'') of
                Inl e \<Rightarrow> uncaught e
              | Inr (cmd, sub) \<Rightarrow>
                  boundary (fst (trustpilot_main w (js_to_string (env_value w ''TRUSTPILOT_API_KEY''))
                                   (env_value w ''TRUSTPILOT_API_SECRET'')
                                   (env_value w ''TRUSTPILOT_BUSINESS_UNIT_ID'')
                                   args JNull cmd sub)))))"

section \<open>What the claims observe\<close>

text \<open>
  The values of the \<^verbatim>\<open>headers\<close> member of a printed request descriptor, and of all
  the descriptors a process printed on standard output.
\<close>

definition descriptor_headers :: "jsval \<Rightarrow> props option" where
  "descriptor_headers v =
     (case v of
        JObj ps \<Rightarrow> (case map_of ps ''headers'' of Some (JObj hs) \<Rightarrow> Some hs | _ \<Rightarrow> None)
      | _ \<Rightarrow> None)"

definition descriptor_header_values :: "jsval \<Rightarrow> jsval list" where
  "descriptor_header_values v = (case descriptor_headers v of Some hs \<Rightarrow> map snd hs | None \<Rightarrow> [])"

fun line_value :: "line \<Rightarrow> jsval" where
  "line_value (Json_pretty v) = v"
| "line_value (Json_compact v) = v"
| "line_value (Stack_trace e) = JUndef"

definition printed_header_values :: "outcome \<Rightarrow> jsval list" where
  "printed_header_values out = concat (map (descriptor_header_values \<circ> line_value) (stdout out))"

text \<open>The keys of a printed object, and whether a text occurs inside another.\<close>

definition object_keys :: "jsval \<Rightarrow> string list" where
  "object_keys v = (case v of JObj ps \<Rightarrow> map fst ps | _ \<Rightarrow> [])"

definition printed_keys :: "outcome \<Rightarrow> string list list" where
  "printed_keys out = map (object_keys \<circ> line_value) (stdout out)"

fun occurs_in :: "string \<Rightarrow> string \<Rightarrow> bool" where
  "occurs_in p [] = (p = [])"
| "occurs_in p (c # s) = (startsWith (c # s) p \<or> occurs_in p s)"

text \<open>
  The required flags that the handlers of the Klaviyo tool check, in the order in which
  each handler checks them, with the message of each check.
\<close>

definition klaviyo_required :: "(string \<times> string \<times> (string \<times> string) list) list" where
  "klaviyo_required =
     [(''profiles'', ''get'', [(''id'', ''--id required'')]),
      (''profiles'', ''create'', [(''email'', ''--email required'')]),
      (''profiles'', ''update'', [(''id'', ''--id required'')]),
      (''lists'', ''get'', [(''id'', ''--id required'')]),
      (''lists'', ''create'', [(''name'', ''--name required'')]),
      (''lists'', ''delete'', [(''id'', ''--id required'')]),
      (''lists'', ''add-profiles'',
         [(''id'', ''--id required (list ID)''),
          (''profiles'', ''--profiles required (comma-separated profile IDs)'')]),
      (''lists'', ''remove-profiles'',
         [(''id'', ''--id required (list ID)''),
          (''profiles'', ''--profiles required (comma-separated profile IDs)'')]),
      (''events'', ''get'', [(''id'', ''--id required'')]),
      (''events'', ''create'',
         [(''metric'', ''--metric required (metric name)''), (''email'', ''--email required'')]),
      (''campaigns'', ''get'', [(''id'', ''--id required'')]),
      (''flows'', ''get'', [(''id'', ''--id required'')]),
      (''flows'', ''update'', [(''id'', ''--id required'')]),
      (''metrics'', ''get'', [(''id'', ''--id required'')]),
      (''segments'', ''get'', [(''id'', ''--id required'')]),
      (''templates'', ''get'', [(''id'', ''--id required'')])]"

text \<open>
  The first required flag that the arguments omit, when the flags a handler checks before
  it are given.
\<close>

fun first_omitted :: "jsobj \<Rightarrow> (string \<times> string) list \<Rightarrow> (string \<times> string) option" where
  "first_omitted args [] = None"
| "first_omitted args ((flag, msg) # more_flags) =
     (if args flag = None then Some (flag, msg)
      else if truthy (get_prop args flag) then first_omitted args more_flags
      else None)"

text \<open>
  The primary commands of the tools and the subcommands of each, as the \<^verbatim>\<open>switch\<close>
  statements of \<^verbatim>\<open>main\<close> list them.
\<close>

definition klaviyo_commands :: "(string \<times> string list) list" where
  "klaviyo_commands =
     [(''profiles'', [''list'', ''get'', ''create'', ''update'']),
      (''lists'', [''list'', ''get'', ''create'', ''delete'', ''add-profiles'', ''remove-profiles'']),
      (''events'', [''list'', ''get'', ''create'']),
      (''campaigns'', [''list'', ''get'']),
      (''flows'', [''list'', ''get'', ''update'']),
      (''metrics'', [''list'', ''get'']),
      (''segments'', [''list'', ''get'']),
      (''templates'', [''list'', ''get''])]"

definition semrush_commands :: "(string \<times> string list) list" where
  "semrush_commands =
     [(''domain'', [''overview'', ''organic'', ''competitors'']),
      (''keywords'', [''overview'', ''related'', ''difficulty'']),
      (''backlinks'', [''overview'', ''list''])]"

definition mixpanel_commands :: "(string \<times> string list) list" where
  "mixpanel_commands =
     [(''track'', [''event'']),
      (''profiles'', [''set'']),
      (''query'', [''events'']),
      (''funnels'', [''get'']),
      (''retention'', [''get'']),
      (''export'', [''events''])]"

definition hotjar_commands :: "(string \<times> string list) list" where
  "hotjar_commands =
     [(''sites'', [''list'']),
      (''surveys'', [''list'', ''responses'']),
      (''heatmaps'', [''list'']),
      (''recordings'', [''list'']),
      (''forms'', [''list''])]"

definition trustpilot_commands :: "(string \<times> string list) list" where
  "trustpilot_commands =
     [(''business'', [''search'', ''get'', ''profile'', ''categories'', ''web-links'']),
      (''reviews'', [''list'', ''get'', ''private'', ''latest'', ''reply'', ''delete-reply'']),
      (''invitations'', [''create'', ''link'', ''templates'']),
      (''tags'', [''get'', ''add'', ''remove''])]"

text \<open>
  The object that the \<^verbatim>\<open>default\<close> branch of a subcommand \<^verbatim>\<open>switch\<close> returns, and
  the outcome of a process that printed one value on standard output and ended with exit
  code 0 without a request.
\<close>

definition unknown_subcommand :: "string \<Rightarrow> string list \<Rightarrow> jsval" where
  "unknown_subcommand c subs =
     JObj [(''error'', JStr (''Unknown '' @ c @ '' subcommand. Use: '' @ join_with '', '' subs))]"

definition printed :: "jsval \<Rightarrow> outcome" where
  "printed v = \<lparr>stdout = [Json_pretty v], stderr = [], exit_code = 0, requests = []\<rparr>"


subsection \<open>Worlds for the examples\<close>

text \<open>
  A process started with the given environment and tokens, on a host without network
  (every \<open>fetch\<close> fails), whose clock reads the first of January 2026, and whose
  \<^verbatim>\<open>JSON.parse\<close> knows the texts the examples use.
\<close>

definition example_json_parse :: "string \<Rightarrow> string + jsval" where
  "example_json_parse s =
     (if s = ''{}'' then Inr (JObj [])
      else if s = ''true'' then Inr (JBool True)
      else if s = ''{\"error\":\"invalid_client\"}'' then Inr (JObj [(''error'', JStr ''invalid_client'')])
      else if s = ''{\"access_token\":\"tok\"}'' then Inr (JObj [(''access_token'', JStr ''tok'')])
      else Inl (''Unexpected token in JSON at position 0''))"

definition example_world :: "(string \<times> string) list \<Rightarrow> string list \<Rightarrow> world" where
  "example_world vars tokens =
     \<lparr>env = map_of vars, argv = tokens,
      fetch = (\<lambda>r. Inl ''fetch failed''),
      json_parse = example_json_parse,
      to_number = (\<lambda>v. JNum (js_to_string v)),
      parse_float = (\<lambda>v. JNum (js_to_string v)),
      parse_int = (\<lambda>v. JNum (js_to_string v)),
      base64 = (\<lambda>s. s),
      toISOString = (\<lambda>d. ''2026-01-01T00:00:00.000Z'')\<rparr>"

text \<open>The same, one day later.\<close>

definition example_world_later :: "(string \<times> string) list \<Rightarrow> string list \<Rightarrow> world" where
  "example_world_later vars tokens =
     (example_world vars tokens)\<lparr>toISOString := (\<lambda>d. ''2026-01-02T00:00:00.000Z'')\<rparr>"

text \<open>The same, on a network that answers every request with status 200 and the given text.\<close>

definition example_world_online :: "(string \<times> string) list \<Rightarrow> string list \<Rightarrow> string \<Rightarrow> world" where
  "example_world_online vars tokens answer =
     (example_world vars tokens)
       \<lparr>fetch := (\<lambda>r. Inr \<lparr>res_status = ''200'', res_ok = True, res_text = answer\<rparr>)\<rparr>"

text \<open>
  A result of \<^verbatim>\<open>main\<close> that sent no request and that, when it is a value with a
  \<^verbatim>\<open>headers\<close> member, has exactly the given headers.
\<close>

definition quiet_with :: "props \<Rightarrow> result \<Rightarrow> bool" where
  "quiet_with hs r =
     (snd r = [] \<and>
      (\<forall>v. fst r = Inr v \<longrightarrow> descriptor_headers v = None \<or> descriptor_headers v = Some hs))"

text \<open>A variable of the environment that is unset or empty.\<close>

definition unset :: "world \<Rightarrow> string \<Rightarrow> bool" where
  "unset w name = (env w name = None \<or> env w name = Some [])"


section \<open>Properties of the argument parser\<close>

lemma loop_last:
  "startsWith a ''--'' \<Longrightarrow> parseArgs_loop [a] r = Inr (set_prop r (drop 2 a) (JBool True))"
  by simp

lemma loop_value:
  "startsWith a ''--'' \<Longrightarrow> code_value n \<Longrightarrow>
   parseArgs_loop (a # n # ts) r = parseArgs_loop ts (set_prop r (drop 2 a) (JStr n))"
  by (simp add: code_value_def)

lemma loop_bare:
  "startsWith a ''--'' \<Longrightarrow> \<not> code_value n \<Longrightarrow>
   parseArgs_loop (a # n # ts) r = parseArgs_loop (n # ts) (set_prop r (drop 2 a) (JBool True))"
  by (subst parseArgs_loop.simps) (auto simp add: code_value_def simp del: parseArgs_loop.simps)

lemma loop_push:
  "\<not> startsWith a ''--'' \<Longrightarrow> r ''_'' = Some (JArr xs) \<Longrightarrow>
   parseArgs_loop (a # ts) r = parseArgs_loop ts (r(''_'' \<mapsto> JArr (xs @ [JStr a])))"
  by simp

lemma loop_push_raises:
  "\<not> startsWith a ''--'' \<Longrightarrow> \<forall>xs. r ''_'' \<noteq> Some (JArr xs) \<Longrightarrow>
   parseArgs_loop (a # ts) r = Inl (TypeError ''result._.push is not a function'')"
  by (simp split: option.splits jsval.splits)

lemma loop_flags:
  "parseArgs_loop args r0 = Inr r \<Longrightarrow> k \<noteq> ''_'' \<Longrightarrow> k \<noteq> ''__proto__'' \<Longrightarrow>
   r k = (case last_flag (pair_tokens code_value args) k of Some v \<Rightarrow> Some v | None \<Rightarrow> r0 k)"
proof (induction code_value args arbitrary: r0 rule: pair_tokens.induct)
  case 1
  then show ?case by simp
next
  case (2 t ts)
  show ?case
  proof (cases "startsWith t ''--''")
    case flag: True
    show ?thesis
    proof (cases ts)
      case Nil
      with flag 2(4-) show ?thesis
        by (auto simp: set_prop_def split: if_splits)
    next
      case (Cons n ts')
      show ?thesis
      proof (cases "code_value n")
        case True
        with flag Cons 2(4) have "parseArgs_loop ts' (set_prop r0 (drop 2 t) (JStr n)) = Inr r"
          by (simp only: loop_value)
        from 2(1)[OF flag Cons True this 2(5,6)] flag Cons True 2(5,6) show ?thesis
          by (auto simp: set_prop_def split: option.splits)
      next
        case False
        with flag Cons 2(4) have "parseArgs_loop ts (set_prop r0 (drop 2 t) (JBool True)) = Inr r"
          by (simp only: loop_bare[OF flag False])
        from 2(2)[OF flag Cons False this 2(5,6)] flag Cons False 2(5,6) show ?thesis
          by (auto simp: set_prop_def split: option.splits)
      qed
    qed
  next
    case pos: False
    have "\<exists>xs. r0 ''_'' = Some (JArr xs)"
    proof (rule ccontr)
      assume "\<not> ?thesis"
      then have "\<forall>xs. r0 ''_'' \<noteq> Some (JArr xs)" by blast
      from loop_push_raises[where r=r0 and ts=ts, OF pos this] 2(4) show False by simp
    qed
    then obtain xs where xs: "r0 ''_'' = Some (JArr xs)" ..
    from 2(4) have "parseArgs_loop ts (r0(''_'' \<mapsto> JArr (xs @ [JStr t]))) = Inr r"
      by (simp only: loop_push[where r=r0 and xs=xs, OF pos xs])
    from 2(3)[OF pos this 2(5,6)] pos 2(5) show ?thesis
      by (auto split: option.splits)
  qed
qed

lemma loop_positionals:
  "r0 ''_'' = Some (JArr ps) \<Longrightarrow> ''_'' \<notin> set (flag_names (pair_tokens code_value args)) \<Longrightarrow>
   \<exists>r. parseArgs_loop args r0 = Inr r \<and>
       r ''_'' = Some (JArr (ps @ map JStr (positionals (pair_tokens code_value args))))"
proof (induction code_value args arbitrary: r0 ps rule: pair_tokens.induct)
  case 1
  then show ?case by simp
next
  case (2 t ts)
  show ?case
  proof (cases "startsWith t ''--''")
    case flag: True
    show ?thesis
    proof (cases ts)
      case Nil
      with flag 2(4-) show ?thesis
        by (auto simp: set_prop_def split: if_splits)
    next
      case (Cons n ts')
      show ?thesis
      proof (cases "code_value n")
        case True
        from flag Cons True 2(5) have nm: "drop 2 t \<noteq> ''_''"
          and rest: "''_'' \<notin> set (flag_names (pair_tokens code_value ts'))" by auto
        from nm 2(4) have "set_prop r0 (drop 2 t) (JStr n) ''_'' = Some (JArr ps)"
          by (simp add: set_prop_def)
        then have "\<exists>r. parseArgs_loop ts' (set_prop r0 (drop 2 t) (JStr n)) = Inr r \<and>
            r ''_'' = Some (JArr (ps @ map JStr (positionals (pair_tokens code_value ts'))))"
          by (rule 2(1)[OF flag Cons True _ rest])
        with flag Cons True show ?thesis
          by (simp add: loop_value del: parseArgs_loop.simps)
      next
        case False
        from flag Cons False 2(5) have nm: "drop 2 t \<noteq> ''_''"
          and rest: "''_'' \<notin> set (flag_names (pair_tokens code_value ts))" by auto
        from nm 2(4) have "set_prop r0 (drop 2 t) (JBool True) ''_'' = Some (JArr ps)"
          by (simp add: set_prop_def)
        then have "\<exists>r. parseArgs_loop ts (set_prop r0 (drop 2 t) (JBool True)) = Inr r \<and>
            r ''_'' = Some (JArr (ps @ map JStr (positionals (pair_tokens code_value ts))))"
          by (rule 2(2)[OF flag Cons False _ rest])
        with flag Cons False show ?thesis
          by (simp add: loop_bare del: parseArgs_loop.simps)
      qed
    qed
  next
    case pos: False
    from pos 2(5) have rest: "''_'' \<notin> set (flag_names (pair_tokens code_value ts))" by simp
    have "(r0(''_'' \<mapsto> JArr (ps @ [JStr t]))) ''_'' = Some (JArr (ps @ [JStr t]))" by simp
    then have "\<exists>r. parseArgs_loop ts (r0(''_'' \<mapsto> JArr (ps @ [JStr t]))) = Inr r \<and>
        r ''_'' = Some (JArr ((ps @ [JStr t]) @ map JStr (positionals (pair_tokens code_value ts))))"
      by (rule 2(3)[OF pos _ rest])
    with pos show ?thesis
      by (simp add: loop_push[where r=r0 and xs=ps, OF pos 2(4)] del: parseArgs_loop.simps)
  qed
qed


lemma parseArgs_returns:
  assumes "''_'' \<notin> set (flag_names (pair_tokens code_value args))"
  shows "\<exists>r. parseArgs args = Inr r \<and>
           r ''_'' = Some (JArr (map JStr (positionals (pair_tokens code_value args))))"
proof -
  have "[''_'' \<mapsto> JArr []] ''_'' = Some (JArr [])" by simp
  from loop_positionals[where ps="[]" and ?r0.0="[''_'' \<mapsto> JArr []]", OF this assms]
  show ?thesis by (simp add: parseArgs_def)
qed

text \<open>
  Claim C1 (the parser is total and never throws). The code breaks it: a flag written
  \<^verbatim>\<open>--_\<close> overwrites the positional array, and the next positional token calls
  \<^verbatim>\<open>push\<close> on a string. At the tokens \<^verbatim>\<open>--_ x y\<close> the parser raises a TypeError.
\<close>

theorem parseArgs_raises_on_underscore_flag:
  "parseArgs [''--_'', ''x'', ''y''] = Inl (TypeError ''result._.push is not a function'')"
  by (simp add: parseArgs_def startsWith_def set_prop_def)

text \<open>
  Claim C3, as stated: every flag takes the following token as its string value whenever
  that token exists and does not begin with \<^verbatim>\<open>--\<close>. It fails at the tokens
  \<^verbatim>\<open>--a ""\<close>: the rule gives the flag the empty string, the code gives it
  \<^verbatim>\<open>true\<close> and keeps the empty token as a positional.
\<close>

theorem parseArgs_empty_value_counterexample:
  "flag_of (parseArgs [''--a'', '''']) ''a'' = Some (JBool True) \<and>
   last_flag (pair_tokens spec_value [''--a'', '''']) ''a'' = Some (JStr '''') \<and>
   flag_of (parseArgs [''--a'', '''']) ''_'' = Some (JArr [JStr ''''])"
  by (simp add: parseArgs_def startsWith_def set_prop_def flag_of_def spec_value_def)

text \<open>
  Claim C3, amended: whenever the parser returns, every flag other than \<^verbatim>\<open>_\<close> and
  \<^verbatim>\<open>__proto__\<close> holds what the pairing rule gives the last flag token of that name,
  where a following token is taken as the value when it exists, is not empty and does
  not begin with \<^verbatim>\<open>--\<close> (both tokens consumed), and the flag is \<^verbatim>\<open>true\<close>
  otherwise (one token consumed); and when no flag is named \<^verbatim>\<open>_\<close> the positional
  array holds the remaining tokens in order.
\<close>

theorem parseArgs_pairing:
  assumes "parseArgs args = Inr r"
  shows "(\<forall>k. k \<noteq> ''_'' \<longrightarrow> k \<noteq> ''__proto__'' \<longrightarrow>
            r k = last_flag (pair_tokens code_value args) k) \<and>
         (''_'' \<notin> set (flag_names (pair_tokens code_value args)) \<longrightarrow>
            r ''_'' = Some (JArr (map JStr (positionals (pair_tokens code_value args)))))"
proof (intro conjI allI impI)
  fix k :: string
  assume k: "k \<noteq> ''_''" "k \<noteq> ''__proto__''"
  from assms have "parseArgs_loop args [''_'' \<mapsto> JArr []] = Inr r"
    by (simp add: parseArgs_def)
  from loop_flags[OF this k] k(1) show "r k = last_flag (pair_tokens code_value args) k"
    by (simp split: option.splits)
next
  assume "''_'' \<notin> set (flag_names (pair_tokens code_value args))"
  from parseArgs_returns[OF this] assms
  show "r ''_'' = Some (JArr (map JStr (positionals (pair_tokens code_value args))))"
    by auto
qed

theorem parseArgs_pairing_witness:
  "parseArgs [''--a'', ''--b'', ''x'', ''y''] =
     Inr [''_'' \<mapsto> JArr [JStr ''y''], ''a'' \<mapsto> JBool True, ''b'' \<mapsto> JStr ''x''] \<and>
   last_flag (pair_tokens code_value [''--a'', ''--b'', ''x'', ''y'']) ''a'' = Some (JBool True) \<and>
   last_flag (pair_tokens code_value [''--a'', ''--b'', ''x'', ''y'']) ''b'' = Some (JStr ''x'') \<and>
   positionals (pair_tokens code_value [''--a'', ''--b'', ''x'', ''y'']) = [''y'']"
proof -
  have p: "parseArgs [''--a'', ''--b'', ''x'', ''y''] =
     Inr [''_'' \<mapsto> JArr [JStr ''y''], ''a'' \<mapsto> JBool True, ''b'' \<mapsto> JStr ''x'']"
    by (simp add: parseArgs_def startsWith_def set_prop_def fun_upd_twist)
  note q = parseArgs_pairing[OF p, THEN conjunct1, rule_format]
  have "last_flag (pair_tokens code_value [''--a'', ''--b'', ''x'', ''y'']) ''a'' = Some (JBool True)"
    using q[of "''a''"] by simp
  moreover
  have "last_flag (pair_tokens code_value [''--a'', ''--b'', ''x'', ''y'']) ''b'' = Some (JStr ''x'')"
    using q[of "''b''"] by simp
  ultimately have
    "last_flag (pair_tokens code_value [''--a'', ''--b'', ''x'', ''y'']) ''a'' = Some (JBool True) \<and>
     last_flag (pair_tokens code_value [''--a'', ''--b'', ''x'', ''y'']) ''b'' = Some (JStr ''x'')"
    by (rule conjI)
  with p show ?thesis
    by (simp add: startsWith_def code_value_def)
qed

section \<open>Properties of the Klaviyo tool\<close>

lemmas parse_eval = parseArgs_def startsWith_def set_prop_def get_prop_def destructure_def nth_or_undef_def

lemmas world_eval = example_world_def example_world_later_def example_world_online_def example_json_parse_def

lemmas outcome_eval = boundary_def gate_failure_def uncaught_def ret_def throw_def error_obj_def

lemma klaviyo_run:
  assumes "env w ''KLAVIYO_API_KEY'' = Some K" "K \<noteq> []" "parseArgs (argv w) = Inr args"
    and "destructure (get_prop args ''_'') = Inr (cmd, sub)"
  shows "klaviyo w = boundary (klaviyo_main w K args cmd sub)"
  using assms by (simp add: klaviyo_def klaviyo_script_def)

lemma stderr_boundary:
  "\<forall>l \<in> set (stderr (boundary r)). \<exists>m. l = Json_compact (JObj [(''error'', JStr m)])"
  by (cases r; cases "fst r") (auto simp: boundary_def error_obj_def)

text \<open>
  Claim C2 (every exception of the chain, argument parsing included, is caught at the
  top level and printed as one JSON line on standard error; the process never ends with
  a stack trace). The code breaks it at the tokens \<^verbatim>\<open>--_ x y\<close>: the parse runs at
  module scope, outside \<^verbatim>\<open>main().catch\<close>; the TypeError that the parser raises
  there (claim C1) is caught by nobody, and the process ends with a stack trace on
  standard error and nothing on standard output.
\<close>

theorem klaviyo_stack_trace_on_underscore_flag:
  "klaviyo (example_world [(''KLAVIYO_API_KEY'', ''pk_1'')] [''--_'', ''x'', ''y'']) =
     \<lparr>stdout = [], stderr = [Stack_trace (TypeError ''result._.push is not a function'')],
      exit_code = 1, requests = []\<rparr>"
  by (simp add: klaviyo_def klaviyo_script_def world_eval parse_eval outcome_eval)

text \<open>
  The flag \<^verbatim>\<open>_\<close> is the only way past the boundary. When no flag of the command
  line is named \<^verbatim>\<open>_\<close>, the parse and the destructuring return, the process is
  \<^verbatim>\<open>main\<close> under \<^verbatim>\<open>main().catch\<close>, and standard error holds nothing but lines
  \<^verbatim>\<open>{"error": message}\<close>.
\<close>

lemma klaviyo_caught_without_underscore_flag:
  assumes "env w ''KLAVIYO_API_KEY'' = Some K" "K \<noteq> []"
    and "''_'' \<notin> set (flag_names (pair_tokens code_value (argv w)))"
  shows "\<exists>args cmd sub. klaviyo w = boundary (klaviyo_main w K args cmd sub)"
    and "\<forall>l \<in> set (stderr (klaviyo w)). \<exists>m. l = Json_compact (JObj [(''error'', JStr m)])"
proof -
  from parseArgs_returns[OF assms(3)] obtain args ps where
    p: "parseArgs (argv w) = Inr args" and "args ''_'' = Some (JArr ps)"
    by blast
  then have "destructure (get_prop args ''_'') = Inr (nth_or_undef ps 0, nth_or_undef ps 1)"
    by (simp add: destructure_def get_prop_def)
  from klaviyo_run[OF assms(1,2) p this]
  have r: "klaviyo w = boundary (klaviyo_main w K args (nth_or_undef ps 0) (nth_or_undef ps 1))" .
  then show "\<exists>args cmd sub. klaviyo w = boundary (klaviyo_main w K args cmd sub)"
    by blast
  from r stderr_boundary show
    "\<forall>l \<in> set (stderr (klaviyo w)). \<exists>m. l = Json_compact (JObj [(''error'', JStr m)])"
    by simp
qed

text \<open>
  Inside the boundary: an exception that \<^verbatim>\<open>main\<close> raises becomes the one line
  \<^verbatim>\<open>{"error": message}\<close> on standard error with exit code 1, and a value that
  \<^verbatim>\<open>main\<close> returns is printed on standard output with exit code 0.
\<close>

lemma klaviyo_main_exceptions_caught:
  assumes "env w ''KLAVIYO_API_KEY'' = Some K" "K \<noteq> []" "parseArgs (argv w) = Inr args"
    and "destructure (get_prop args ''_'') = Inr (cmd, sub)"
  shows "(\<forall>e reqs. klaviyo_main w K args cmd sub = (Inl e, reqs) \<longrightarrow>
            klaviyo w = \<lparr>stdout = [], stderr = [Json_compact (JObj [(''error'', JStr (message e))])],
                         exit_code = 1, requests = reqs\<rparr>) \<and>
         (\<forall>l \<in> set (stderr (klaviyo w)). \<exists>m. l = Json_compact (JObj [(''error'', JStr m)])) \<and>
         (\<forall>v reqs. klaviyo_main w K args cmd sub = (Inr v, reqs) \<longrightarrow>
            klaviyo w = \<lparr>stdout = [Json_pretty v], stderr = [], exit_code = 0, requests = reqs\<rparr>)"
  using stderr_boundary[of "klaviyo_main w K args cmd sub"]
  by (simp add: klaviyo_run[OF assms] boundary_def error_obj_def)

lemmas klaviyo_handler_defs =
  klaviyo_profiles_def klaviyo_lists_def klaviyo_events_def klaviyo_campaigns_def
  klaviyo_flows_def klaviyo_metrics_def klaviyo_segments_def klaviyo_templates_def

text \<open>
  For instance \<^verbatim>\<open>lists add-profiles --id L --profiles\<close>, where the flag without a
  value makes \<^verbatim>\<open>args.profiles?.split\<close> fail inside \<^verbatim>\<open>main\<close>.
\<close>

lemma klaviyo_main_exception_example:
  "klaviyo (example_world [(''KLAVIYO_API_KEY'', ''pk_1'')]
              [''lists'', ''add-profiles'', ''--id'', ''L'', ''--profiles'']) =
     \<lparr>stdout = [],
      stderr = [Json_compact (JObj [(''error'', JStr ''args.profiles?.split is not a function'')])],
      exit_code = 1, requests = []\<rparr>"
proof -
  let ?w = "example_world [(''KLAVIYO_API_KEY'', ''pk_1'')]
              [''lists'', ''add-profiles'', ''--id'', ''L'', ''--profiles'']"
  let ?args = "[''_'' \<mapsto> JArr [JStr ''lists'', JStr ''add-profiles''], ''id'' \<mapsto> JStr ''L'',
                ''profiles'' \<mapsto> JBool True]"
  have e: "env ?w ''KLAVIYO_API_KEY'' = Some ''pk_1''" by (simp add: world_eval)
  have k: "''pk_1'' \<noteq> []" by simp
  have p: "parseArgs (argv ?w) = Inr ?args"
    by (simp add: world_eval parse_eval fun_upd_twist)
  have d: "destructure (get_prop ?args ''_'') = Inr (JStr ''lists'', JStr ''add-profiles'')"
    by (simp add: parse_eval)
  have m: "klaviyo_main ?w ''pk_1'' ?args (JStr ''lists'') (JStr ''add-profiles'') =
             (Inl (TypeError ''args.profiles?.split is not a function''), [])"
    by (simp add: klaviyo_main_def klaviyo_lists_def klaviyo_list_profiles_def get_prop_def
        js_split_def throw_def)
  from klaviyo_main_exceptions_caught[OF e k p d] m show ?thesis by simp
qed

lemma klaviyo_unknown_command:
  "cmd \<notin> JStr ` set (map fst klaviyo_commands) \<Longrightarrow> klaviyo_main w K args cmd sub = ret klaviyo_usage"
  by (simp add: klaviyo_main_def klaviyo_commands_def)

lemma unknown_sub:
  "sub \<notin> JStr ` set [''list'', ''get'', ''create'', ''update''] \<Longrightarrow>
   klaviyo_profiles w K args sub =
     ret (error_obj ''Unknown profiles subcommand. Use: list, get, create, update'')"
  "sub \<notin> JStr ` set [''list'', ''get'', ''create'', ''delete'', ''add-profiles'', ''remove-profiles''] \<Longrightarrow>
   klaviyo_lists w K args sub =
     ret (error_obj ''Unknown lists subcommand. Use: list, get, create, delete, add-profiles, remove-profiles'')"
  "sub \<notin> JStr ` set [''list'', ''get'', ''create''] \<Longrightarrow>
   klaviyo_events w K args sub = ret (error_obj ''Unknown events subcommand. Use: list, get, create'')"
  "sub \<notin> JStr ` set [''list'', ''get''] \<Longrightarrow>
   klaviyo_campaigns w K args sub = ret (error_obj ''Unknown campaigns subcommand. Use: list, get'')"
  "sub \<notin> JStr ` set [''list'', ''get'', ''update''] \<Longrightarrow>
   klaviyo_flows w K args sub = ret (error_obj ''Unknown flows subcommand. Use: list, get, update'')"
  "sub \<notin> JStr ` set [''list'', ''get''] \<Longrightarrow>
   klaviyo_metrics w K args sub = ret (error_obj ''Unknown metrics subcommand. Use: list, get'')"
  "sub \<notin> JStr ` set [''list'', ''get''] \<Longrightarrow>
   klaviyo_segments w K args sub = ret (error_obj ''Unknown segments subcommand. Use: list, get'')"
  "sub \<notin> JStr ` set [''list'', ''get''] \<Longrightarrow>
   klaviyo_templates w K args sub = ret (error_obj ''Unknown templates subcommand. Use: list, get'')"
  by (simp_all add: klaviyo_handler_defs split del: if_split)


lemma klaviyo_unknown_subcommand:
  assumes "(c, subs) \<in> set klaviyo_commands" "sub \<notin> JStr ` set subs"
  shows "klaviyo_main w K args (JStr c) sub =
     ret (error_obj (''Unknown '' @ c @ '' subcommand. Use: '' @ join_with '', '' subs))"
  using assms unfolding klaviyo_commands_def
  apply (simp only: list.set insert_iff empty_iff prod.inject)
  apply (elim disjE conjE)
  apply (simp_all add: klaviyo_main_def unknown_sub split del: if_split)
  done

lemma first_omitted_one:
  "first_omitted args [(a, ma)] = Some (f, m) \<Longrightarrow> args a = None \<and> f = a \<and> m = ma"
  by (simp split: if_splits)

lemma first_omitted_two:
  "first_omitted args [(a, ma), (b, mb)] = Some (f, m) \<Longrightarrow>
     (args a = None \<and> f = a \<and> m = ma) \<or>
     (args a \<noteq> None \<and> truthy (get_prop args a) \<and> args b = None \<and> f = b \<and> m = mb)"
  by (simp split: if_splits)

lemma klaviyo_get_by_id_omitted:
  "args ''id'' = None \<Longrightarrow> klaviyo_get_by_id w K args r = ret (error_obj ''--id required'')"
  by (simp add: klaviyo_get_by_id_def get_prop_def)

lemma klaviyo_list_profiles_omitted:
  "args ''id'' = None \<Longrightarrow>
   klaviyo_list_profiles w K args m = ret (error_obj ''--id required (list ID)'')"
  "truthy (get_prop args ''id'') \<Longrightarrow> args ''profiles'' = None \<Longrightarrow>
   klaviyo_list_profiles w K args m =
     ret (error_obj ''--profiles required (comma-separated profile IDs)'')"
  by (simp_all add: klaviyo_list_profiles_def get_prop_def Let_def split del: if_split)

lemma klaviyo_required_flags:
  assumes "(c, s, fs) \<in> set klaviyo_required" "first_omitted args fs = Some (f, m)"
  shows "klaviyo_main w K args (JStr c) (JStr s) = ret (error_obj m)"
  using assms unfolding klaviyo_required_def
  apply (simp only: list.set insert_iff empty_iff prod.inject)
  apply (elim disjE conjE)
  apply (simp_all add: klaviyo_main_def klaviyo_handler_defs klaviyo_get_by_id_omitted
           klaviyo_list_profiles_omitted get_prop_def Let_def
         split: if_split_asm split del: if_split)
  done

lemma klaviyo_required_named:
  "\<forall>(c, s, fs) \<in> set klaviyo_required. \<forall>(f, m) \<in> set fs. occurs_in (''--'' @ f) m"
  by (simp add: klaviyo_required_def startsWith_def)

lemma klaviyo_api_dry_run:
  "truthy (get_prop args ''dry-run'') \<Longrightarrow>
   klaviyo_api w K args m p b =
     ret (dry_run_descriptor m (klaviyo_BASE_URL @ p)
            [(''Authorization'', JStr ''***''), (''Content-Type'', JStr ''application/json''),
             (''Accept'', JStr ''application/json''), (''revision'', JStr ''2024-10-15'')] b)"
  by (simp add: klaviyo_api_def klaviyo_headers_def header_props_def obj_set_def klaviyo_REVISION_def)

lemma quiet_with_simps:
  "quiet_with hs (ret (error_obj m))"
  "quiet_with hs (throw e)"
  "quiet_with hs (ret (dry_run_descriptor me u hs b))"
  "quiet_with hs (ret klaviyo_usage)"
  by (simp_all add: quiet_with_def ret_def throw_def error_obj_def dry_run_descriptor_def
      descriptor_headers_def klaviyo_usage_def)

lemma quiet_with_if:
  "quiet_with hs (if c then a else b) = (if c then quiet_with hs a else quiet_with hs b)"
  by simp

lemma quiet_with_case_sum:
  "quiet_with hs (case x of Inl e \<Rightarrow> f e | Inr v \<Rightarrow> g v) =
     (case x of Inl e \<Rightarrow> quiet_with hs (f e) | Inr v \<Rightarrow> quiet_with hs (g v))"
  by (cases x) simp_all

lemma case_sum_True: "(case x of Inl e \<Rightarrow> True | Inr v \<Rightarrow> True) = True"
  by (cases x) simp_all

lemmas quiet_rules = quiet_with_simps quiet_with_if quiet_with_case_sum case_sum_True

lemma klaviyo_handlers_quiet:
  assumes "truthy (get_prop args ''dry-run'')"
  shows "quiet_with [(''Authorization'', JStr ''***''), (''Content-Type'', JStr ''application/json''),
             (''Accept'', JStr ''application/json''), (''revision'', JStr ''2024-10-15'')]
           (klaviyo_main w K args cmd sub)"
  using assms
  by (simp add: klaviyo_main_def klaviyo_handler_defs klaviyo_get_by_id_def klaviyo_list_profiles_def
      klaviyo_api_dry_run quiet_rules Let_def cong: if_cong sum.case_cong split del: if_split)

lemma klaviyo_handlers_dry_run_same:
  assumes "truthy (get_prop args ''dry-run'')" "to_number w' = to_number w"
  shows "klaviyo_profiles w' K' args sub = klaviyo_profiles w K args sub"
    "klaviyo_lists w' K' args sub = klaviyo_lists w K args sub"
    "toISOString w' 0 = toISOString w 0 \<or> sub \<noteq> JStr ''create'' \<Longrightarrow>
       klaviyo_events w' K' args sub = klaviyo_events w K args sub"
    "klaviyo_campaigns w' K' args sub = klaviyo_campaigns w K args sub"
    "klaviyo_flows w' K' args sub = klaviyo_flows w K args sub"
    "klaviyo_metrics w' K' args sub = klaviyo_metrics w K args sub"
    "klaviyo_segments w' K' args sub = klaviyo_segments w K args sub"
    "klaviyo_templates w' K' args sub = klaviyo_templates w K args sub"
  using assms
  by (auto simp add: klaviyo_handler_defs klaviyo_get_by_id_def klaviyo_list_profiles_def
      klaviyo_api_dry_run Let_def cong: if_cong sum.case_cong split del: if_split)

lemma klaviyo_main_dry_run_same:
  assumes "truthy (get_prop args ''dry-run'')" "to_number w' = to_number w"
    and "toISOString w' 0 = toISOString w 0 \<or> (cmd, sub) \<noteq> (JStr ''events'', JStr ''create'')"
  shows "klaviyo_main w' K' args cmd sub = klaviyo_main w K args cmd sub"
  using assms(3) klaviyo_handlers_dry_run_same[OF assms(1,2), where K'=K' and K=K]
  by (auto simp add: klaviyo_main_def)

lemma boundary_observed:
  "requests (boundary r) = snd r"
  "printed_header_values (boundary r) = (case fst r of Inr v \<Rightarrow> descriptor_header_values v | Inl e \<Rightarrow> [])"
  by (cases r; cases "fst r"; simp add: boundary_def printed_header_values_def)+

lemma quiet_with_boundary:
  assumes "quiet_with hs r"
  shows "requests (boundary r) = []" "set (printed_header_values (boundary r)) \<subseteq> snd ` set hs"
proof -
  from assms show "requests (boundary r) = []"
    by (simp add: boundary_observed quiet_with_def)
  show "set (printed_header_values (boundary r)) \<subseteq> snd ` set hs"
  proof (cases "fst r")
    case (Inl e)
    then show ?thesis by (simp add: boundary_observed)
  next
    case (Inr v)
    with assms have "descriptor_headers v = None \<or> descriptor_headers v = Some hs"
      by (simp add: quiet_with_def)
    with Inr show ?thesis
      by (auto simp add: boundary_observed descriptor_header_values_def)
  qed
qed

lemmas klaviyo_eval = klaviyo_def klaviyo_script_def klaviyo_main_def klaviyo_handler_defs
  klaviyo_get_by_id_def klaviyo_list_profiles_def klaviyo_api_def klaviyo_headers_def
  klaviyo_BASE_URL_def klaviyo_REVISION_def dry_run_descriptor_def header_props_def obj_set_def
  js_or_def js_split_def

text \<open>
  Claim C5, as stated: two dry runs with the same arguments print the same descriptor.
  It fails for \<^verbatim>\<open>events create\<close>, whose body holds
  \<^verbatim>\<open>time: new Date().toISOString()\<close>: the same environment and the same tokens, run
  on two different days, print two different descriptors.
\<close>

theorem klaviyo_dry_run_clock_counterexample:
  "klaviyo (example_world [(''KLAVIYO_API_KEY'', ''pk_1'')]
      [''events'', ''create'', ''--metric'', ''m'', ''--email'', ''e'', ''--dry-run'']) \<noteq>
   klaviyo (example_world_later [(''KLAVIYO_API_KEY'', ''pk_1'')]
      [''events'', ''create'', ''--metric'', ''m'', ''--email'', ''e'', ''--dry-run''])"
  by (simp add: world_eval parse_eval outcome_eval klaviyo_eval)

text \<open>
  Claim C5, amended: in the Klaviyo tool, two runs in dry-run mode with the same
  environment and the same tokens end in the same outcome and send no request, whatever
  the network answers, provided the clock reads the same in both or the command is not
  \<^verbatim>\<open>events create\<close>.
\<close>

theorem klaviyo_dry_run_repeatable:
  assumes "env w' = env w" "argv w' = argv w" "to_number w' = to_number w"
    and "parseArgs (argv w) = Inr args" "truthy (get_prop args ''dry-run'')"
    and "toISOString w' 0 = toISOString w 0 \<or>
         destructure (get_prop args ''_'') \<noteq> Inr (JStr ''events'', JStr ''create'')"
  shows "klaviyo w' = klaviyo w \<and> requests (klaviyo w) = []"
proof (cases "unset w ''KLAVIYO_API_KEY''")
  case True
  with assms(1) show ?thesis
    by (auto simp add: unset_def klaviyo_def gate_failure_def)
next
  case False
  then obtain K where K: "env w ''KLAVIYO_API_KEY'' = Some K" "K \<noteq> []"
    by (auto simp add: unset_def)
  show ?thesis
  proof (cases "destructure (get_prop args ''_'')")
    case (Inl e)
    with K assms(1,2,4) show ?thesis
      by (simp add: klaviyo_def klaviyo_script_def uncaught_def)
  next
    case (Inr p)
    obtain cmd sub where p: "p = (cmd, sub)" by (cases p)
    from assms(6) Inr p
    have clock: "toISOString w' 0 = toISOString w 0 \<or> (cmd, sub) \<noteq> (JStr ''events'', JStr ''create'')"
      by simp
    have same: "klaviyo_main w' K args cmd sub = klaviyo_main w K args cmd sub"
      by (rule klaviyo_main_dry_run_same[OF assms(5) assms(3) clock])
    have quiet: "requests (boundary (klaviyo_main w K args cmd sub)) = []"
      by (rule quiet_with_boundary(1)[OF klaviyo_handlers_quiet[OF assms(5)]])
    from K assms(1,2,4) Inr p same quiet show ?thesis
      by (simp add: klaviyo_def klaviyo_script_def)
  qed
qed


theorem klaviyo_dry_run_repeatable_witness:
  "klaviyo (example_world_later [(''KLAVIYO_API_KEY'', ''pk_1'')] [''profiles'', ''list'', ''--dry-run'']) =
   klaviyo (example_world [(''KLAVIYO_API_KEY'', ''pk_1'')] [''profiles'', ''list'', ''--dry-run'']) \<and>
   requests (klaviyo (example_world [(''KLAVIYO_API_KEY'', ''pk_1'')]
                        [''profiles'', ''list'', ''--dry-run''])) = []"
proof -
  let ?w = "example_world [(''KLAVIYO_API_KEY'', ''pk_1'')] [''profiles'', ''list'', ''--dry-run'']"
  let ?w' = "example_world_later [(''KLAVIYO_API_KEY'', ''pk_1'')] [''profiles'', ''list'', ''--dry-run'']"
  let ?args = "[''_'' \<mapsto> JArr [JStr ''profiles'', JStr ''list''], ''dry-run'' \<mapsto> JBool True]"
  have 1: "env ?w' = env ?w" "argv ?w' = argv ?w" "to_number ?w' = to_number ?w"
    by (simp_all add: world_eval)
  have 2: "parseArgs (argv ?w) = Inr ?args"
    by (simp add: world_eval parse_eval)
  have 3: "truthy (get_prop ?args ''dry-run'')"
    by (simp add: parse_eval)
  have 4: "toISOString ?w' 0 = toISOString ?w 0 \<or>
           destructure (get_prop ?args ''_'') \<noteq> Inr (JStr ''events'', JStr ''create'')"
    by (simp add: parse_eval)
  from klaviyo_dry_run_repeatable[OF 1 2 3 4] show ?thesis .
qed

lemma quiet_with_stdout:
  assumes "quiet_with hs r"
  shows "\<forall>l \<in> set (stdout (boundary r)). \<forall>hs'. descriptor_headers (line_value l) = Some hs' \<longrightarrow> hs' = hs"
proof (cases "fst r")
  case (Inl e)
  then show ?thesis by (cases r) (simp add: boundary_def)
next
  case (Inr v)
  with assms have "descriptor_headers v = None \<or> descriptor_headers v = Some hs"
    by (simp add: quiet_with_def)
  with Inr show ?thesis by (cases r) (auto simp add: boundary_def)
qed

lemma semrush_quiet:
  assumes "truthy (get_prop args ''dry-run'')"
  shows "quiet_with [] (semrush_main w K args cmd sub)"
  using assms
  by (simp add: semrush_main_def semrush_usage_def semrush_api_def quiet_with_def ret_def error_obj_def
      descriptor_headers_def Let_def)

text \<open>
  The query string that the Semrush tool prints in dry-run mode: setting the key, then
  \<^verbatim>\<open>export_escape\<close>, then the mask over the key leaves no trace of the key.
\<close>

lemma params_set_filter:
  "k \<noteq> k' \<Longrightarrow>
   filter (\<lambda>p. fst p \<noteq> k') (params_set ps k v) = params_set (filter (\<lambda>p. fst p \<noteq> k') ps) k v"
  by (induction ps) (auto simp add: conj_commute)

lemma params_set_twice:
  "params_set (params_set ps k v) k m = params_set ps k m"
  by (induction ps) auto

lemma params_set_masked:
  "k \<noteq> k' \<Longrightarrow>
   params_set (params_set (params_set ps k v) k' v') k m = params_set (params_set ps k m) k' v'"
  by (induction ps) (auto simp add: params_set_filter params_set_twice)

lemma semrush_api_dry_run:
  "truthy (get_prop args ''dry-run'') \<Longrightarrow>
   semrush_api w K args p =
     ret (JObj [(''_dry_run'', JBool True), (''method'', JStr ''GET''),
                (''url'', JStr (semrush_BASE_URL @ ''?'' @ params_toString
                   (params_set (params_set p ''key'' ''***'') ''export_escape'' ''1''))),
                (''headers'', JObj []), (''body'', JUndef)])"
  by (simp add: semrush_api_def params_set_masked Let_def)

lemma semrush_main_dry_run_same:
  "truthy (get_prop args ''dry-run'') \<Longrightarrow>
   semrush_main w' K' args cmd sub = semrush_main w K args cmd sub"
  by (simp add: semrush_main_def semrush_api_dry_run Let_def cong: if_cong split del: if_split)

text \<open>
  Claim C4 (in dry-run mode no request is sent, and no header value of the printed
  descriptor is the secret of the environment: the header that carries the credential
  holds the mask). For the Klaviyo tool: a dry run sends no request; in every
  descriptor it prints the \<^verbatim>\<open>Authorization\<close> header is the mask \<^verbatim>\<open>***\<close>; the
  header values are the mask, \<^verbatim>\<open>application/json\<close> and the revision date, so that
  none of them is the secret (a secret that is not itself one of these three texts);
  and the whole outcome is the same for every other value of the secret. For the Semrush
  tool, whose credential travels in the query string and not in a header: a dry run
  sends no request, prints no header, and its whole outcome, the printed address
  included, is the same for every other value of the secret.
\<close>

theorem dry_run_masks_headers:
  "(\<forall>w K args. env w ''KLAVIYO_API_KEY'' = Some K \<longrightarrow> K \<noteq> [] \<longrightarrow>
       parseArgs (argv w) = Inr args \<longrightarrow> truthy (get_prop args ''dry-run'') \<longrightarrow>
         requests (klaviyo w) = [] \<and>
         (\<forall>l \<in> set (stdout (klaviyo w)). \<forall>hs. descriptor_headers (line_value l) = Some hs \<longrightarrow>
            map_of hs ''Authorization'' = Some (JStr ''***'')) \<and>
         set (printed_header_values (klaviyo w)) \<subseteq>
           {JStr ''***'', JStr ''application/json'', JStr ''2024-10-15''} \<and>
         (K \<notin> {''***'', ''application/json'', ''2024-10-15''} \<longrightarrow>
            JStr K \<notin> set (printed_header_values (klaviyo w))) \<and>
         (\<forall>K'. K' \<noteq> [] \<longrightarrow>
            klaviyo (w\<lparr>env := (env w)(''KLAVIYO_API_KEY'' \<mapsto> K')\<rparr>) = klaviyo w)) \<and>
   (\<forall>w K args. env w ''SEMRUSH_API_KEY'' = Some K \<longrightarrow> K \<noteq> [] \<longrightarrow>
       parseArgs (argv w) = Inr args \<longrightarrow> truthy (get_prop args ''dry-run'') \<longrightarrow>
         requests (semrush w) = [] \<and> printed_header_values (semrush w) = [] \<and>
         (\<forall>K'. K' \<noteq> [] \<longrightarrow>
            semrush (w\<lparr>env := (env w)(''SEMRUSH_API_KEY'' \<mapsto> K')\<rparr>) = semrush w))"
proof (intro conjI allI impI ballI)
  fix w :: world and K :: string and args :: jsobj
  assume h: "env w ''KLAVIYO_API_KEY'' = Some K" "K \<noteq> []" "parseArgs (argv w) = Inr args"
    "truthy (get_prop args ''dry-run'')"
  let ?hs = "[(''Authorization'', JStr ''***''), (''Content-Type'', JStr ''application/json''),
             (''Accept'', JStr ''application/json''), (''revision'', JStr ''2024-10-15'')]"
  have *: "requests (klaviyo w) = [] \<and>
        set (printed_header_values (klaviyo w)) \<subseteq>
           {JStr ''***'', JStr ''application/json'', JStr ''2024-10-15''} \<and>
        (\<forall>l \<in> set (stdout (klaviyo w)). \<forall>hs. descriptor_headers (line_value l) = Some hs \<longrightarrow> hs = ?hs)"
  proof (cases "destructure (get_prop args ''_'')")
    case (Inl e)
    with h show ?thesis
      by (simp add: klaviyo_def klaviyo_script_def uncaught_def printed_header_values_def)
  next
    case (Inr p)
    obtain cmd sub where p: "p = (cmd, sub)" by (cases p)
    note q = klaviyo_handlers_quiet[OF h(4), of w K cmd sub]
    from quiet_with_boundary[OF q] quiet_with_stdout[OF q] h Inr p
    show ?thesis by (simp add: klaviyo_def klaviyo_script_def)
  qed
  from * show "requests (klaviyo w) = []" by simp
  from * show "set (printed_header_values (klaviyo w)) \<subseteq>
           {JStr ''***'', JStr ''application/json'', JStr ''2024-10-15''}" by simp
  {
    fix l hs
    assume "l \<in> set (stdout (klaviyo w))" "descriptor_headers (line_value l) = Some hs"
    with * have "hs = ?hs" by blast
    then show "map_of hs ''Authorization'' = Some (JStr ''***'')" by simp
  }
  {
    assume "K \<notin> {''***'', ''application/json'', ''2024-10-15''}"
    with * show "JStr K \<notin> set (printed_header_values (klaviyo w))" by auto
  }
  {
    fix K' :: string
    assume k': "K' \<noteq> []"
    let ?w' = "w\<lparr>env := (env w)(''KLAVIYO_API_KEY'' \<mapsto> K')\<rparr>"
    show "klaviyo ?w' = klaviyo w"
    proof (cases "destructure (get_prop args ''_'')")
      case (Inl e)
      with h k' show ?thesis
        by (simp add: klaviyo_def klaviyo_script_def)
    next
      case (Inr p)
      obtain cmd sub where p: "p = (cmd, sub)" by (cases p)
      have "klaviyo_main ?w' K' args cmd sub = klaviyo_main w K args cmd sub"
        by (rule klaviyo_main_dry_run_same[OF h(4)]) simp_all
      with h k' Inr p show ?thesis
        by (simp add: klaviyo_def klaviyo_script_def)
    qed
  }
next
  fix w :: world and K :: string and args :: jsobj
  assume h: "env w ''SEMRUSH_API_KEY'' = Some K" "K \<noteq> []" "parseArgs (argv w) = Inr args"
    "truthy (get_prop args ''dry-run'')"
  have *: "requests (semrush w) = [] \<and> printed_header_values (semrush w) = []"
  proof (cases "destructure (get_prop args ''_'')")
    case (Inl e)
    with h show ?thesis
      by (simp add: semrush_def semrush_script_def uncaught_def printed_header_values_def)
  next
    case (Inr p)
    obtain cmd sub where p: "p = (cmd, sub)" by (cases p)
    from quiet_with_boundary[OF semrush_quiet[OF h(4), of w K cmd sub]] h Inr p
    show ?thesis by (simp add: semrush_def semrush_script_def)
  qed
  from * show "requests (semrush w) = []" by simp
  from * show "printed_header_values (semrush w) = []" by simp
  fix K' :: string
  assume k': "K' \<noteq> []"
  let ?w' = "w\<lparr>env := (env w)(''SEMRUSH_API_KEY'' \<mapsto> K')\<rparr>"
  show "semrush ?w' = semrush w"
  proof (cases "destructure (get_prop args ''_'')")
    case (Inl e)
    with h k' show ?thesis
      by (simp add: semrush_def semrush_script_def)
  next
    case (Inr p)
    obtain cmd sub where p: "p = (cmd, sub)" by (cases p)
    have "semrush_main ?w' K' args cmd sub = semrush_main w K args cmd sub"
      by (rule semrush_main_dry_run_same[OF h(4)])
    with h k' Inr p show ?thesis
      by (simp add: semrush_def semrush_script_def)
  qed
qed

theorem dry_run_masks_headers_witness:
  "requests (klaviyo (example_world [(''KLAVIYO_API_KEY'', ''pk_1'')]
                        [''profiles'', ''list'', ''--dry-run''])) = [] \<and>
   JStr ''pk_1'' \<notin> set (printed_header_values
      (klaviyo (example_world [(''KLAVIYO_API_KEY'', ''pk_1'')] [''profiles'', ''list'', ''--dry-run'']))) \<and>
   klaviyo ((example_world [(''KLAVIYO_API_KEY'', ''pk_1'')] [''profiles'', ''list'', ''--dry-run''])
              \<lparr>env := (env (example_world [(''KLAVIYO_API_KEY'', ''pk_1'')]
                              [''profiles'', ''list'', ''--dry-run'']))(''KLAVIYO_API_KEY'' \<mapsto> ''pk_2'')\<rparr>) =
     klaviyo (example_world [(''KLAVIYO_API_KEY'', ''pk_1'')] [''profiles'', ''list'', ''--dry-run'']) \<and>
   requests (semrush (example_world [(''SEMRUSH_API_KEY'', ''sk_1'')]
                        [''domain'', ''overview'', ''--domain'', ''a.io'', ''--dry-run''])) = [] \<and>
   printed_header_values (semrush (example_world [(''SEMRUSH_API_KEY'', ''sk_1'')]
                        [''domain'', ''overview'', ''--domain'', ''a.io'', ''--dry-run''])) = [] \<and>
   semrush ((example_world [(''SEMRUSH_API_KEY'', ''sk_1'')]
               [''domain'', ''overview'', ''--domain'', ''a.io'', ''--dry-run''])
              \<lparr>env := (env (example_world [(''SEMRUSH_API_KEY'', ''sk_1'')]
                              [''domain'', ''overview'', ''--domain'', ''a.io'', ''--dry-run'']))
                         (''SEMRUSH_API_KEY'' \<mapsto> ''sk_2'')\<rparr>) =
     semrush (example_world [(''SEMRUSH_API_KEY'', ''sk_1'')]
                [''domain'', ''overview'', ''--domain'', ''a.io'', ''--dry-run''])"
proof -
  let ?w1 = "example_world [(''KLAVIYO_API_KEY'', ''pk_1'')] [''profiles'', ''list'', ''--dry-run'']"
  let ?a1 = "[''_'' \<mapsto> JArr [JStr ''profiles'', JStr ''list''], ''dry-run'' \<mapsto> JBool True]"
  let ?w2 = "example_world [(''SEMRUSH_API_KEY'', ''sk_1'')]
               [''domain'', ''overview'', ''--domain'', ''a.io'', ''--dry-run'']"
  let ?a2 = "[''_'' \<mapsto> JArr [JStr ''domain'', JStr ''overview''], ''domain'' \<mapsto> JStr ''a.io'',
              ''dry-run'' \<mapsto> JBool True]"
  have e1: "env ?w1 ''KLAVIYO_API_KEY'' = Some ''pk_1''" by (simp add: world_eval)
  have e2: "env ?w2 ''SEMRUSH_API_KEY'' = Some ''sk_1''" by (simp add: world_eval)
  have k1: "''pk_1'' \<noteq> []" and k2: "''sk_1'' \<noteq> []" by simp_all
  have k1': "''pk_2'' \<noteq> []" and k2': "''sk_2'' \<noteq> []" by simp_all
  have p1: "parseArgs (argv ?w1) = Inr ?a1" by (simp add: world_eval parse_eval)
  have p2: "parseArgs (argv ?w2) = Inr ?a2" by (simp add: world_eval parse_eval)
  have t1: "truthy (get_prop ?a1 ''dry-run'')" by (simp add: parse_eval)
  have t2: "truthy (get_prop ?a2 ''dry-run'')" by (simp add: parse_eval)
  have n: "''pk_1'' \<notin> {''***'', ''application/json'', ''2024-10-15''}" by simp
  note a = dry_run_masks_headers[THEN conjunct1, rule_format, OF e1 k1 p1 t1]
  note b = dry_run_masks_headers[THEN conjunct2, rule_format, OF e2 k2 p2 t2]
  note a1 = a[THEN conjunct1]
  note a4 = a[THEN conjunct2, THEN conjunct2, THEN conjunct2, THEN conjunct1, rule_format, OF n]
  note a5 = a[THEN conjunct2, THEN conjunct2, THEN conjunct2, THEN conjunct2, rule_format, OF k1']
  note b1 = b[THEN conjunct1]
  note b2 = b[THEN conjunct2, THEN conjunct1]
  note b3 = b[THEN conjunct2, THEN conjunct2, rule_format, OF k2']
  show ?thesis by (intro conjI a1 a4 a5 b1 b2 b3)
qed

section \<open>Properties of the gate and of the required flags\<close>

lemmas encode_eval = params_toString_def form_encode_def form_byte_def is_alnum_def percent_def
  hex_digit_def params_of_def set_if_def

text \<open>
  Claim C8 (omitting a documented required flag yields an error that names the flag and
  sends no request). Where a handler tests a flag the claim holds, as for the flags that
  the Klaviyo handlers test (\<open>klaviyo_required\<close>, lemma \<open>klaviyo_required_flags\<close>).
  The Semrush tool tests none: its usage text documents
  \<^verbatim>\<open>domain overview --domain <domain>\<close>, no handler looks at the flag, and
  \<^verbatim>\<open>domain overview\<close> without it sends a request with \<^verbatim>\<open>domain=undefined\<close>.
\<close>

theorem semrush_sends_without_domain:
  "requests (semrush (example_world [(''SEMRUSH_API_KEY'', ''sk_1'')] [''domain'', ''overview''])) =
     [\<lparr>req_method = ''GET'',
       req_url = ''https://api.semrush.com/?type=domain_ranks&export_columns=Db%2CDn%2CRk%2COr%2COt%2COc%2CAd%2CAt%2CAc&domain=undefined&key=sk_1&export_escape=1'',
       req_headers = [], req_body = No_body\<rparr>]"
  by (simp add: semrush_def semrush_script_def semrush_main_def semrush_api_def semrush_BASE_URL_def
      world_eval parse_eval outcome_eval encode_eval send_def js_or_def Let_def)

text \<open>
  Claim C7, amended: when the variables that the credential gate of a tool tests are
  unset or empty (for Klaviyo, Semrush and Trustpilot the API key, for Hotjar either of
  the client id and the client secret, for Mixpanel both the token and the API key), the
  process writes one compact JSON error object on standard error and ends with exit
  code 1, whatever the argument tokens are, and sends no request.
\<close>

theorem credential_gate:
  "(unset w ''KLAVIYO_API_KEY'' \<longrightarrow>
      klaviyo w = \<lparr>stdout = [],
                    stderr = [Json_compact (JObj [(''error'', JStr ''KLAVIYO_API_KEY environment variable required'')])],
                    exit_code = 1, requests = []\<rparr>) \<and>
   (unset w ''HOTJAR_CLIENT_ID'' \<or> unset w ''HOTJAR_CLIENT_SECRET'' \<longrightarrow>
      hotjar w = \<lparr>stdout = [],
                   stderr = [Json_compact (JObj [(''error'',
                      JStr ''HOTJAR_CLIENT_ID and HOTJAR_CLIENT_SECRET environment variables required'')])],
                   exit_code = 1, requests = []\<rparr>) \<and>
   (unset w ''SEMRUSH_API_KEY'' \<longrightarrow>
      semrush w = \<lparr>stdout = [],
                    stderr = [Json_compact (JObj [(''error'', JStr ''SEMRUSH_API_KEY environment variable required'')])],
                    exit_code = 1, requests = []\<rparr>) \<and>
   (unset w ''MIXPANEL_TOKEN'' \<and> unset w ''MIXPANEL_API_KEY'' \<longrightarrow>
      mixpanel w = \<lparr>stdout = [],
                     stderr = [Json_compact (JObj [(''error'',
                        JStr ''MIXPANEL_TOKEN (for ingestion) or MIXPANEL_API_KEY + MIXPANEL_SECRET (for query/export) environment variables required'')])],
                     exit_code = 1, requests = []\<rparr>) \<and>
   (unset w ''TRUSTPILOT_API_KEY'' \<longrightarrow>
      trustpilot w = \<lparr>stdout = [],
                       stderr = [Json_compact (JObj [(''error'',
                          JStr ''TRUSTPILOT_API_KEY environment variable required'')])],
                       exit_code = 1, requests = []\<rparr>)"
  by (auto simp add: unset_def klaviyo_def hotjar_def semrush_def mixpanel_def trustpilot_def
      gate_failure_def error_obj_def env_value_def Let_def)

text \<open>
  Claim C7, as stated: a required variable that is unset always ends the process at the
  gate. It fails for the Mixpanel tool, whose gate lets a process start with one of
  \<^verbatim>\<open>MIXPANEL_TOKEN\<close> and \<^verbatim>\<open>MIXPANEL_API_KEY\<close>: with the key set and
  \<^verbatim>\<open>MIXPANEL_SECRET\<close> unset, \<^verbatim>\<open>funnels get\<close> parses its arguments and reports
  the missing secret on standard output with exit code 0.
\<close>

theorem mixpanel_partial_credentials_counterexample:
  "unset (example_world [(''MIXPANEL_API_KEY'', ''k_1'')] [''funnels'', ''get'', ''--funnel-id'', ''7''])
     ''MIXPANEL_SECRET'' \<and>
   mixpanel (example_world [(''MIXPANEL_API_KEY'', ''k_1'')] [''funnels'', ''get'', ''--funnel-id'', ''7'']) =
     \<lparr>stdout = [Json_pretty (JObj [(''error'',
         JStr ''MIXPANEL_API_KEY and MIXPANEL_SECRET required for query/export operations'')])],
      stderr = [], exit_code = 0, requests = []\<rparr>"
  by (simp add: unset_def mixpanel_def mixpanel_main_def mixpanel_funnels_def queryApi_def
      env_value_def world_eval parse_eval outcome_eval Let_def)

theorem credential_gate_witness:
  "unset (example_world [] [''--_'', ''x'', ''y'']) ''KLAVIYO_API_KEY'' \<and>
   klaviyo (example_world [] [''--_'', ''x'', ''y'']) =
     \<lparr>stdout = [],
      stderr = [Json_compact (JObj [(''error'', JStr ''KLAVIYO_API_KEY environment variable required'')])],
      exit_code = 1, requests = []\<rparr> \<and>
   hotjar (example_world [(''HOTJAR_CLIENT_ID'', ''id_1'')] [''sites'', ''list'']) =
     \<lparr>stdout = [],
      stderr = [Json_compact (JObj [(''error'',
         JStr ''HOTJAR_CLIENT_ID and HOTJAR_CLIENT_SECRET environment variables required'')])],
      exit_code = 1, requests = []\<rparr> \<and>
   semrush (example_world [(''SEMRUSH_API_KEY'', '''')] [''domain'', ''overview'']) =
     \<lparr>stdout = [],
      stderr = [Json_compact (JObj [(''error'', JStr ''SEMRUSH_API_KEY environment variable required'')])],
      exit_code = 1, requests = []\<rparr> \<and>
   mixpanel (example_world [(''MIXPANEL_SECRET'', ''s_1'')] [''track'', ''event'']) =
     \<lparr>stdout = [],
      stderr = [Json_compact (JObj [(''error'',
         JStr ''MIXPANEL_TOKEN (for ingestion) or MIXPANEL_API_KEY + MIXPANEL_SECRET (for query/export) environment variables required'')])],
      exit_code = 1, requests = []\<rparr> \<and>
   trustpilot (example_world [(''TRUSTPILOT_API_SECRET'', ''s_1'')] [''reviews'', ''latest'']) =
     \<lparr>stdout = [],
      stderr = [Json_compact (JObj [(''error'', JStr ''TRUSTPILOT_API_KEY environment variable required'')])],
      exit_code = 1, requests = []\<rparr>"
proof -
  have 1: "unset (example_world [] [''--_'', ''x'', ''y'']) ''KLAVIYO_API_KEY''"
    by (simp add: unset_def world_eval)
  have 2: "unset (example_world [(''HOTJAR_CLIENT_ID'', ''id_1'')] [''sites'', ''list'']) ''HOTJAR_CLIENT_ID'' \<or>
           unset (example_world [(''HOTJAR_CLIENT_ID'', ''id_1'')] [''sites'', ''list'']) ''HOTJAR_CLIENT_SECRET''"
    by (simp add: unset_def world_eval)
  have 3: "unset (example_world [(''SEMRUSH_API_KEY'', '''')] [''domain'', ''overview'']) ''SEMRUSH_API_KEY''"
    by (simp add: unset_def world_eval)
  have 4: "unset (example_world [(''MIXPANEL_SECRET'', ''s_1'')] [''track'', ''event'']) ''MIXPANEL_TOKEN'' \<and>
           unset (example_world [(''MIXPANEL_SECRET'', ''s_1'')] [''track'', ''event'']) ''MIXPANEL_API_KEY''"
    by (simp add: unset_def world_eval)
  note g1 = credential_gate[of "example_world [] [''--_'', ''x'', ''y'']",
      THEN conjunct1, rule_format, OF 1]
  note g2 = credential_gate[of "example_world [(''HOTJAR_CLIENT_ID'', ''id_1'')] [''sites'', ''list'']",
      THEN conjunct2, THEN conjunct1, rule_format, OF 2]
  note g3 = credential_gate[of "example_world [(''SEMRUSH_API_KEY'', '''')] [''domain'', ''overview'']",
      THEN conjunct2, THEN conjunct2, THEN conjunct1, rule_format, OF 3]
  have 5: "unset (example_world [(''TRUSTPILOT_API_SECRET'', ''s_1'')] [''reviews'', ''latest''])
             ''TRUSTPILOT_API_KEY''"
    by (simp add: unset_def world_eval)
  note g4 = credential_gate[of "example_world [(''MIXPANEL_SECRET'', ''s_1'')] [''track'', ''event'']",
      THEN conjunct2, THEN conjunct2, THEN conjunct2, THEN conjunct1, rule_format, OF 4]
  note g5 = credential_gate[of "example_world [(''TRUSTPILOT_API_SECRET'', ''s_1'')] [''reviews'', ''latest'']",
      THEN conjunct2, THEN conjunct2, THEN conjunct2, THEN conjunct2, rule_format, OF 5]
  show ?thesis by (intro conjI 1 g1 g2 g3 g4 g5)
qed

section \<open>Properties of the Mixpanel tool\<close>

lemma map_of_replace:
  "k \<in> fst ` set ps \<Longrightarrow>
   map_of (map (\<lambda>(k', v'). if k' = k then (k', v) else (k', v')) ps) k = Some v"
  by (induction ps) auto

lemma map_of_replace_other:
  "k' \<noteq> k \<Longrightarrow>
   map_of (map (\<lambda>(a, b). if a = k then (a, v) else (a, b)) ps) k' = map_of ps k'"
  by (induction ps) auto

lemma map_of_append_new:
  "k \<notin> fst ` set ps \<Longrightarrow> map_of (ps @ [(k, v)]) k = Some v"
  by (induction ps) auto

lemma map_of_append_other:
  "k' \<noteq> k \<Longrightarrow> map_of (ps @ [(k, v)]) k' = map_of ps k'"
  by (induction ps) auto

lemma array_index_names:
  "array_index ''token'' = None" "array_index ''distinct_id'' = None"
  by (simp_all add: array_index_def is_digit_def)

lemma map_of_obj_set_same:
  assumes "k \<noteq> ''__proto__''" "array_index k = None"
  shows "map_of (obj_set ps k v) k = Some v"
proof (cases "k \<in> fst ` set ps")
  case True
  with assms show ?thesis by (simp add: obj_set_def map_of_replace)
next
  case False
  with assms show ?thesis by (simp add: obj_set_def map_of_append_new del: map_of_append)
qed

lemma map_of_obj_set_other:
  assumes "k' \<noteq> k" "array_index k = None"
  shows "map_of (obj_set ps k v) k' = map_of ps k'"
  using assms
  by (simp add: obj_set_def map_of_replace_other map_of_append_other del: map_of_append)

lemma obj_set_token:
  "map_of (obj_set (obj_set ps ''token'' t) ''distinct_id'' d) ''token'' = Some t"
  by (simp add: map_of_obj_set_same map_of_obj_set_other array_index_names)

lemma mixpanel_run:
  assumes "env w ''MIXPANEL_TOKEN'' = Some T" "T \<noteq> []" "parseArgs (argv w) = Inr args"
    and "destructure (get_prop args ''_'') = Inr (cmd, sub)"
  shows "mixpanel w = boundary (mixpanel_main w
            \<lparr>mixpanel_TOKEN = JStr T, mixpanel_API_KEY = env_value w ''MIXPANEL_API_KEY'',
             mixpanel_SECRET = env_value w ''MIXPANEL_SECRET''\<rparr> args cmd sub)"
  using assms by (simp add: mixpanel_def env_value_def Let_def)

text \<open>
  Claim C10, as stated: the descriptor that a dry run of \<^verbatim>\<open>track event\<close> prints
  holds the real \<^verbatim>\<open>MIXPANEL_TOKEN\<close> in \<^verbatim>\<open>properties.token\<close>. It fails when
  \<^verbatim>\<open>--properties\<close> is given without a value: the flag is \<^verbatim>\<open>true\<close>,
  \<^verbatim>\<open>JSON.parse(true)\<close> is \<^verbatim>\<open>true\<close>, the assignment
  \<^verbatim>\<open>properties.token = TOKEN\<close> to a boolean is ignored, and the body printed is
  \<^verbatim>\<open>[{event, properties: true}]\<close>, without the token.
\<close>

theorem mixpanel_track_without_token_counterexample:
  "mixpanel (example_world [(''MIXPANEL_TOKEN'', ''tok_1'')]
      [''track'', ''event'', ''--distinct-id'', ''u1'', ''--event'', ''signup'', ''--properties'',
       ''--dry-run'']) =
     \<lparr>stdout = [Json_pretty (JObj [
         (''_dry_run'', JBool True), (''method'', JStr ''POST''),
         (''url'', JStr ''https://api.mixpanel.com/track''),
         (''headers'', JObj [(''Content-Type'', JStr ''application/json'')]),
         (''body'', JArr [JObj [(''event'', JStr ''signup''), (''properties'', JBool True)]])])],
      stderr = [], exit_code = 0, requests = []\<rparr>"
  by (simp add: mixpanel_def mixpanel_main_def mixpanel_track_def mixpanel_properties_def
      ingestApi_def set_member_def dry_run_descriptor_def header_props_def js_or_def
      mixpanel_INGESTION_URL_def env_value_def world_eval parse_eval outcome_eval Let_def)

text \<open>
  Claim C10, amended: in the Mixpanel tool, with \<^verbatim>\<open>MIXPANEL_TOKEN\<close> set, a dry run
  of the two ingestion commands that passes the checks of the required flags prints the
  real token in the body of the descriptor, and headers that hold no credential
  (\<^verbatim>\<open>Content-Type\<close> alone). For \<^verbatim>\<open>track event\<close> the token is the member
  \<^verbatim>\<open>token\<close> of \<^verbatim>\<open>properties\<close>, provided that \<^verbatim>\<open>--properties\<close> is absent or
  parses to an object; for \<^verbatim>\<open>profiles set\<close> it is the member \<^verbatim>\<open>$token\<close>,
  whatever \<^verbatim>\<open>--properties\<close> parses to.
\<close>

theorem mixpanel_dry_run_shows_token:
  assumes "env w ''MIXPANEL_TOKEN'' = Some T" "T \<noteq> []" "parseArgs (argv w) = Inr args"
    and "truthy (get_prop args ''dry-run'')" "truthy (get_prop args ''distinct-id'')"
  shows "(destructure (get_prop args ''_'') = Inr (JStr ''track'', JStr ''event'') \<longrightarrow>
          truthy (get_prop args ''event'') \<longrightarrow>
          (\<forall>ps. mixpanel_properties w args = Inr (JObj ps) \<longrightarrow>
             mixpanel w =
               \<lparr>stdout = [Json_pretty (JObj [
                   (''_dry_run'', JBool True), (''method'', JStr ''POST''),
                   (''url'', JStr ''https://api.mixpanel.com/track''),
                   (''headers'', JObj [(''Content-Type'', JStr ''application/json'')]),
                   (''body'', JArr [JObj [
                      (''event'', get_prop args ''event''),
                      (''properties'', JObj (obj_set (obj_set ps ''token'' (JStr T)) ''distinct_id''
                                               (get_prop args ''distinct-id'')))]])])],
                stderr = [], exit_code = 0, requests = []\<rparr> \<and>
             map_of (obj_set (obj_set ps ''token'' (JStr T)) ''distinct_id''
                       (get_prop args ''distinct-id'')) ''token'' = Some (JStr T))) \<and>
         (destructure (get_prop args ''_'') = Inr (JStr ''profiles'', JStr ''set'') \<longrightarrow>
          (\<forall>v. mixpanel_properties w args = Inr v \<longrightarrow>
             mixpanel w =
               \<lparr>stdout = [Json_pretty (JObj [
                   (''_dry_run'', JBool True), (''method'', JStr ''POST''),
                   (''url'', JStr ''https://api.mixpanel.com/engage''),
                   (''headers'', JObj [(''Content-Type'', JStr ''application/json'')]),
                   (''body'', JArr [JObj [
                      (''$token'', JStr T),
                      (''$distinct_id'', get_prop args ''distinct-id''),
                      (''$set'', v)]])])],
                stderr = [], exit_code = 0, requests = []\<rparr>))"
proof (intro conjI allI impI)
  fix ps
  assume d: "destructure (get_prop args ''_'') = Inr (JStr ''track'', JStr ''event'')"
    and e: "truthy (get_prop args ''event'')"
    and p: "mixpanel_properties w args = Inr (JObj ps)"
  from assms(2,4,5) e p show "mixpanel w =
               \<lparr>stdout = [Json_pretty (JObj [
                   (''_dry_run'', JBool True), (''method'', JStr ''POST''),
                   (''url'', JStr ''https://api.mixpanel.com/track''),
                   (''headers'', JObj [(''Content-Type'', JStr ''application/json'')]),
                   (''body'', JArr [JObj [
                      (''event'', get_prop args ''event''),
                      (''properties'', JObj (obj_set (obj_set ps ''token'' (JStr T)) ''distinct_id''
                                               (get_prop args ''distinct-id'')))]])])],
                stderr = [], exit_code = 0, requests = []\<rparr>"
    by (simp add: mixpanel_run[OF assms(1,2,3) d] mixpanel_main_def mixpanel_track_def
        ingestApi_def set_member_def dry_run_descriptor_def header_props_def js_or_def
        boundary_def ret_def mixpanel_INGESTION_URL_def)
  show "map_of (obj_set (obj_set ps ''token'' (JStr T)) ''distinct_id''
                       (get_prop args ''distinct-id'')) ''token'' = Some (JStr T)"
    by (rule obj_set_token)
next
  fix v
  assume d: "destructure (get_prop args ''_'') = Inr (JStr ''profiles'', JStr ''set'')"
    and p: "mixpanel_properties w args = Inr v"
  from assms(2,4,5) p show "mixpanel w =
               \<lparr>stdout = [Json_pretty (JObj [
                   (''_dry_run'', JBool True), (''method'', JStr ''POST''),
                   (''url'', JStr ''https://api.mixpanel.com/engage''),
                   (''headers'', JObj [(''Content-Type'', JStr ''application/json'')]),
                   (''body'', JArr [JObj [
                      (''$token'', JStr T),
                      (''$distinct_id'', get_prop args ''distinct-id''),
                      (''$set'', v)]])])],
                stderr = [], exit_code = 0, requests = []\<rparr>"
    by (simp add: mixpanel_run[OF assms(1,2,3) d] mixpanel_main_def mixpanel_profiles_def
        ingestApi_def dry_run_descriptor_def header_props_def js_or_def
        boundary_def ret_def mixpanel_INGESTION_URL_def)
qed

theorem mixpanel_dry_run_shows_token_witness:
  "mixpanel (example_world [(''MIXPANEL_TOKEN'', ''tok_1'')]
      [''track'', ''event'', ''--distinct-id'', ''u1'', ''--event'', ''signup'', ''--dry-run'']) =
     \<lparr>stdout = [Json_pretty (JObj [
         (''_dry_run'', JBool True), (''method'', JStr ''POST''),
         (''url'', JStr ''https://api.mixpanel.com/track''),
         (''headers'', JObj [(''Content-Type'', JStr ''application/json'')]),
         (''body'', JArr [JObj [
            (''event'', JStr ''signup''),
            (''properties'', JObj [(''token'', JStr ''tok_1''), (''distinct_id'', JStr ''u1'')])]])])],
      stderr = [], exit_code = 0, requests = []\<rparr> \<and>
   mixpanel (example_world [(''MIXPANEL_TOKEN'', ''tok_1'')]
      [''profiles'', ''set'', ''--distinct-id'', ''u1'', ''--dry-run'']) =
     \<lparr>stdout = [Json_pretty (JObj [
         (''_dry_run'', JBool True), (''method'', JStr ''POST''),
         (''url'', JStr ''https://api.mixpanel.com/engage''),
         (''headers'', JObj [(''Content-Type'', JStr ''application/json'')]),
         (''body'', JArr [JObj [
            (''$token'', JStr ''tok_1''),
            (''$distinct_id'', JStr ''u1''),
            (''$set'', JObj [])]])])],
      stderr = [], exit_code = 0, requests = []\<rparr>"
proof -
  let ?w1 = "example_world [(''MIXPANEL_TOKEN'', ''tok_1'')]
      [''track'', ''event'', ''--distinct-id'', ''u1'', ''--event'', ''signup'', ''--dry-run'']"
  let ?a1 = "[''_'' \<mapsto> JArr [JStr ''track'', JStr ''event''], ''distinct-id'' \<mapsto> JStr ''u1'',
              ''event'' \<mapsto> JStr ''signup'', ''dry-run'' \<mapsto> JBool True]"
  let ?w2 = "example_world [(''MIXPANEL_TOKEN'', ''tok_1'')]
      [''profiles'', ''set'', ''--distinct-id'', ''u1'', ''--dry-run'']"
  let ?a2 = "[''_'' \<mapsto> JArr [JStr ''profiles'', JStr ''set''], ''distinct-id'' \<mapsto> JStr ''u1'',
              ''dry-run'' \<mapsto> JBool True]"
  have k: "''tok_1'' \<noteq> []" by simp
  have e1: "env ?w1 ''MIXPANEL_TOKEN'' = Some ''tok_1''" by (simp add: world_eval)
  have p1: "parseArgs (argv ?w1) = Inr ?a1" by (simp add: world_eval parse_eval)
  have t1: "truthy (get_prop ?a1 ''dry-run'')" "truthy (get_prop ?a1 ''distinct-id'')"
    by (simp_all add: parse_eval)
  have d1: "destructure (get_prop ?a1 ''_'') = Inr (JStr ''track'', JStr ''event'')"
    by (simp add: parse_eval)
  have v1: "truthy (get_prop ?a1 ''event'')" by (simp add: parse_eval)
  have m1: "mixpanel_properties ?w1 ?a1 = Inr (JObj [])"
    by (simp add: mixpanel_properties_def parse_eval)
  have e2: "env ?w2 ''MIXPANEL_TOKEN'' = Some ''tok_1''" by (simp add: world_eval)
  have p2: "parseArgs (argv ?w2) = Inr ?a2" by (simp add: world_eval parse_eval)
  have t2: "truthy (get_prop ?a2 ''dry-run'')" "truthy (get_prop ?a2 ''distinct-id'')"
    by (simp_all add: parse_eval)
  have d2: "destructure (get_prop ?a2 ''_'') = Inr (JStr ''profiles'', JStr ''set'')"
    by (simp add: parse_eval)
  have m2: "mixpanel_properties ?w2 ?a2 = Inr (JObj [])"
    by (simp add: mixpanel_properties_def parse_eval)
  note r1 = mixpanel_dry_run_shows_token[OF e1 k p1 t1, THEN conjunct1, rule_format, OF d1 v1 m1,
      THEN conjunct1]
  note r2 = mixpanel_dry_run_shows_token[OF e2 k p2 t2, THEN conjunct2, rule_format, OF d2 m2]
  from r1 r2 show ?thesis
    by (simp add: obj_set_def array_index_names get_prop_def)
qed


section \<open>Properties of the token cache\<close>














section \<open>Failure of the token fetch\<close>


















section \<open>Unknown commands and subcommands\<close>

lemma printed_boundary:
  "boundary (ret v) = printed v"
  by (simp add: boundary_def ret_def printed_def)

lemma klaviyo_unknown:
  assumes "\<not> unset w ''KLAVIYO_API_KEY''" "parseArgs (argv w) = Inr args"
    and "destructure (get_prop args ''_'') = Inr (cmd, sub)"
  shows "cmd \<notin> JStr ` set (map fst klaviyo_commands) \<Longrightarrow> klaviyo w = printed klaviyo_usage"
    and "(c, subs) \<in> set klaviyo_commands \<Longrightarrow> cmd = JStr c \<Longrightarrow> sub \<notin> JStr ` set subs \<Longrightarrow>
         klaviyo w = printed (unknown_subcommand c subs)"
proof -
  from assms(1) obtain K where K: "env w ''KLAVIYO_API_KEY'' = Some K" "K \<noteq> []"
    by (auto simp add: unset_def)
  note run = klaviyo_run[OF K assms(2,3)]
  show "cmd \<notin> JStr ` set (map fst klaviyo_commands) \<Longrightarrow> klaviyo w = printed klaviyo_usage"
    by (simp add: run klaviyo_unknown_command printed_boundary)
  show "(c, subs) \<in> set klaviyo_commands \<Longrightarrow> cmd = JStr c \<Longrightarrow> sub \<notin> JStr ` set subs \<Longrightarrow>
         klaviyo w = printed (unknown_subcommand c subs)"
    by (simp add: run klaviyo_unknown_subcommand printed_boundary error_obj_def unknown_subcommand_def)
qed

lemma semrush_unknown_subcommand:
  assumes "(c, subs) \<in> set semrush_commands" "sub \<notin> JStr ` set subs"
  shows "semrush_main w K args (JStr c) sub = ret (unknown_subcommand c subs)"
  using assms unfolding semrush_commands_def
  apply (simp only: list.set insert_iff empty_iff prod.inject)
  apply (elim disjE conjE)
  apply (simp_all add: semrush_main_def error_obj_def unknown_subcommand_def
      split del: if_split)
  done

lemma semrush_unknown:
  assumes "\<not> unset w ''SEMRUSH_API_KEY''" "parseArgs (argv w) = Inr args"
    and "destructure (get_prop args ''_'') = Inr (cmd, sub)"
  shows "cmd \<notin> JStr ` set (map fst semrush_commands) \<Longrightarrow> semrush w = printed semrush_usage"
    and "(c, subs) \<in> set semrush_commands \<Longrightarrow> cmd = JStr c \<Longrightarrow> sub \<notin> JStr ` set subs \<Longrightarrow>
         semrush w = printed (unknown_subcommand c subs)"
proof -
  from assms(1) obtain K where K: "env w ''SEMRUSH_API_KEY'' = Some K" "K \<noteq> []"
    by (auto simp add: unset_def)
  with assms(2,3) have run: "semrush w = boundary (semrush_main w K args cmd sub)"
    by (simp add: semrush_def semrush_script_def)
  show "cmd \<notin> JStr ` set (map fst semrush_commands) \<Longrightarrow> semrush w = printed semrush_usage"
    by (simp add: run semrush_main_def semrush_commands_def printed_boundary)
  show "(c, subs) \<in> set semrush_commands \<Longrightarrow> cmd = JStr c \<Longrightarrow> sub \<notin> JStr ` set subs \<Longrightarrow>
         semrush w = printed (unknown_subcommand c subs)"
    by (simp add: run semrush_unknown_subcommand printed_boundary)
qed

lemma mixpanel_unknown_subcommand:
  assumes "(c, subs) \<in> set mixpanel_commands" "sub \<notin> JStr ` set subs"
  shows "mixpanel_main w cr args (JStr c) sub = ret (unknown_subcommand c subs)"
  using assms unfolding mixpanel_commands_def
  apply (simp only: list.set insert_iff empty_iff prod.inject)
  apply (elim disjE conjE)
  apply (simp_all add: mixpanel_main_def mixpanel_track_def mixpanel_profiles_def mixpanel_query_def
      mixpanel_funnels_def mixpanel_retention_def mixpanel_export_def
      error_obj_def unknown_subcommand_def split del: if_split)
  done

lemma mixpanel_unknown:
  assumes "\<not> (unset w ''MIXPANEL_TOKEN'' \<and> unset w ''MIXPANEL_API_KEY'')"
    and "parseArgs (argv w) = Inr args" "destructure (get_prop args ''_'') = Inr (cmd, sub)"
  shows "cmd \<notin> JStr ` set (map fst mixpanel_commands) \<Longrightarrow> mixpanel w = printed mixpanel_usage"
    and "(c, subs) \<in> set mixpanel_commands \<Longrightarrow> cmd = JStr c \<Longrightarrow> sub \<notin> JStr ` set subs \<Longrightarrow>
         mixpanel w = printed (unknown_subcommand c subs)"
proof -
  from assms have run: "mixpanel w = boundary (mixpanel_main w
      \<lparr>mixpanel_TOKEN = env_value w ''MIXPANEL_TOKEN'', mixpanel_API_KEY = env_value w ''MIXPANEL_API_KEY'',
       mixpanel_SECRET = env_value w ''MIXPANEL_SECRET''\<rparr> args cmd sub)"
    by (auto simp add: mixpanel_def unset_def env_value_def Let_def split: option.splits)
  show "cmd \<notin> JStr ` set (map fst mixpanel_commands) \<Longrightarrow> mixpanel w = printed mixpanel_usage"
    by (simp add: run mixpanel_main_def mixpanel_commands_def printed_boundary)
  show "(c, subs) \<in> set mixpanel_commands \<Longrightarrow> cmd = JStr c \<Longrightarrow> sub \<notin> JStr ` set subs \<Longrightarrow>
         mixpanel w = printed (unknown_subcommand c subs)"
    by (simp add: run mixpanel_unknown_subcommand printed_boundary)
qed

lemma trustpilot_unknown_subcommand:
  assumes "(c, subs) \<in> set trustpilot_commands" "sub \<notin> JStr ` set subs"
  shows "fst (trustpilot_main w K S B args t (JStr c) sub) = ret (unknown_subcommand c subs)"
  using assms unfolding trustpilot_commands_def
  apply (simp only: list.set insert_iff empty_iff prod.inject)
  apply (elim disjE conjE)
  apply (simp_all add: trustpilot_main_def error_obj_def unknown_subcommand_def Let_def
      split del: if_split)
  done

lemma trustpilot_unknown:
  assumes "\<not> unset w ''TRUSTPILOT_API_KEY''" "parseArgs (argv w) = Inr args"
    and "destructure (get_prop args ''_'') = Inr (cmd, sub)"
  shows "cmd \<notin> JStr ` set (map fst trustpilot_commands) \<Longrightarrow> trustpilot w = printed trustpilot_usage"
    and "(c, subs) \<in> set trustpilot_commands \<Longrightarrow> cmd = JStr c \<Longrightarrow> sub \<notin> JStr ` set subs \<Longrightarrow>
         trustpilot w = printed (unknown_subcommand c subs)"
proof -
  from assms have run: "trustpilot w = boundary (fst (trustpilot_main w
      (js_to_string (env_value w ''TRUSTPILOT_API_KEY'')) (env_value w ''TRUSTPILOT_API_SECRET'')
      (env_value w ''TRUSTPILOT_BUSINESS_UNIT_ID'') args JNull cmd sub))"
    by (auto simp add: trustpilot_def unset_def env_value_def split: option.splits)
  show "cmd \<notin> JStr ` set (map fst trustpilot_commands) \<Longrightarrow> trustpilot w = printed trustpilot_usage"
    by (simp add: run trustpilot_main_def trustpilot_commands_def printed_boundary Let_def)
  show "(c, subs) \<in> set trustpilot_commands \<Longrightarrow> cmd = JStr c \<Longrightarrow> sub \<notin> JStr ` set subs \<Longrightarrow>
         trustpilot w = printed (unknown_subcommand c subs)"
    by (simp add: run trustpilot_unknown_subcommand printed_boundary)
qed

lemma hotjar_unknown_subcommand:
  assumes "(c, subs) \<in> set hotjar_commands" "sub \<notin> JStr ` set subs"
  shows "fst (hotjar_main w I S args t (JStr c) sub) =
           ret (if c = ''sites'' \<or> truthy (get_prop args ''site-id'') then unknown_subcommand c subs
                else error_obj ''--site-id required'')"
  using assms unfolding hotjar_commands_def
  apply (simp only: list.set insert_iff empty_iff prod.inject)
  apply (elim disjE conjE)
  apply (simp_all add: hotjar_main_def error_obj_def unknown_subcommand_def Let_def)
  done

lemma hotjar_unknown:
  assumes "\<not> unset w ''HOTJAR_CLIENT_ID''" "\<not> unset w ''HOTJAR_CLIENT_SECRET''"
    and "parseArgs (argv w) = Inr args" "destructure (get_prop args ''_'') = Inr (cmd, sub)"
  shows "cmd \<notin> JStr ` set (map fst hotjar_commands) \<Longrightarrow> hotjar w = printed hotjar_usage"
    and "(c, subs) \<in> set hotjar_commands \<Longrightarrow> cmd = JStr c \<Longrightarrow> sub \<notin> JStr ` set subs \<Longrightarrow>
         hotjar w = printed (if c = ''sites'' \<or> truthy (get_prop args ''site-id'')
                             then unknown_subcommand c subs else error_obj ''--site-id required'')"
proof -
  from assms have run: "hotjar w = boundary (fst (hotjar_main w
      (js_to_string (env_value w ''HOTJAR_CLIENT_ID'')) (js_to_string (env_value w ''HOTJAR_CLIENT_SECRET''))
      args JNull cmd sub))"
    by (auto simp add: hotjar_def unset_def env_value_def split: option.splits)
  show "cmd \<notin> JStr ` set (map fst hotjar_commands) \<Longrightarrow> hotjar w = printed hotjar_usage"
    by (simp add: run hotjar_main_def hotjar_commands_def printed_boundary Let_def)
  show "(c, subs) \<in> set hotjar_commands \<Longrightarrow> cmd = JStr c \<Longrightarrow> sub \<notin> JStr ` set subs \<Longrightarrow>
         hotjar w = printed (if c = ''sites'' \<or> truthy (get_prop args ''site-id'')
                             then unknown_subcommand c subs else error_obj ''--site-id required'')"
    by (simp add: run hotjar_unknown_subcommand printed_boundary split del: if_split cong: if_cong)
qed

text \<open>
  Claim C9, as stated: an unknown subcommand produces an object with the keys
  \<^verbatim>\<open>error\<close> and \<^verbatim>\<open>usage\<close>. It fails at \<^verbatim>\<open>profiles bogus\<close> of the Klaviyo
  tool: the object printed has the key \<^verbatim>\<open>error\<close> alone.
\<close>

theorem klaviyo_unknown_subcommand_counterexample:
  "printed_keys (klaviyo (example_world [(''KLAVIYO_API_KEY'', ''pk_1'')] [''profiles'', ''bogus''])) =
     [[''error'']]"
  by (simp add: klaviyo_def klaviyo_script_def world_eval parse_eval outcome_eval
      klaviyo_main_def klaviyo_profiles_def printed_keys_def object_keys_def)

text \<open>
  Claim C9, amended: in the Klaviyo, Semrush, Mixpanel, Trustpilot and Hotjar tools, once
  the gate is passed and the parse has returned, an unknown primary command prints the
  object \<^verbatim>\<open>{error, usage}\<close> of the tool on standard output; an unknown subcommand of
  a known command prints an object with the key \<^verbatim>\<open>error\<close> alone, whose message is
  \<^verbatim>\<open>Unknown <command> subcommand. Use: <the subcommands of the command>\<close>, except
  that the Hotjar commands other than \<^verbatim>\<open>sites\<close> test \<^verbatim>\<open>--site-id\<close> before they
  look at the subcommand and print \<^verbatim>\<open>{error: '--site-id required'}\<close> when it is
  missing. In every case nothing is thrown, the exit code is 0 and no request is sent.
\<close>

theorem unknown_commands:
  assumes "parseArgs (argv w) = Inr args" "destructure (get_prop args ''_'') = Inr (cmd, sub)"
  shows
   "(\<not> unset w ''KLAVIYO_API_KEY'' \<longrightarrow>
       (cmd \<notin> JStr ` set (map fst klaviyo_commands) \<longrightarrow> klaviyo w = printed klaviyo_usage) \<and>
       (\<forall>c subs. (c, subs) \<in> set klaviyo_commands \<longrightarrow> cmd = JStr c \<longrightarrow> sub \<notin> JStr ` set subs \<longrightarrow>
          klaviyo w = printed (unknown_subcommand c subs))) \<and>
    (\<not> unset w ''SEMRUSH_API_KEY'' \<longrightarrow>
       (cmd \<notin> JStr ` set (map fst semrush_commands) \<longrightarrow> semrush w = printed semrush_usage) \<and>
       (\<forall>c subs. (c, subs) \<in> set semrush_commands \<longrightarrow> cmd = JStr c \<longrightarrow> sub \<notin> JStr ` set subs \<longrightarrow>
          semrush w = printed (unknown_subcommand c subs))) \<and>
    (\<not> (unset w ''MIXPANEL_TOKEN'' \<and> unset w ''MIXPANEL_API_KEY'') \<longrightarrow>
       (cmd \<notin> JStr ` set (map fst mixpanel_commands) \<longrightarrow> mixpanel w = printed mixpanel_usage) \<and>
       (\<forall>c subs. (c, subs) \<in> set mixpanel_commands \<longrightarrow> cmd = JStr c \<longrightarrow> sub \<notin> JStr ` set subs \<longrightarrow>
          mixpanel w = printed (unknown_subcommand c subs))) \<and>
    (\<not> unset w ''TRUSTPILOT_API_KEY'' \<longrightarrow>
       (cmd \<notin> JStr ` set (map fst trustpilot_commands) \<longrightarrow> trustpilot w = printed trustpilot_usage) \<and>
       (\<forall>c subs. (c, subs) \<in> set trustpilot_commands \<longrightarrow> cmd = JStr c \<longrightarrow> sub \<notin> JStr ` set subs \<longrightarrow>
          trustpilot w = printed (unknown_subcommand c subs))) \<and>
    (\<not> unset w ''HOTJAR_CLIENT_ID'' \<longrightarrow> \<not> unset w ''HOTJAR_CLIENT_SECRET'' \<longrightarrow>
       (cmd \<notin> JStr ` set (map fst hotjar_commands) \<longrightarrow> hotjar w = printed hotjar_usage) \<and>
       (\<forall>c subs. (c, subs) \<in> set hotjar_commands \<longrightarrow> cmd = JStr c \<longrightarrow> sub \<notin> JStr ` set subs \<longrightarrow>
          hotjar w = printed (if c = ''sites'' \<or> truthy (get_prop args ''site-id'')
                              then unknown_subcommand c subs else error_obj ''--site-id required''))) \<and>
    object_keys klaviyo_usage = [''error'', ''usage''] \<and>
    object_keys semrush_usage = [''error'', ''usage''] \<and>
    object_keys mixpanel_usage = [''error'', ''usage''] \<and>
    object_keys trustpilot_usage = [''error'', ''usage''] \<and>
    object_keys hotjar_usage = [''error'', ''usage''] \<and>
    (\<forall>c subs. object_keys (unknown_subcommand c subs) = [''error''])"
proof (intro conjI allI impI)
  show "object_keys klaviyo_usage = [''error'', ''usage'']"
    by (simp add: klaviyo_usage_def object_keys_def)
  show "object_keys semrush_usage = [''error'', ''usage'']"
    by (simp add: semrush_usage_def object_keys_def)
  show "object_keys mixpanel_usage = [''error'', ''usage'']"
    by (simp add: mixpanel_usage_def object_keys_def)
  show "object_keys trustpilot_usage = [''error'', ''usage'']"
    by (simp add: trustpilot_usage_def object_keys_def)
  show "object_keys hotjar_usage = [''error'', ''usage'']"
    by (simp add: hotjar_usage_def object_keys_def)
  show "\<And>c subs. object_keys (unknown_subcommand c subs) = [''error'']"
    by (simp add: unknown_subcommand_def object_keys_def)
qed (rule klaviyo_unknown[OF _ assms] semrush_unknown[OF _ assms] mixpanel_unknown[OF _ assms]
      trustpilot_unknown[OF _ assms] hotjar_unknown[OF _ _ assms]; assumption)+

theorem unknown_commands_witness:
  "klaviyo (example_world [(''KLAVIYO_API_KEY'', ''pk_1'')] [''bogus'']) =
     \<lparr>stdout = [Json_pretty klaviyo_usage], stderr = [], exit_code = 0, requests = []\<rparr> \<and>
   klaviyo (example_world [(''KLAVIYO_API_KEY'', ''pk_1'')] [''profiles'', ''bogus'']) =
     \<lparr>stdout = [Json_pretty (JObj [(''error'',
                   JStr ''Unknown profiles subcommand. Use: list, get, create, update'')])],
      stderr = [], exit_code = 0, requests = []\<rparr> \<and>
   semrush (example_world [(''SEMRUSH_API_KEY'', ''sk_1'')] [''domain'', ''bogus'']) =
     \<lparr>stdout = [Json_pretty (JObj [(''error'',
                   JStr ''Unknown domain subcommand. Use: overview, organic, competitors'')])],
      stderr = [], exit_code = 0, requests = []\<rparr> \<and>
   mixpanel (example_world [(''MIXPANEL_TOKEN'', ''tok_1'')] [''bogus'']) =
     \<lparr>stdout = [Json_pretty mixpanel_usage], stderr = [], exit_code = 0, requests = []\<rparr> \<and>
   trustpilot (example_world [(''TRUSTPILOT_API_KEY'', ''k_1'')] [''reviews'', ''bogus'']) =
     \<lparr>stdout = [Json_pretty (JObj [(''error'',
                   JStr ''Unknown reviews subcommand. Use: list, get, private, latest, reply, delete-reply'')])],
      stderr = [], exit_code = 0, requests = []\<rparr> \<and>
   hotjar (example_world [(''HOTJAR_CLIENT_ID'', ''id_1''), (''HOTJAR_CLIENT_SECRET'', ''sec_1'')]
             [''surveys'', ''bogus'']) =
     \<lparr>stdout = [Json_pretty (JObj [(''error'', JStr ''--site-id required'')])],
      stderr = [], exit_code = 0, requests = []\<rparr> \<and>
   hotjar (example_world [(''HOTJAR_CLIENT_ID'', ''id_1''), (''HOTJAR_CLIENT_SECRET'', ''sec_1'')]
             [''surveys'', ''bogus'', ''--site-id'', ''1'']) =
     \<lparr>stdout = [Json_pretty (JObj [(''error'',
                   JStr ''Unknown surveys subcommand. Use: list, responses'')])],
      stderr = [], exit_code = 0, requests = []\<rparr>"
proof -
  let ?w1 = "example_world [(''KLAVIYO_API_KEY'', ''pk_1'')] [''bogus'']"
  let ?w2 = "example_world [(''KLAVIYO_API_KEY'', ''pk_1'')] [''profiles'', ''bogus'']"
  let ?w3 = "example_world [(''SEMRUSH_API_KEY'', ''sk_1'')] [''domain'', ''bogus'']"
  let ?w4 = "example_world [(''MIXPANEL_TOKEN'', ''tok_1'')] [''bogus'']"
  let ?w5 = "example_world [(''TRUSTPILOT_API_KEY'', ''k_1'')] [''reviews'', ''bogus'']"
  let ?w6 = "example_world [(''HOTJAR_CLIENT_ID'', ''id_1''), (''HOTJAR_CLIENT_SECRET'', ''sec_1'')]
               [''surveys'', ''bogus'']"
  let ?w7 = "example_world [(''HOTJAR_CLIENT_ID'', ''id_1''), (''HOTJAR_CLIENT_SECRET'', ''sec_1'')]
               [''surveys'', ''bogus'', ''--site-id'', ''1'']"
  let ?a1 = "[''_'' \<mapsto> JArr [JStr ''bogus'']]"
  let ?a2 = "[''_'' \<mapsto> JArr [JStr ''profiles'', JStr ''bogus'']]"
  let ?a3 = "[''_'' \<mapsto> JArr [JStr ''domain'', JStr ''bogus'']]"
  let ?a5 = "[''_'' \<mapsto> JArr [JStr ''reviews'', JStr ''bogus'']]"
  let ?a6 = "[''_'' \<mapsto> JArr [JStr ''surveys'', JStr ''bogus'']]"
  let ?a7 = "[''_'' \<mapsto> JArr [JStr ''surveys'', JStr ''bogus''], ''site-id'' \<mapsto> JStr ''1'']"
  have p1: "parseArgs (argv ?w1) = Inr ?a1" and p2: "parseArgs (argv ?w2) = Inr ?a2"
    and p3: "parseArgs (argv ?w3) = Inr ?a3" and p4: "parseArgs (argv ?w4) = Inr ?a1"
    and p5: "parseArgs (argv ?w5) = Inr ?a5" and p6: "parseArgs (argv ?w6) = Inr ?a6"
    and p7: "parseArgs (argv ?w7) = Inr ?a7"
    by (simp_all add: world_eval parse_eval)
  have d1: "destructure (get_prop ?a1 ''_'') = Inr (JStr ''bogus'', JUndef)"
    and d2: "destructure (get_prop ?a2 ''_'') = Inr (JStr ''profiles'', JStr ''bogus'')"
    and d3: "destructure (get_prop ?a3 ''_'') = Inr (JStr ''domain'', JStr ''bogus'')"
    and d5: "destructure (get_prop ?a5 ''_'') = Inr (JStr ''reviews'', JStr ''bogus'')"
    and d6: "destructure (get_prop ?a6 ''_'') = Inr (JStr ''surveys'', JStr ''bogus'')"
    and d7: "destructure (get_prop ?a7 ''_'') = Inr (JStr ''surveys'', JStr ''bogus'')"
    by (simp_all add: parse_eval)
  have g1: "\<not> unset ?w1 ''KLAVIYO_API_KEY''" and g2: "\<not> unset ?w2 ''KLAVIYO_API_KEY''"
    and g3: "\<not> unset ?w3 ''SEMRUSH_API_KEY''"
    and g4: "\<not> (unset ?w4 ''MIXPANEL_TOKEN'' \<and> unset ?w4 ''MIXPANEL_API_KEY'')"
    and g5: "\<not> unset ?w5 ''TRUSTPILOT_API_KEY''"
    and g6: "\<not> unset ?w6 ''HOTJAR_CLIENT_ID''" "\<not> unset ?w6 ''HOTJAR_CLIENT_SECRET''"
    and g7: "\<not> unset ?w7 ''HOTJAR_CLIENT_ID''" "\<not> unset ?w7 ''HOTJAR_CLIENT_SECRET''"
    by (simp_all add: unset_def world_eval)
  have u1: "JStr ''bogus'' \<notin> JStr ` set (map fst klaviyo_commands)"
    by (simp add: klaviyo_commands_def)
  have u4: "JStr ''bogus'' \<notin> JStr ` set (map fst mixpanel_commands)"
    by (simp add: mixpanel_commands_def)
  have m2: "(''profiles'', [''list'', ''get'', ''create'', ''update'']) \<in> set klaviyo_commands"
    by (simp add: klaviyo_commands_def)
  have m3: "(''domain'', [''overview'', ''organic'', ''competitors'']) \<in> set semrush_commands"
    by (simp add: semrush_commands_def)
  have m5: "(''reviews'', [''list'', ''get'', ''private'', ''latest'', ''reply'', ''delete-reply''])
              \<in> set trustpilot_commands"
    by (simp add: trustpilot_commands_def)
  have m6: "(''surveys'', [''list'', ''responses'']) \<in> set hotjar_commands"
    by (simp add: hotjar_commands_def)
  have n2: "JStr ''bogus'' \<notin> JStr ` set [''list'', ''get'', ''create'', ''update'']"
    and n3: "JStr ''bogus'' \<notin> JStr ` set [''overview'', ''organic'', ''competitors'']"
    and n5: "JStr ''bogus'' \<notin> JStr ` set [''list'', ''get'', ''private'', ''latest'', ''reply'', ''delete-reply'']"
    and n6: "JStr ''bogus'' \<notin> JStr ` set [''list'', ''responses'']"
    by simp_all
  note r1 = unknown_commands[OF p1 d1, THEN conjunct1, rule_format, OF g1, THEN conjunct1,
      rule_format, OF u1]
  note r2 = unknown_commands[OF p2 d2, THEN conjunct1, rule_format, OF g2, THEN conjunct2,
      rule_format, OF m2 refl n2]
  note r3 = unknown_commands[OF p3 d3, THEN conjunct2, THEN conjunct1, rule_format, OF g3,
      THEN conjunct2, rule_format, OF m3 refl n3]
  note r4 = unknown_commands[OF p4 d1, THEN conjunct2, THEN conjunct2, THEN conjunct1, rule_format,
      OF g4, THEN conjunct1, rule_format, OF u4]
  note r5 = unknown_commands[OF p5 d5, THEN conjunct2, THEN conjunct2, THEN conjunct2, THEN conjunct1,
      rule_format, OF g5, THEN conjunct2, rule_format, OF m5 refl n5]
  note r6 = unknown_commands[OF p6 d6, THEN conjunct2, THEN conjunct2, THEN conjunct2, THEN conjunct2,
      THEN conjunct1, rule_format, OF g6, THEN conjunct2, rule_format, OF m6 refl n6]
  note r7 = unknown_commands[OF p7 d7, THEN conjunct2, THEN conjunct2, THEN conjunct2, THEN conjunct2,
      THEN conjunct1, rule_format, OF g7, THEN conjunct2, rule_format, OF m6 refl n6]
  from r1 r2 r3 r4 r5 r6 r7 show ?thesis
    by (simp add: printed_def unknown_subcommand_def error_obj_def get_prop_def)
qed

end
